theory Spec2Isabelle
  imports Complex_Main
begin

section \<open>Data model of the symbolic integrators\<close>

text \<open>
  A shallow embedding of \<^verbatim>\<open>fem/symbolicintegrator.cpp\<close>. Scalars are the reals
  (exact arithmetic). A pointer to a proxy is the proxy's address (a \<open>nat\<close>, the null
  pointer is \<open>None\<close>); comparing two pointers compares the addresses.
\<close>

datatype Exception = Exception string

datatype ELEMENT_TYPE =
  ET_POINT | ET_SEGM | ET_TRIG | ET_QUAD | ET_TET | ET_PYRAMID | ET_PRISM | ET_HEX

text \<open>\<open>IntRange\<close>: the half-open range of indices from \<open>First\<close> up to \<open>Next\<close>.\<close>

type_synonym IntRange = "nat \<times> nat"

definition InRange :: "IntRange \<Rightarrow> nat \<Rightarrow> bool" where
  "InRange r i = (fst r \<le> i \<and> i < snd r)"

text \<open>
  The scoped arena hands out buffers that are not initialised; the contents of a fresh
  buffer are whatever the arena holds, so a \<open>LocalHeap\<close> is the (arbitrary) content.
\<close>

type_synonym LocalHeap = "nat \<Rightarrow> real"

record FiniteElement =
  Order :: nat

record IntegrationPoint =
  Point :: "real list"
  Weight :: real

text \<open>
  A mapped integration point: the reference point, the weight that includes the
  Jacobian, the measure, the inverse Jacobian (a list of rows) and the normal vector that
  \<open>SetNV\<close> stores.
\<close>

record BaseMappedIntegrationPoint =
  IP :: IntegrationPoint
  GetWeight :: real
  GetMeasure :: real
  GetJacobianInverse :: "real list list"
  GetNV :: "real list"

definition SetNV :: "BaseMappedIntegrationPoint \<Rightarrow> real list \<Rightarrow> BaseMappedIntegrationPoint" where
  "SetNV mip normal = mip\<lparr>GetNV := normal\<rparr>"

text \<open>
  The element transformation: its element type, its space dimension and the map of an
  integration rule to the mapped rule (\<open>trafo(ir, lh)\<close>). Its \<open>userdata\<close> slot is passed to
  every evaluation explicitly.
\<close>

record ElementTransformation =
  GetElementType :: ELEMENT_TYPE
  SpaceDim :: nat
  MapRule :: "IntegrationPoint list \<Rightarrow> BaseMappedIntegrationPoint list"

text \<open>
  The differential operator (an external collaborator, taken as a parameter):
  \<open>CalcMatrix\<close> fills the caller's \<open>Dim \<times> ndof\<close> matrix, \<open>Apply\<close> maps a dof vector to the
  values at a point, \<open>ApplyTrans\<close> maps the values at all points of a rule (one row per
  point) to a dof vector.
\<close>

record DifferentialOperator =
  Dim :: nat
  BlockDim :: nat
  DiffOrder :: nat
  UsedDofs :: "FiniteElement \<Rightarrow> IntRange"
  CalcMatrix :: "FiniteElement \<Rightarrow> BaseMappedIntegrationPoint \<Rightarrow> nat \<Rightarrow> nat \<Rightarrow> real"
  Apply :: "FiniteElement \<Rightarrow> BaseMappedIntegrationPoint \<Rightarrow> real list \<Rightarrow> real list"
  ApplyTrans :: "FiniteElement \<Rightarrow> BaseMappedIntegrationPoint list \<Rightarrow> (nat \<Rightarrow> nat \<Rightarrow> real)
                   \<Rightarrow> nat \<Rightarrow> real"

text \<open>
  \<open>ProxyFunction\<close>: the member \<open>testfunction\<close> (read by \<open>IsTestFunction()\<close>) tells a test
  proxy from a trial proxy; \<open>evaluator\<close> is the bound operator; \<open>addr\<close> is the address of
  the object (\<open>this\<close>).
\<close>

record ProxyFunction =
  addr :: nat
  IsTestFunction :: bool
  evaluator :: DifferentialOperator

text \<open>
  Modelled from the spec: \<open>ProxyFunction::Dimension()\<close> is declared in a header that is
  not among the sources; "Dimension (component count, possibly reshaped by operator block
  size)", and "a proxy's tensor slice size equals its operator's output dimension".
\<close>

definition Dimension :: "ProxyFunction \<Rightarrow> nat" where
  "Dimension proxy = Dim (evaluator proxy)"

definition Dimensions :: "ProxyFunction \<Rightarrow> nat list" where
  "Dimensions this =
     (let dim = Dim (evaluator this); blockdim = BlockDim (evaluator this)
      in if blockdim = 1 then [dim] else [dim div blockdim, blockdim])"

text \<open>
  \<open>ProxyUserData\<close>: the active test and trial proxies (pointers) with their components,
  the pinned element and dof vector, and the memo \<open>remember\<close>.
\<close>

record ProxyUserData =
  testfunction :: "nat option"
  test_comp :: nat
  trialfunction :: "nat option"
  trial_comp :: nat
  fel :: "FiniteElement option"
  elx :: "real list"
  remember :: "nat \<Rightarrow> real list list option"

text \<open>The default-constructed \<open>ProxyUserData ud;\<close> (the components are not initialised).\<close>

definition ProxyUserData_init :: "nat \<Rightarrow> nat \<Rightarrow> real list \<Rightarrow> ProxyUserData" where
  "ProxyUserData_init tc rc x =
     \<lparr>testfunction = None, test_comp = tc, trialfunction = None, trial_comp = rc,
      fel = None, elx = x, remember = (\<lambda>p. None)\<rparr>"

section \<open>ProxyFunction: Evaluate, EvaluateDeriv, EvaluateDDeriv\<close>

text \<open>\<open>m.Col(c) = 1\<close> and \<open>m = 0\<close> on a matrix stored as a list of rows.\<close>

definition SetCol :: "real list list \<Rightarrow> nat \<Rightarrow> real \<Rightarrow> real list list" where
  "SetCol m c v = map (\<lambda>row. row[c := v]) m"

definition SetZero :: "real list list \<Rightarrow> real list list" where
  "SetZero m = map (\<lambda>row. replicate (length row) 0) m"

text \<open>
  \<open>ProxyFunction::Evaluate\<close> after the null check of the userdata: a trial proxy with a
  pinned element applies its operator and returns; otherwise the result is zeroed and
  the marks of the active test and trial proxy are written.
\<close>

definition Evaluate_ud ::
  "ProxyFunction \<Rightarrow> ProxyUserData \<Rightarrow> BaseMappedIntegrationPoint \<Rightarrow> real list \<Rightarrow> real list" where
  "Evaluate_ud this ud mip result =
     (case (IsTestFunction this, fel ud) of
        (False, Some el) \<Rightarrow> Apply (evaluator this) el mip (elx ud)
      | _ \<Rightarrow>
         (let result = replicate (length result) 0;
              result = (if testfunction ud = Some (addr this)
                        then result[test_comp ud := 1] else result);
              result = (if trialfunction ud = Some (addr this)
                        then result[trial_comp ud := 1] else result)
          in result))"

definition Evaluate ::
  "ProxyFunction \<Rightarrow> ProxyUserData option \<Rightarrow> BaseMappedIntegrationPoint \<Rightarrow> real list
     \<Rightarrow> Exception + real list" where
  "Evaluate this userdata mip result =
     (case userdata of
        None \<Rightarrow> Inl (Exception ''cannot evaluate ProxyFunction without userdata'')
      | Some ud \<Rightarrow> Inr (Evaluate_ud this ud mip result))"

text \<open>The batched \<open>Apply\<close> of the operator: one row per point of the rule.\<close>

definition ApplyRule ::
  "DifferentialOperator \<Rightarrow> FiniteElement \<Rightarrow> BaseMappedIntegrationPoint list \<Rightarrow> real list
     \<Rightarrow> real list list" where
  "ApplyRule diffop el mir x = map (\<lambda>mip. Apply diffop el mip x) mir"

definition EvaluateDeriv_ud ::
  "ProxyFunction \<Rightarrow> ProxyUserData \<Rightarrow> BaseMappedIntegrationPoint list
     \<Rightarrow> real list list \<Rightarrow> real list list \<Rightarrow> real list list \<times> real list list" where
  "EvaluateDeriv_ud this ud mir result deriv =
     (let deriv = SetZero deriv;
          result = SetZero result;
          result = (case (IsTestFunction this, fel ud) of
                      (False, Some el) \<Rightarrow> ApplyRule (evaluator this) el mir (elx ud)
                    | _ \<Rightarrow> result);
          result = (if testfunction ud = Some (addr this)
                    then SetCol result (test_comp ud) 1 else result);
          deriv = (if trialfunction ud = Some (addr this)
                   then SetCol deriv (trial_comp ud) 1 else deriv)
      in (result, deriv))"

definition EvaluateDeriv ::
  "ProxyFunction \<Rightarrow> ProxyUserData option \<Rightarrow> BaseMappedIntegrationPoint list
     \<Rightarrow> real list list \<Rightarrow> real list list \<Rightarrow> Exception + real list list \<times> real list list" where
  "EvaluateDeriv this userdata mir result deriv =
     (case userdata of
        None \<Rightarrow> Inl (Exception ''cannot evaluate ProxyFunction'')
      | Some ud \<Rightarrow> Inr (EvaluateDeriv_ud this ud mir result deriv))"

definition EvaluateDDeriv_ud ::
  "ProxyFunction \<Rightarrow> ProxyUserData \<Rightarrow> BaseMappedIntegrationPoint list
     \<Rightarrow> real list list \<Rightarrow> real list list \<Rightarrow> real list list
     \<Rightarrow> real list list \<times> real list list \<times> real list list" where
  "EvaluateDDeriv_ud this ud mir result deriv dderiv =
     (let result = SetZero result;
          deriv = SetZero deriv;
          dderiv = SetZero dderiv;
          result = (case (IsTestFunction this, fel ud) of
                      (False, Some el) \<Rightarrow>
                        (case remember ud (addr this) of
                           Some m \<Rightarrow> m
                         | None \<Rightarrow> ApplyRule (evaluator this) el mir (elx ud))
                    | _ \<Rightarrow> result);
          deriv = (if testfunction ud = Some (addr this)
                   then SetCol deriv (test_comp ud) 1 else deriv);
          deriv = (if trialfunction ud = Some (addr this)
                   then SetCol deriv (trial_comp ud) 1 else deriv)
      in (result, deriv, dderiv))"

definition EvaluateDDeriv ::
  "ProxyFunction \<Rightarrow> ProxyUserData option \<Rightarrow> BaseMappedIntegrationPoint list
     \<Rightarrow> real list list \<Rightarrow> real list list \<Rightarrow> real list list
     \<Rightarrow> Exception + real list list \<times> real list list \<times> real list list" where
  "EvaluateDDeriv this userdata mir result deriv dderiv =
     (case userdata of
        None \<Rightarrow> Inl (Exception ''cannot evaluate ProxyFunction'')
      | Some ud \<Rightarrow> Inr (EvaluateDDeriv_ud this ud mir result deriv dderiv))"

section \<open>Matrices, vectors and tensors\<close>

text \<open>
  A \<open>FlatMatrix\<close> is its height, its width and its entries; a \<open>FlatVector\<close> its size
  and its entries; a \<open>Tensor<3>\<close> its three extents and its entries.
\<close>

record FlatMatrix =
  Height :: nat
  Width :: nat
  Elem :: "nat \<Rightarrow> nat \<Rightarrow> real"

record FlatVector =
  Size :: nat
  VElem :: "nat \<Rightarrow> real"

record Tensor3 =
  Dim0 :: nat
  Dim1 :: nat
  Dim2 :: nat
  TElem :: "nat \<Rightarrow> nat \<Rightarrow> nat \<Rightarrow> real"

text \<open>Fresh buffers: the extents are set, the entries are what the arena holds.\<close>

definition NewMatrix :: "nat \<Rightarrow> nat \<Rightarrow> LocalHeap \<Rightarrow> FlatMatrix" where
  "NewMatrix h w lh = \<lparr>Height = h, Width = w, Elem = (\<lambda>i j. lh (i + h * j))\<rparr>"

definition NewVector :: "nat \<Rightarrow> LocalHeap \<Rightarrow> FlatVector" where
  "NewVector n lh = \<lparr>Size = n, VElem = lh\<rparr>"

definition NewTensor :: "nat \<Rightarrow> nat \<Rightarrow> nat \<Rightarrow> LocalHeap \<Rightarrow> Tensor3" where
  "NewTensor n0 n1 n2 lh =
     \<lparr>Dim0 = n0, Dim1 = n1, Dim2 = n2, TElem = (\<lambda>i l k. lh ((i * n1 + l) * n2 + k))\<rparr>"

text \<open>\<open>m = 0\<close>, \<open>v = 0\<close>.\<close>

definition MatZero :: "FlatMatrix \<Rightarrow> FlatMatrix" where
  "MatZero m = m\<lparr>Elem := (\<lambda>i j. 0)\<rparr>"

definition VecZero :: "FlatVector \<Rightarrow> FlatVector" where
  "VecZero v = v\<lparr>VElem := (\<lambda>i. 0)\<rparr>"

text \<open>\<open>Trans (a)\<close>, \<open>a * b\<close>, \<open>a.Cols(r)\<close>.\<close>

definition Trans :: "FlatMatrix \<Rightarrow> FlatMatrix" where
  "Trans a = \<lparr>Height = Width a, Width = Height a, Elem = (\<lambda>i j. Elem a j i)\<rparr>"

definition Mult :: "FlatMatrix \<Rightarrow> FlatMatrix \<Rightarrow> FlatMatrix" where
  "Mult a b =
     \<lparr>Height = Height a, Width = Width b,
      Elem = (\<lambda>i j. \<Sum>k<Width a. Elem a i k * Elem b k j)\<rparr>"

definition Cols :: "FlatMatrix \<Rightarrow> IntRange \<Rightarrow> FlatMatrix" where
  "Cols a r = \<lparr>Height = Height a, Width = snd r - fst r, Elem = (\<lambda>i j. Elem a i (fst r + j))\<rparr>"

text \<open>\<open>m.Rows(r) = x\<close>.\<close>

definition AssignRows :: "FlatMatrix \<Rightarrow> IntRange \<Rightarrow> FlatMatrix \<Rightarrow> FlatMatrix" where
  "AssignRows m r x =
     m\<lparr>Elem := (\<lambda>i j. if InRange r i then Elem x (i - fst r) j else Elem m i j)\<rparr>"

text \<open>\<open>m += x\<close> and \<open>m.Rows(r2).Cols(r1) += x\<close>; \<open>v += w\<close>.\<close>

definition AddTo :: "FlatMatrix \<Rightarrow> FlatMatrix \<Rightarrow> FlatMatrix" where
  "AddTo m x = m\<lparr>Elem := (\<lambda>i j. Elem m i j + Elem x i j)\<rparr>"

definition AddToRowsCols :: "FlatMatrix \<Rightarrow> IntRange \<Rightarrow> IntRange \<Rightarrow> FlatMatrix \<Rightarrow> FlatMatrix" where
  "AddToRowsCols m r2 r1 x =
     m\<lparr>Elem := (\<lambda>i j. if InRange r2 i \<and> InRange r1 j
                        then Elem m i j + Elem x (i - fst r2) (j - fst r1)
                        else Elem m i j)\<rparr>"

definition VecAddTo :: "FlatVector \<Rightarrow> FlatVector \<Rightarrow> FlatVector" where
  "VecAddTo v w = v\<lparr>VElem := (\<lambda>i. VElem v i + VElem w i)\<rparr>"

text \<open>
  The tensor operations: \<open>t(STAR,l,k) = col\<close>, \<open>t(STAR,l,k) -= col\<close>,
  \<open>t(STAR,l,k) *= c\<close>, \<open>t(i,STAR,STAR) *= c\<close> and the matrix \<open>t(i,STAR,STAR)\<close>.
\<close>

definition AssignStar :: "Tensor3 \<Rightarrow> nat \<Rightarrow> nat \<Rightarrow> (nat \<Rightarrow> real) \<Rightarrow> Tensor3" where
  "AssignStar t l k col =
     t\<lparr>TElem := (\<lambda>i l' k'. if l' = l \<and> k' = k then col i else TElem t i l' k')\<rparr>"

definition SubStar :: "Tensor3 \<Rightarrow> nat \<Rightarrow> nat \<Rightarrow> (nat \<Rightarrow> real) \<Rightarrow> Tensor3" where
  "SubStar t l k col =
     t\<lparr>TElem := (\<lambda>i l' k'. if l' = l \<and> k' = k then TElem t i l k - col i
                             else TElem t i l' k')\<rparr>"

definition ScaleStar :: "Tensor3 \<Rightarrow> nat \<Rightarrow> nat \<Rightarrow> real \<Rightarrow> Tensor3" where
  "ScaleStar t l k c =
     t\<lparr>TElem := (\<lambda>i l' k'. if l' = l \<and> k' = k then TElem t i l k * c
                             else TElem t i l' k')\<rparr>"

definition ScalePoint :: "Tensor3 \<Rightarrow> nat \<Rightarrow> real \<Rightarrow> Tensor3" where
  "ScalePoint t i c =
     t\<lparr>TElem := (\<lambda>i' l k. if i' = i then TElem t i l k * c else TElem t i' l k)\<rparr>"

definition PointSlice :: "Tensor3 \<Rightarrow> nat \<Rightarrow> FlatMatrix" where
  "PointSlice t i = \<lparr>Height = Dim1 t, Width = Dim2 t, Elem = TElem t i\<rparr>"

text \<open>The matrix that \<open>CalcMatrix\<close> writes into the caller's \<open>Dimension \<times> ndof\<close> buffer.\<close>

definition BMatrix ::
  "ProxyFunction \<Rightarrow> FiniteElement \<Rightarrow> BaseMappedIntegrationPoint \<Rightarrow> nat \<Rightarrow> FlatMatrix" where
  "BMatrix proxy el mip ndof =
     \<lparr>Height = Dimension proxy, Width = ndof, Elem = CalcMatrix (evaluator proxy) el mip\<rparr>"

section \<open>The point-blocked contraction\<close>

text \<open>
  The loop \<open>for ( ; i+BS <= mir.Size(); i+=BS)\<close>: it returns the \<open>i\<close> it stops at and the
  accumulated matrix. (\<open>BS\<close> is the constant 16 in the source; a block size 0 would never
  advance.)
\<close>

definition BS :: nat where
  "BS = 16"

function block_loop ::
  "nat \<Rightarrow> nat \<Rightarrow> (nat \<Rightarrow> FlatMatrix \<Rightarrow> FlatMatrix) \<Rightarrow> nat \<Rightarrow> FlatMatrix \<Rightarrow> nat \<times> FlatMatrix" where
  "block_loop bs n body i elmat =
     (if 0 < bs \<and> i + bs \<le> n then block_loop bs n body (i + bs) (body i elmat)
      else (i, elmat))"
  by pat_completeness auto
termination
  by (relation "measure (\<lambda>(bs, n, body, i, elmat). n - i)") auto

declare block_loop.simps [simp del]

text \<open>
  The loop over the points \<open>j\<close> of one block that starts at point \<open>i\<close>: it stacks
  \<open>proxyvalues(ii,STAR,STAR) * bmat1\<close> into the rows \<open>r2\<close> of \<open>bdbmat1\<close> and \<open>bmat2\<close> into
  the rows \<open>r2\<close> of \<open>bbmat2\<close>.
\<close>

definition fill_block ::
  "FiniteElement \<Rightarrow> BaseMappedIntegrationPoint list \<Rightarrow> ProxyFunction \<Rightarrow> ProxyFunction
     \<Rightarrow> Tensor3 \<Rightarrow> FlatMatrix \<Rightarrow> nat \<Rightarrow> nat \<Rightarrow> FlatMatrix \<times> FlatMatrix
     \<Rightarrow> FlatMatrix \<times> FlatMatrix" where
  "fill_block el mir proxy1 proxy2 proxyvalues elmat i n bufs =
     foldl (\<lambda>(bdbmat1, bbmat2) j.
              let ii = i + j;
                  r2 = (Dimension proxy2 * j, Dimension proxy2 * (j + 1));
                  bmat1 = BMatrix proxy1 el (mir ! ii) (Width elmat);
                  bmat2 = BMatrix proxy2 el (mir ! ii) (Height elmat)
              in (AssignRows bdbmat1 r2 (Mult (PointSlice proxyvalues ii) bmat1),
                  AssignRows bbmat2 r2 bmat2))
       bufs [0..<n]"

text \<open>
  The two accumulation statements: the volume bilinear form adds into the used dofs,
  \<open>elmat.Rows(r2).Cols(r1) += Trans (bbmat2.Cols(r2)) * bdbmat1.Cols(r1)\<close>, the energy adds
  the whole product, \<open>elmat += Trans (bbmat2) * bdbmat1\<close>.
\<close>

definition accumulate_used ::
  "IntRange \<Rightarrow> IntRange \<Rightarrow> FlatMatrix \<Rightarrow> FlatMatrix \<times> FlatMatrix \<Rightarrow> FlatMatrix" where
  "accumulate_used r2 r1 elmat bufs =
     (case bufs of (bdbmat1, bbmat2) \<Rightarrow>
        AddToRowsCols elmat r2 r1 (Mult (Trans (Cols bbmat2 r2)) (Cols bdbmat1 r1)))"

definition accumulate_all :: "FlatMatrix \<Rightarrow> FlatMatrix \<times> FlatMatrix \<Rightarrow> FlatMatrix" where
  "accumulate_all elmat bufs =
     (case bufs of (bdbmat1, bbmat2) \<Rightarrow> AddTo elmat (Mult (Trans bbmat2) bdbmat1))"

text \<open>
  The contraction of one proxy pair: the full blocks of \<open>bs\<close> points, then the trailing
  partial block, each with fresh stacked matrices.
\<close>

definition contract_blocked ::
  "nat \<Rightarrow> (FlatMatrix \<Rightarrow> FlatMatrix \<times> FlatMatrix \<Rightarrow> FlatMatrix) \<Rightarrow> LocalHeap \<Rightarrow> FiniteElement
     \<Rightarrow> BaseMappedIntegrationPoint list \<Rightarrow> ProxyFunction \<Rightarrow> ProxyFunction \<Rightarrow> Tensor3
     \<Rightarrow> FlatMatrix \<Rightarrow> FlatMatrix" where
  "contract_blocked bs accumulate lh el mir proxy1 proxy2 proxyvalues elmat =
     (case block_loop bs (length mir)
             (\<lambda>i elmat.
                 accumulate elmat
                   (fill_block el mir proxy1 proxy2 proxyvalues elmat i bs
                      (NewMatrix (bs * Dimension proxy2) (Width elmat) lh,
                       NewMatrix (bs * Dimension proxy2) (Height elmat) lh)))
             0 elmat of
        (i, elmat) \<Rightarrow>
          if i < length mir
          then (let rest = length mir - i
                in accumulate elmat
                     (fill_block el mir proxy1 proxy2 proxyvalues elmat i rest
                        (NewMatrix (rest * Dimension proxy2) (Width elmat) lh,
                         NewMatrix (rest * Dimension proxy2) (Height elmat) lh)))
          else elmat)"

text \<open>
  The naive contraction, one point at a time: \<open>dbmat1 = proxyvalues(i,STAR,STAR) * bmat1\<close>
  and then \<open>elmat += Trans (bmat2) * dbmat1\<close>, for the volume bilinear form restricted to
  the used dofs.
\<close>

definition contract_pointwise_used ::
  "IntRange \<Rightarrow> IntRange \<Rightarrow> FiniteElement \<Rightarrow> BaseMappedIntegrationPoint list \<Rightarrow> ProxyFunction
     \<Rightarrow> ProxyFunction \<Rightarrow> Tensor3 \<Rightarrow> FlatMatrix \<Rightarrow> FlatMatrix" where
  "contract_pointwise_used r2 r1 el mir proxy1 proxy2 proxyvalues elmat =
     foldl (\<lambda>elmat i.
              let bmat1 = BMatrix proxy1 el (mir ! i) (Width elmat);
                  bmat2 = BMatrix proxy2 el (mir ! i) (Height elmat);
                  dbmat1 = Mult (PointSlice proxyvalues i) bmat1
              in AddToRowsCols elmat r2 r1 (Mult (Trans (Cols bmat2 r2)) (Cols dbmat1 r1)))
       elmat [0..<length mir]"

definition contract_pointwise_all ::
  "FiniteElement \<Rightarrow> BaseMappedIntegrationPoint list \<Rightarrow> ProxyFunction
     \<Rightarrow> ProxyFunction \<Rightarrow> Tensor3 \<Rightarrow> FlatMatrix \<Rightarrow> FlatMatrix" where
  "contract_pointwise_all el mir proxy1 proxy2 proxyvalues elmat =
     foldl (\<lambda>elmat i.
              let bmat1 = BMatrix proxy1 el (mir ! i) (Width elmat);
                  bmat2 = BMatrix proxy2 el (mir ! i) (Height elmat);
                  dbmat1 = Mult (PointSlice proxyvalues i) bmat1
              in AddTo elmat (Mult (Trans bmat2) dbmat1))
       elmat [0..<length mir]"

section \<open>Expressions and external providers\<close>

text \<open>
  The expression tree (an external collaborator, taken as a parameter): its dimension,
  the proxy nodes that \<open>TraverseTree\<close> visits (in visiting order; every other node fails
  the \<open>dynamic_cast\<close> of the visitors), and the evaluations. The userdata that the source
  reaches through the transformation of the point is an explicit argument. The batched
  evaluations return the single column of their \<open>mir.Size() \<times> 1\<close> output matrices.
\<close>

record CoefficientFunction =
  cf_Dimension :: nat
  TraverseTree :: "ProxyFunction list"
  cf_Evaluate :: "ProxyUserData \<Rightarrow> BaseMappedIntegrationPoint \<Rightarrow> real"
  cf_EvaluateRule :: "ProxyUserData \<Rightarrow> BaseMappedIntegrationPoint list \<Rightarrow> nat \<Rightarrow> real"
  cf_EvaluateDeriv ::
    "ProxyUserData \<Rightarrow> BaseMappedIntegrationPoint list \<Rightarrow> (nat \<Rightarrow> real) \<times> (nat \<Rightarrow> real)"
  cf_EvaluateDDeriv ::
    "ProxyUserData \<Rightarrow> BaseMappedIntegrationPoint list
       \<Rightarrow> (nat \<Rightarrow> real) \<times> (nat \<Rightarrow> real) \<times> (nat \<Rightarrow> real)"

text \<open>
  The quadrature rules and the element topology (external, taken as parameters):
  \<open>IntegrationRule (et, order)\<close>, \<open>ElementTopology::GetNFacets\<close>, \<open>GetNormals\<close>,
  \<open>GetFacetType\<close> and the map \<open>Facet2ElementTrafo\<close> of a facet rule into the element.
\<close>

record Externals =
  IntegrationRule :: "ELEMENT_TYPE \<Rightarrow> nat \<Rightarrow> IntegrationPoint list"
  GetNFacets :: "ELEMENT_TYPE \<Rightarrow> nat"
  GetNormals :: "ELEMENT_TYPE \<Rightarrow> real list list"
  GetFacetType :: "ELEMENT_TYPE \<Rightarrow> nat \<Rightarrow> ELEMENT_TYPE"
  Facet2ElementTrafo :: "ELEMENT_TYPE \<Rightarrow> nat \<Rightarrow> IntegrationPoint list \<Rightarrow> IntegrationPoint list"

datatype VorB = VOL | BND

text \<open>\<open>Array::Contains\<close> on an array of proxy pointers.\<close>

definition Contains :: "ProxyFunction list \<Rightarrow> ProxyFunction \<Rightarrow> bool" where
  "Contains ps p = (addr p \<in> set (map addr ps))"

text \<open>\<open>m.Col(k) = col\<close>, \<open>m.Row(i) *= c\<close>, \<open>m(l,k) = v\<close>.\<close>

definition AssignCol :: "FlatMatrix \<Rightarrow> nat \<Rightarrow> (nat \<Rightarrow> real) \<Rightarrow> FlatMatrix" where
  "AssignCol m k col = m\<lparr>Elem := (\<lambda>i j. if j = k then col i else Elem m i j)\<rparr>"

definition ScaleRow :: "FlatMatrix \<Rightarrow> nat \<Rightarrow> real \<Rightarrow> FlatMatrix" where
  "ScaleRow m i c = m\<lparr>Elem := (\<lambda>i' j. if i' = i then Elem m i j * c else Elem m i' j)\<rparr>"

definition AssignElem :: "FlatMatrix \<Rightarrow> nat \<Rightarrow> nat \<Rightarrow> real \<Rightarrow> FlatMatrix" where
  "AssignElem m l k v = m\<lparr>Elem := (\<lambda>i j. if i = l \<and> j = k then v else Elem m i j)\<rparr>"

section \<open>SymbolicLinearFormIntegrator\<close>

record SymbolicLinearFormIntegrator =
  lfi_cf :: CoefficientFunction
  lfi_vb :: VorB
  lfi_proxies :: "ProxyFunction list"

definition new_SymbolicLinearFormIntegrator ::
  "CoefficientFunction \<Rightarrow> VorB \<Rightarrow> Exception + SymbolicLinearFormIntegrator" where
  "new_SymbolicLinearFormIntegrator acf avb =
     (if cf_Dimension acf \<noteq> 1
      then Inl (Exception ''SymbolicLFI needs scalar-valued CoefficientFunction'')
      else Inr \<lparr>lfi_cf = acf, lfi_vb = avb,
                lfi_proxies =
                  foldl (\<lambda>proxies proxy.
                           if \<not> Contains proxies proxy then proxies @ [proxy] else proxies)
                    [] (TraverseTree acf)\<rparr>)"

text \<open>
  \<open>T_CalcElementVector\<close>. The userdata is overwritten before each evaluation, so each
  evaluation sees the fresh userdata with its own seed.
\<close>

definition T_CalcElementVector ::
  "Externals \<Rightarrow> SymbolicLinearFormIntegrator \<Rightarrow> FiniteElement \<Rightarrow> ElementTransformation
     \<Rightarrow> FlatVector \<Rightarrow> LocalHeap \<Rightarrow> FlatVector" where
  "T_CalcElementVector ext this el trafo elvec lh =
     (let ir = IntegrationRule ext (GetElementType trafo) (2 * Order el);
          mir = MapRule trafo ir;
          ud = ProxyUserData_init 0 0 [];
          elvec = VecZero elvec
      in foldl (\<lambda>elvec proxy.
                  let proxyvalues =
                        foldl (\<lambda>proxyvalues k.
                                 let ud = ud\<lparr>testfunction := Some (addr proxy), test_comp := k\<rparr>;
                                     values = NewMatrix (length ir) 1 lh;
                                     values = AssignCol values 0 (cf_EvaluateRule (lfi_cf this) ud mir);
                                     values = foldl (\<lambda>values i. ScaleRow values i (GetWeight (mir ! i)))
                                                values [0..<length mir]
                                 in AssignCol proxyvalues k (\<lambda>i. Elem values i 0))
                          (NewMatrix (length ir) (Dimension proxy) lh) [0..<Dimension proxy];
                      elvec1 = \<lparr>Size = Size elvec,
                                VElem = ApplyTrans (evaluator proxy) el mir (Elem proxyvalues)\<rparr>
                  in VecAddTo elvec elvec1)
           elvec (lfi_proxies this))"

section \<open>SymbolicBilinearFormIntegrator\<close>

record SymbolicBilinearFormIntegrator =
  bfi_cf :: CoefficientFunction
  bfi_vb :: VorB
  element_boundary :: bool
  trial_proxies :: "ProxyFunction list"
  test_proxies :: "ProxyFunction list"

definition new_SymbolicBilinearFormIntegrator ::
  "CoefficientFunction \<Rightarrow> VorB \<Rightarrow> bool \<Rightarrow> Exception + SymbolicBilinearFormIntegrator" where
  "new_SymbolicBilinearFormIntegrator acf avb aelement_boundary =
     (if cf_Dimension acf \<noteq> 1
      then Inl (Exception ''SymblicBFI needs scalar-valued CoefficientFunction'')
      else
        (case foldl (\<lambda>(trial, test) proxy.
                       if IsTestFunction proxy
                       then (if \<not> Contains test proxy then (trial, test @ [proxy])
                             else (trial, test))
                       else (if \<not> Contains trial proxy then (trial @ [proxy], test)
                             else (trial, test)))
                ([], []) (TraverseTree acf) of
           (trial, test) \<Rightarrow>
             Inr \<lparr>bfi_cf = acf, bfi_vb = avb, element_boundary = aelement_boundary,
                  trial_proxies = trial, test_proxies = test\<rparr>))"

text \<open>
  The tensor of one proxy pair in the volume assembly: one evaluation of the whole rule
  for every component pair, stored into \<open>proxyvalues(STAR,l,k)\<close>, then every point scaled
  by its weight.
\<close>

definition volume_proxyvalues ::
  "CoefficientFunction \<Rightarrow> ProxyUserData \<Rightarrow> BaseMappedIntegrationPoint list \<Rightarrow> LocalHeap
     \<Rightarrow> ProxyFunction \<Rightarrow> ProxyFunction \<Rightarrow> Tensor3" where
  "volume_proxyvalues cf ud mir lh proxy1 proxy2 =
     (let proxyvalues = NewTensor (length mir) (Dimension proxy2) (Dimension proxy1) lh;
          proxyvalues =
            foldl (\<lambda>proxyvalues k.
                     foldl (\<lambda>proxyvalues l.
                              let ud = ud\<lparr>trialfunction := Some (addr proxy1), trial_comp := k,
                                          testfunction := Some (addr proxy2), test_comp := l\<rparr>;
                                  val = cf_EvaluateRule cf ud mir
                              in AssignStar proxyvalues l k val)
                       proxyvalues [0..<Dimension proxy2])
              proxyvalues [0..<Dimension proxy1]
      in foldl (\<lambda>proxyvalues i. ScalePoint proxyvalues i (GetWeight (mir ! i)))
           proxyvalues [0..<length mir])"

text \<open>The volume part of \<open>T_CalcElementMatrix\<close> (the unused diff-orders are left out).\<close>

definition CalcElementMatrixVol ::
  "Externals \<Rightarrow> SymbolicBilinearFormIntegrator \<Rightarrow> FiniteElement \<Rightarrow> ElementTransformation
     \<Rightarrow> FlatMatrix \<Rightarrow> LocalHeap \<Rightarrow> FlatMatrix" where
  "CalcElementMatrixVol ext this el trafo elmat lh =
     (let intorder = 2 * Order el;
          ir = IntegrationRule ext (GetElementType trafo) intorder;
          mir = MapRule trafo ir;
          ud = ProxyUserData_init 0 0 [];
          elmat = MatZero elmat
      in foldl (\<lambda>elmat proxy1.
                  foldl (\<lambda>elmat proxy2.
                           let proxyvalues = volume_proxyvalues (bfi_cf this) ud mir lh proxy1 proxy2;
                               r1 = UsedDofs (evaluator proxy1) el;
                               r2 = UsedDofs (evaluator proxy2) el
                           in contract_blocked BS (accumulate_used r2 r1) lh el mir
                                proxy1 proxy2 proxyvalues elmat)
                    elmat (test_proxies this))
           elmat (trial_proxies this))"

text \<open>
  The normal of the element-boundary assembly at one point: \<open>det * Trans (inv_jac) *
  normal_ref\<close>, its length \<open>len\<close> (the surface measure) and the normal divided by \<open>len\<close>.
\<close>

definition L2Norm :: "real list \<Rightarrow> real" where
  "L2Norm v = sqrt (sum_list (map (\<lambda>x. x * x) v))"

definition facet_normal ::
  "nat \<Rightarrow> BaseMappedIntegrationPoint \<Rightarrow> real list \<Rightarrow> real \<times> real list" where
  "facet_normal D mip normal_ref =
     (let inv_jac = GetJacobianInverse mip;
          det = GetMeasure mip;
          normal = map (\<lambda>a. \<Sum>b<D. det * (inv_jac ! b ! a) * (normal_ref ! b)) [0..<D];
          len = L2Norm normal;
          normal = map (\<lambda>x. x / len) normal
      in (len, normal))"

text \<open>The matrix \<open>proxyvalues\<close> of one proxy pair at one point of a facet.\<close>

definition boundary_proxyvalues ::
  "CoefficientFunction \<Rightarrow> ProxyUserData \<Rightarrow> BaseMappedIntegrationPoint \<Rightarrow> real \<Rightarrow> real
     \<Rightarrow> LocalHeap \<Rightarrow> ProxyFunction \<Rightarrow> ProxyFunction \<Rightarrow> FlatMatrix" where
  "boundary_proxyvalues cf ud mip weight len lh proxy1 proxy2 =
     foldl (\<lambda>proxyvalues k.
              foldl (\<lambda>proxyvalues l.
                       let ud = ud\<lparr>trialfunction := Some (addr proxy1), trial_comp := k,
                                   testfunction := Some (addr proxy2), test_comp := l\<rparr>;
                           result = cf_Evaluate cf ud mip
                       in AssignElem proxyvalues l k (weight * len * result))
                proxyvalues [0..<Dimension proxy2])
       (NewMatrix (Dimension proxy2) (Dimension proxy1) lh) [0..<Dimension proxy1]"

definition T_CalcElementMatrixEB ::
  "nat \<Rightarrow> Externals \<Rightarrow> SymbolicBilinearFormIntegrator \<Rightarrow> FiniteElement \<Rightarrow> ElementTransformation
     \<Rightarrow> FlatMatrix \<Rightarrow> LocalHeap \<Rightarrow> FlatMatrix" where
  "T_CalcElementMatrixEB D ext this el trafo elmat lh =
     (let elmat = MatZero elmat;
          eltype = GetElementType trafo;
          nfacet = GetNFacets ext eltype;
          normals = GetNormals ext eltype
      in foldl (\<lambda>elmat k.
                  let etfacet = GetFacetType ext eltype k;
                      normal_ref = normals ! k;
                      ir_facet = IntegrationRule ext etfacet (2 * Order el);
                      ir_facet_vol = Facet2ElementTrafo ext eltype k ir_facet;
                      mir = MapRule trafo ir_facet_vol;
                      ud = ProxyUserData_init 0 0 []
                  in foldl (\<lambda>elmat i.
                              let (len, normal) = facet_normal D (mir ! i) normal_ref;
                                  mip = SetNV (mir ! i) normal
                              in foldl (\<lambda>elmat proxy1.
                                   foldl (\<lambda>elmat proxy2.
                                       let proxyvalues =
                                             boundary_proxyvalues (bfi_cf this) ud mip
                                               (Weight (ir_facet ! i)) len lh proxy1 proxy2;
                                           bmat1 = BMatrix proxy1 el mip (Width elmat);
                                           bmat2 = BMatrix proxy2 el mip (Height elmat);
                                           dbmat1 = Mult proxyvalues bmat1
                                       in AddTo elmat (Mult (Trans bmat2) dbmat1))
                                     elmat (test_proxies this))
                                   elmat (trial_proxies this))
                       elmat [0..<length mir])
           elmat [0..<nfacet])"

definition T_CalcElementMatrix ::
  "Externals \<Rightarrow> SymbolicBilinearFormIntegrator \<Rightarrow> FiniteElement \<Rightarrow> ElementTransformation
     \<Rightarrow> FlatMatrix \<Rightarrow> LocalHeap \<Rightarrow> Exception + FlatMatrix" where
  "T_CalcElementMatrix ext this el trafo elmat lh =
     (if element_boundary this
      then (if SpaceDim trafo = 1 then Inr (T_CalcElementMatrixEB 1 ext this el trafo elmat lh)
            else if SpaceDim trafo = 2 then Inr (T_CalcElementMatrixEB 2 ext this el trafo elmat lh)
            else if SpaceDim trafo = 3 then Inr (T_CalcElementMatrixEB 3 ext this el trafo elmat lh)
            else Inl (Exception ''Illegal space dimension''))
      else Inr (CalcElementMatrixVol ext this el trafo elmat lh))"

section \<open>SymbolicEnergy\<close>

record SymbolicEnergy =
  energy_cf :: CoefficientFunction
  energy_vb :: VorB
  energy_trial_proxies :: "ProxyFunction list"

definition new_SymbolicEnergy :: "CoefficientFunction \<Rightarrow> VorB \<Rightarrow> Exception + SymbolicEnergy" where
  "new_SymbolicEnergy acf avb =
     (if cf_Dimension acf \<noteq> 1
      then Inl (Exception ''SymblicEnergy needs scalar-valued CoefficientFunction'')
      else Inr \<lparr>energy_cf = acf, energy_vb = avb,
                energy_trial_proxies =
                  foldl (\<lambda>trial proxy.
                           if \<not> IsTestFunction proxy
                           then (if \<not> Contains trial proxy then trial @ [proxy] else trial)
                           else trial)
                    [] (TraverseTree acf)\<rparr>)"

text \<open>
  The userdata of the energy integrator: the element and the dof vector are pinned;
  \<open>CalcLinearizedElementMatrix\<close> also remembers the field of every trial proxy.
\<close>

definition pinned_userdata :: "FiniteElement \<Rightarrow> real list \<Rightarrow> ProxyUserData" where
  "pinned_userdata el x = (ProxyUserData_init 0 0 [])\<lparr>fel := Some el, elx := x\<rparr>"

definition remember_fields ::
  "ProxyUserData \<Rightarrow> FiniteElement \<Rightarrow> BaseMappedIntegrationPoint list \<Rightarrow> real list
     \<Rightarrow> ProxyFunction list \<Rightarrow> ProxyUserData" where
  "remember_fields ud el mir elveclin proxies =
     foldl (\<lambda>ud proxy.
              ud\<lparr>remember := (remember ud)
                    (addr proxy \<mapsto> ApplyRule (evaluator proxy) el mir elveclin)\<rparr>)
       ud proxies"

text \<open>
  The diagonal pass: \<open>diags[k1].Col(k)\<close> is the \<open>dderiv\<close> of the expression with the
  component \<open>k\<close> of the proxy \<open>k1\<close> seeded as trial and as test.
\<close>

definition diagonal_pass ::
  "CoefficientFunction \<Rightarrow> ProxyUserData \<Rightarrow> BaseMappedIntegrationPoint list \<Rightarrow> LocalHeap
     \<Rightarrow> ProxyFunction list \<Rightarrow> FlatMatrix list" where
  "diagonal_pass cf ud mir lh proxies =
     map (\<lambda>k1.
            let proxy = proxies ! k1
            in foldl (\<lambda>diag k.
                        let ud = ud\<lparr>trialfunction := Some (addr proxy), trial_comp := k,
                                    testfunction := Some (addr proxy), test_comp := k\<rparr>;
                            dderiv = snd (snd (cf_EvaluateDDeriv cf ud mir))
                        in AssignCol diag k dderiv)
                 (NewMatrix (length mir) (Dimension proxy) lh) [0..<Dimension proxy])
       [0..<length proxies]"

text \<open>
  The cross pass for the pair \<open>(k1, l1)\<close> of trial proxies: the \<open>dderiv\<close> along the combined
  seed, corrected by the two diagonals unless the two seeds are the same.
\<close>

definition linearized_proxyvalues ::
  "CoefficientFunction \<Rightarrow> ProxyUserData \<Rightarrow> BaseMappedIntegrationPoint list \<Rightarrow> LocalHeap
     \<Rightarrow> ProxyFunction list \<Rightarrow> FlatMatrix list \<Rightarrow> nat \<Rightarrow> nat \<Rightarrow> Tensor3" where
  "linearized_proxyvalues cf ud mir lh proxies diags k1 l1 =
     (let proxy1 = proxies ! k1;
          proxy2 = proxies ! l1
      in foldl (\<lambda>proxyvalues k.
                  foldl (\<lambda>proxyvalues l.
                           let ud = ud\<lparr>trialfunction := Some (addr proxy1), trial_comp := k,
                                       testfunction := Some (addr proxy2), test_comp := l\<rparr>;
                               dderiv = snd (snd (cf_EvaluateDDeriv cf ud mir));
                               proxyvalues = AssignStar proxyvalues l k dderiv
                           in if addr proxy1 \<noteq> addr proxy2 \<or> k \<noteq> l
                              then (let proxyvalues =
                                          SubStar proxyvalues l k (\<lambda>i. Elem (diags ! k1) i k);
                                        proxyvalues =
                                          SubStar proxyvalues l k (\<lambda>i. Elem (diags ! l1) i l)
                                    in ScaleStar proxyvalues l k 0.5)
                              else proxyvalues)
                    proxyvalues [0..<Dimension proxy2])
           (NewTensor (length mir) (Dimension proxy2) (Dimension proxy1) lh)
           [0..<Dimension proxy1])"

definition CalcLinearizedElementMatrix ::
  "Externals \<Rightarrow> SymbolicEnergy \<Rightarrow> FiniteElement \<Rightarrow> ElementTransformation \<Rightarrow> real list
     \<Rightarrow> FlatMatrix \<Rightarrow> LocalHeap \<Rightarrow> FlatMatrix" where
  "CalcLinearizedElementMatrix ext this el trafo elveclin elmat lh =
     (let ir = IntegrationRule ext (GetElementType trafo) (2 * Order el);
          mir = MapRule trafo ir;
          ud = pinned_userdata el elveclin;
          ud = remember_fields ud el mir elveclin (energy_trial_proxies this);
          elmat = MatZero elmat;
          diags = diagonal_pass (energy_cf this) ud mir lh (energy_trial_proxies this)
      in foldl (\<lambda>elmat k1.
                  foldl (\<lambda>elmat l1.
                           let proxy1 = energy_trial_proxies this ! k1;
                               proxy2 = energy_trial_proxies this ! l1;
                               proxyvalues =
                                 linearized_proxyvalues (energy_cf this) ud mir lh
                                   (energy_trial_proxies this) diags k1 l1;
                               proxyvalues =
                                 foldl (\<lambda>proxyvalues i.
                                          ScalePoint proxyvalues i (GetWeight (mir ! i)))
                                   proxyvalues [0..<length mir]
                           in contract_blocked BS accumulate_all lh el mir
                                proxy1 proxy2 proxyvalues elmat)
                    elmat [0..<length (energy_trial_proxies this)])
           elmat [0..<length (energy_trial_proxies this)])"

definition Energy ::
  "Externals \<Rightarrow> SymbolicEnergy \<Rightarrow> FiniteElement \<Rightarrow> ElementTransformation \<Rightarrow> real list
     \<Rightarrow> LocalHeap \<Rightarrow> real" where
  "Energy ext this el trafo x lh =
     (let ud = pinned_userdata el x;
          ir = IntegrationRule ext (GetElementType trafo) (2 * Order el);
          mir = MapRule trafo ir;
          values = cf_EvaluateRule (energy_cf this) ud mir
      in foldl (\<lambda>sum i. sum + GetWeight (mir ! i) * values i) 0 [0..<length mir])"

definition ApplyElementMatrix ::
  "Externals \<Rightarrow> SymbolicEnergy \<Rightarrow> FiniteElement \<Rightarrow> ElementTransformation \<Rightarrow> real list
     \<Rightarrow> FlatVector \<Rightarrow> LocalHeap \<Rightarrow> FlatVector" where
  "ApplyElementMatrix ext this el trafo x ely lh =
     (let ud = pinned_userdata el x;
          ir = IntegrationRule ext (GetElementType trafo) (2 * Order el);
          mir = MapRule trafo ir;
          ely = VecZero ely
      in foldl (\<lambda>ely proxy.
                  let proxyvalues =
                        foldl (\<lambda>proxyvalues k.
                                 let ud = ud\<lparr>trialfunction := Some (addr proxy), trial_comp := k\<rparr>;
                                     deriv = snd (cf_EvaluateDeriv (energy_cf this) ud mir)
                                 in AssignCol proxyvalues k deriv)
                          (NewMatrix (length mir) (Dimension proxy) lh) [0..<Dimension proxy];
                      proxyvalues =
                        foldl (\<lambda>proxyvalues i. ScaleRow proxyvalues i (GetWeight (mir ! i)))
                          proxyvalues [0..<length mir];
                      ely1 = \<lparr>Size = Size ely,
                               VElem = ApplyTrans (evaluator proxy) el mir (Elem proxyvalues)\<rparr>
                  in VecAddTo ely ely1)
           ely (energy_trial_proxies this))"

section \<open>Auxiliary notions of the statements and proofs\<close>

text \<open>
  For the proofs: the contribution of the point \<open>i\<close> of the rule to the entry \<open>(a, b)\<close>
  of \<open>Trans (bmat2) * proxyvalues(i,STAR,STAR) * bmat1\<close>.
\<close>

definition point_term ::
  "FiniteElement \<Rightarrow> BaseMappedIntegrationPoint list \<Rightarrow> ProxyFunction \<Rightarrow> ProxyFunction
     \<Rightarrow> Tensor3 \<Rightarrow> nat \<Rightarrow> nat \<Rightarrow> nat \<Rightarrow> real" where
  "point_term el mir p1 p2 pv i a b =
     (\<Sum>l<Dimension p2. CalcMatrix (evaluator p2) el (mir ! i) l a
        * (\<Sum>k<Dim2 pv. TElem pv i l k * CalcMatrix (evaluator p1) el (mir ! i) k b))"

text \<open>For the proofs: adding \<open>g\<close> to the entries that \<open>R\<close> selects.\<close>

definition acc_add :: "(nat \<Rightarrow> nat \<Rightarrow> bool) \<Rightarrow> FlatMatrix \<Rightarrow> (nat \<Rightarrow> nat \<Rightarrow> real) \<Rightarrow> FlatMatrix" where
  "acc_add R elmat g =
     elmat\<lparr>Elem := (\<lambda>a b. if R a b then Elem elmat a b + g a b else Elem elmat a b)\<rparr>"

definition used_rect :: "IntRange \<Rightarrow> IntRange \<Rightarrow> nat \<Rightarrow> nat \<Rightarrow> bool" where
  "used_rect r2 r1 a b = (InRange r2 a \<and> InRange r1 b)"

text \<open>A tensor and a matrix with one entry, for the closed examples.\<close>

definition tensor_111 :: "real \<Rightarrow> Tensor3" where
  "tensor_111 c = \<lparr>Dim0 = 1, Dim1 = 1, Dim2 = 1, TElem = (\<lambda>i l k. c)\<rparr>"

definition elmat_11 :: "real \<Rightarrow> FlatMatrix" where
  "elmat_11 c = \<lparr>Height = 1, Width = 1, Elem = (\<lambda>a b. c)\<rparr>"

text \<open>Concrete objects for the closed examples: a scalar identity operator on one dof.\<close>

definition id_diffop :: DifferentialOperator where
  "id_diffop =
     \<lparr>Dim = 1, BlockDim = 1, DiffOrder = 0, UsedDofs = (\<lambda>el. (0, 1)),
      CalcMatrix = (\<lambda>el mip k b. if k = 0 \<and> b = 0 then 1 else 0),
      Apply = (\<lambda>el mip x. [x ! 0]),
      ApplyTrans = (\<lambda>el mir vals b. if b = 0 then (\<Sum>i<length mir. vals i 0) else 0)\<rparr>"

definition trial_u :: ProxyFunction where
  "trial_u = \<lparr>addr = 1, IsTestFunction = False, evaluator = id_diffop\<rparr>"

definition test_v :: ProxyFunction where
  "test_v = \<lparr>addr = 2, IsTestFunction = True, evaluator = id_diffop\<rparr>"

definition fel0 :: FiniteElement where
  "fel0 = \<lparr>Order = 1\<rparr>"

definition mip_w :: "real \<Rightarrow> BaseMappedIntegrationPoint" where
  "mip_w w = \<lparr>IP = \<lparr>Point = [0], Weight = w\<rparr>, GetWeight = w, GetMeasure = 1,
              GetJacobianInverse = [[1]], GetNV = []\<rparr>"

definition ud_test_v :: ProxyUserData where
  "ud_test_v = (ProxyUserData_init 0 0 [])\<lparr>testfunction := Some (addr test_v), test_comp := 0\<rparr>"

definition ud_trial_pinned :: ProxyUserData where
  "ud_trial_pinned =
     (ProxyUserData_init 0 0 [5])\<lparr>trialfunction := Some (addr trial_u), trial_comp := 0,
                                  fel := Some fel0\<rparr>"

text \<open>For the proofs: the userdata with the trial and the test seed set.\<close>

definition seeded :: "ProxyUserData \<Rightarrow> ProxyFunction \<Rightarrow> nat \<Rightarrow> ProxyFunction \<Rightarrow> nat \<Rightarrow> ProxyUserData" where
  "seeded ud proxy1 k proxy2 l =
     ud\<lparr>trialfunction := Some (addr proxy1), trial_comp := k,
        testfunction := Some (addr proxy2), test_comp := l\<rparr>"

text \<open>For the proofs: adding \<open>g\<close> to every entry.\<close>

definition mat_add :: "FlatMatrix \<Rightarrow> (nat \<Rightarrow> nat \<Rightarrow> real) \<Rightarrow> FlatMatrix" where
  "mat_add elmat g = elmat\<lparr>Elem := (\<lambda>a b. Elem elmat a b + g a b)\<rparr>"

text \<open>The contribution of one proxy pair of the volume form to the entry \<open>(a, b)\<close>.\<close>

definition volume_pair_term ::
  "CoefficientFunction \<Rightarrow> ProxyUserData \<Rightarrow> FiniteElement \<Rightarrow> BaseMappedIntegrationPoint list
     \<Rightarrow> ProxyFunction \<Rightarrow> ProxyFunction \<Rightarrow> nat \<Rightarrow> nat \<Rightarrow> real" where
  "volume_pair_term cf ud el mir p1 p2 a b =
     (if used_rect (UsedDofs (evaluator p2) el) (UsedDofs (evaluator p1) el) a b
      then (\<Sum>i<length mir. \<Sum>l<Dimension p2. CalcMatrix (evaluator p2) el (mir ! i) l a
              * (\<Sum>k<Dimension p1. cf_EvaluateRule cf (seeded ud p1 k p2 l) mir i
                     * GetWeight (mir ! i) * CalcMatrix (evaluator p1) el (mir ! i) k b))
      else 0)"

text \<open>
  Modelled from the spec: the contract of the (external) differential operator with its
  used dofs, "Used dofs: local dof subrange written/read by a given operator": the
  columns of the matrix of the operator vanish outside the used dofs, respectively the
  result of its transposed application vanishes outside the used dofs.
\<close>

definition matrix_confined_to_used_dofs :: "FiniteElement \<Rightarrow> ProxyFunction \<Rightarrow> bool" where
  "matrix_confined_to_used_dofs el proxy =
     (\<forall>b. \<not> InRange (UsedDofs (evaluator proxy) el) b \<longrightarrow>
          (\<forall>mip l. CalcMatrix (evaluator proxy) el mip l b = 0))"

definition transposed_confined_to_used_dofs :: "FiniteElement \<Rightarrow> ProxyFunction \<Rightarrow> bool" where
  "transposed_confined_to_used_dofs el proxy =
     (\<forall>b. \<not> InRange (UsedDofs (evaluator proxy) el) b \<longrightarrow>
          (\<forall>mir vals. ApplyTrans (evaluator proxy) el mir vals b = 0))"

text \<open>
  The entry \<open>(a, b)\<close> lies in no used-dof rectangle of a test proxy (rows) and a trial
  proxy (columns); the index \<open>b\<close> lies in no used-dof range.
\<close>

definition outside_rectangles ::
  "FiniteElement \<Rightarrow> ProxyFunction list \<Rightarrow> ProxyFunction list \<Rightarrow> nat \<Rightarrow> nat \<Rightarrow> bool" where
  "outside_rectangles el trial test a b =
     (\<forall>p1\<in>set trial. \<forall>p2\<in>set test.
        \<not> (InRange (UsedDofs (evaluator p2) el) a \<and> InRange (UsedDofs (evaluator p1) el) b))"

definition outside_ranges :: "FiniteElement \<Rightarrow> ProxyFunction list \<Rightarrow> nat \<Rightarrow> bool" where
  "outside_ranges el proxies b =
     (\<forall>p\<in>set proxies. \<not> InRange (UsedDofs (evaluator p) el) b)"

section \<open>Expression nodes\<close>

text \<open>
  A scalar proxy as the root of an expression: the evaluations of the expression are
  the component 0 of the evaluations of the proxy, on buffers of the size of the rule.
\<close>

definition ProxyCF :: "ProxyFunction \<Rightarrow> CoefficientFunction" where
  "ProxyCF proxy =
     \<lparr>cf_Dimension = Dimension proxy,
      TraverseTree = [proxy],
      cf_Evaluate = (\<lambda>ud mip. Evaluate_ud proxy ud mip (replicate (Dimension proxy) 0) ! 0),
      cf_EvaluateRule =
        (\<lambda>ud mir i. Evaluate_ud proxy ud (mir ! i) (replicate (Dimension proxy) 0) ! 0),
      cf_EvaluateDeriv =
        (\<lambda>ud mir.
           let z = replicate (length mir) (replicate (Dimension proxy) 0);
               r = EvaluateDeriv_ud proxy ud mir z z
           in (\<lambda>i. fst r ! i ! 0, \<lambda>i. snd r ! i ! 0)),
      cf_EvaluateDDeriv =
        (\<lambda>ud mir.
           let z = replicate (length mir) (replicate (Dimension proxy) 0);
               r = EvaluateDDeriv_ud proxy ud mir z z z
           in (\<lambda>i. fst r ! i ! 0, \<lambda>i. fst (snd r) ! i ! 0, \<lambda>i. snd (snd r) ! i ! 0))\<rparr>"

text \<open>
  Modelled from the spec: the composition nodes of the expression tree are external
  ("Expression node (external): arbitrary composition supporting point-wise Evaluate /
  EvaluateDeriv / EvaluateDDeriv"); \<open>EvaluateDeriv\<close> yields the first and \<open>EvaluateDDeriv\<close>
  the second directional derivative along the seed. The constant, the sum, the product
  and the multiple of scalar expressions, with the sum, product and chain rules;
  \<open>TraverseTree\<close> visits the operands from left to right.
\<close>

definition ConstantCF :: "real \<Rightarrow> CoefficientFunction" where
  "ConstantCF c =
     \<lparr>cf_Dimension = 1, TraverseTree = [],
      cf_Evaluate = (\<lambda>ud mip. c),
      cf_EvaluateRule = (\<lambda>ud mir i. c),
      cf_EvaluateDeriv = (\<lambda>ud mir. (\<lambda>i. c, \<lambda>i. 0)),
      cf_EvaluateDDeriv = (\<lambda>ud mir. (\<lambda>i. c, \<lambda>i. 0, \<lambda>i. 0))\<rparr>"

definition AddCF :: "CoefficientFunction \<Rightarrow> CoefficientFunction \<Rightarrow> CoefficientFunction" where
  "AddCF f g =
     \<lparr>cf_Dimension = cf_Dimension f, TraverseTree = TraverseTree f @ TraverseTree g,
      cf_Evaluate = (\<lambda>ud mip. cf_Evaluate f ud mip + cf_Evaluate g ud mip),
      cf_EvaluateRule = (\<lambda>ud mir i. cf_EvaluateRule f ud mir i + cf_EvaluateRule g ud mir i),
      cf_EvaluateDeriv =
        (\<lambda>ud mir.
           let a = cf_EvaluateDeriv f ud mir; b = cf_EvaluateDeriv g ud mir
           in (\<lambda>i. fst a i + fst b i, \<lambda>i. snd a i + snd b i)),
      cf_EvaluateDDeriv =
        (\<lambda>ud mir.
           let a = cf_EvaluateDDeriv f ud mir; b = cf_EvaluateDDeriv g ud mir
           in (\<lambda>i. fst a i + fst b i, \<lambda>i. fst (snd a) i + fst (snd b) i,
               \<lambda>i. snd (snd a) i + snd (snd b) i))\<rparr>"

definition MultCF :: "CoefficientFunction \<Rightarrow> CoefficientFunction \<Rightarrow> CoefficientFunction" where
  "MultCF f g =
     \<lparr>cf_Dimension = cf_Dimension f, TraverseTree = TraverseTree f @ TraverseTree g,
      cf_Evaluate = (\<lambda>ud mip. cf_Evaluate f ud mip * cf_Evaluate g ud mip),
      cf_EvaluateRule = (\<lambda>ud mir i. cf_EvaluateRule f ud mir i * cf_EvaluateRule g ud mir i),
      cf_EvaluateDeriv =
        (\<lambda>ud mir.
           let a = cf_EvaluateDeriv f ud mir; b = cf_EvaluateDeriv g ud mir
           in (\<lambda>i. fst a i * fst b i, \<lambda>i. snd a i * fst b i + fst a i * snd b i)),
      cf_EvaluateDDeriv =
        (\<lambda>ud mir.
           let a = cf_EvaluateDDeriv f ud mir; b = cf_EvaluateDDeriv g ud mir
           in (\<lambda>i. fst a i * fst b i,
               \<lambda>i. fst (snd a) i * fst b i + fst a i * fst (snd b) i,
               \<lambda>i. snd (snd a) i * fst b i + 2 * fst (snd a) i * fst (snd b) i
                      + fst a i * snd (snd b) i))\<rparr>"

definition ScaleCF :: "real \<Rightarrow> CoefficientFunction \<Rightarrow> CoefficientFunction" where
  "ScaleCF c f =
     \<lparr>cf_Dimension = cf_Dimension f, TraverseTree = TraverseTree f,
      cf_Evaluate = (\<lambda>ud mip. c * cf_Evaluate f ud mip),
      cf_EvaluateRule = (\<lambda>ud mir i. c * cf_EvaluateRule f ud mir i),
      cf_EvaluateDeriv =
        (\<lambda>ud mir. let a = cf_EvaluateDeriv f ud mir in (\<lambda>i. c * fst a i, \<lambda>i. c * snd a i)),
      cf_EvaluateDDeriv =
        (\<lambda>ud mir.
           let a = cf_EvaluateDDeriv f ud mir
           in (\<lambda>i. c * fst a i, \<lambda>i. c * fst (snd a) i, \<lambda>i. c * snd (snd a) i))\<rparr>"

text \<open>
  A rule with one point and an element whose single mapped point has the weight \<open>M\<close>
  (the measure of the element); one facet with the reference normal \<open>[1]\<close>.
\<close>

definition one_point_rules :: Externals where
  "one_point_rules =
     \<lparr>IntegrationRule = (\<lambda>et order. [\<lparr>Point = [0], Weight = 1\<rparr>]),
      GetNFacets = (\<lambda>et. 1),
      GetNormals = (\<lambda>et. [[1]]),
      GetFacetType = (\<lambda>et k. ET_POINT),
      Facet2ElementTrafo = (\<lambda>et k ir. ir)\<rparr>"

definition trafo_measure :: "real \<Rightarrow> ElementTransformation" where
  "trafo_measure M =
     \<lparr>GetElementType = ET_SEGM, SpaceDim = 1, MapRule = map (\<lambda>ip. mip_w M)\<rparr>"

text \<open>Scenario B: the energy density \<open>0.5 * u * u\<close> of the scalar trial proxy \<open>u\<close>.\<close>

definition half_square :: CoefficientFunction where
  "half_square = ScaleCF (1 / 2) (MultCF (ProxyCF trial_u) (ProxyCF trial_u))"

definition energy_half_square :: SymbolicEnergy where
  "energy_half_square =
     \<lparr>energy_cf = half_square, energy_vb = VOL, energy_trial_proxies = [trial_u]\<rparr>"

text \<open>The weighted tensor entry of the linearized energy.\<close>

definition linearized_entry ::
  "CoefficientFunction \<Rightarrow> ProxyUserData \<Rightarrow> BaseMappedIntegrationPoint list \<Rightarrow> LocalHeap
     \<Rightarrow> ProxyFunction list \<Rightarrow> nat \<Rightarrow> nat \<Rightarrow> nat \<Rightarrow> nat \<Rightarrow> nat \<Rightarrow> real" where
  "linearized_entry cf ud mir lh proxies k1 l1 i l k =
     TElem (linearized_proxyvalues cf ud mir lh proxies
              (diagonal_pass cf ud mir lh proxies) k1 l1) i l k * GetWeight (mir ! i)"

text \<open>Scenario A and a linear form on the same element, for the closed examples.\<close>

definition bfi_mass :: SymbolicBilinearFormIntegrator where
  "bfi_mass =
     \<lparr>bfi_cf = MultCF (ProxyCF trial_u) (ProxyCF test_v), bfi_vb = VOL,
      element_boundary = False, trial_proxies = [trial_u], test_proxies = [test_v]\<rparr>"

definition lfi_v :: SymbolicLinearFormIntegrator where
  "lfi_v = \<lparr>lfi_cf = ProxyCF test_v, lfi_vb = VOL, lfi_proxies = [test_v]\<rparr>"

definition elmat_22 :: "real \<Rightarrow> FlatMatrix" where
  "elmat_22 c = \<lparr>Height = 2, Width = 2, Elem = (\<lambda>a b. c)\<rparr>"

definition elvec_2 :: "real \<Rightarrow> FlatVector" where
  "elvec_2 c = \<lparr>Size = 2, VElem = (\<lambda>b. c)\<rparr>"


text \<open>
  The seed direction of a userdata: the first-derivative mark that \<open>EvaluateDDeriv\<close> of
  the proxy at the address \<open>a\<close> writes into the column \<open>c\<close>; the direction of one seed.
\<close>

definition seed_direction :: "ProxyUserData \<Rightarrow> nat \<times> nat \<Rightarrow> real" where
  "seed_direction ud =
     (\<lambda>(a, c). if (testfunction ud = Some a \<and> test_comp ud = c)
                   \<or> (trialfunction ud = Some a \<and> trial_comp ud = c)
                then 1 else 0)"

definition unit_direction :: "nat \<times> nat \<Rightarrow> nat \<times> nat \<Rightarrow> real" where
  "unit_direction x = (\<lambda>y. if y = x then 1 else 0)"

text \<open>A symmetric bilinear form on the seed directions.\<close>

definition symmetric_bilinear ::
  "((nat \<times> nat \<Rightarrow> real) \<Rightarrow> (nat \<times> nat \<Rightarrow> real) \<Rightarrow> real) \<Rightarrow> bool" where
  "symmetric_bilinear B =
     ((\<forall>u v w. B (\<lambda>x. u x + v x) w = B u w + B v w)
      \<and> (\<forall>c u w. B (\<lambda>x. c * u x) w = c * B u w)
      \<and> (\<forall>u v. B u v = B v u))"

text \<open>
  Modelled from the spec: the component \<open>c\<close> of a (vector-valued) proxy as a scalar
  expression, and the sum of a list of expressions; with them the quadratic density
  \<open>f(u) = u\<^sup>T A u\<close> of the components of one proxy.
\<close>

definition ComponentCF :: "ProxyFunction \<Rightarrow> nat \<Rightarrow> CoefficientFunction" where
  "ComponentCF proxy c =
     \<lparr>cf_Dimension = 1,
      TraverseTree = [proxy],
      cf_Evaluate = (\<lambda>ud mip. Evaluate_ud proxy ud mip (replicate (Dimension proxy) 0) ! c),
      cf_EvaluateRule =
        (\<lambda>ud mir i. Evaluate_ud proxy ud (mir ! i) (replicate (Dimension proxy) 0) ! c),
      cf_EvaluateDeriv =
        (\<lambda>ud mir.
           let z = replicate (length mir) (replicate (Dimension proxy) 0);
               r = EvaluateDeriv_ud proxy ud mir z z
           in (\<lambda>i. fst r ! i ! c, \<lambda>i. snd r ! i ! c)),
      cf_EvaluateDDeriv =
        (\<lambda>ud mir.
           let z = replicate (length mir) (replicate (Dimension proxy) 0);
               r = EvaluateDDeriv_ud proxy ud mir z z z
           in (\<lambda>i. fst r ! i ! c, \<lambda>i. fst (snd r) ! i ! c, \<lambda>i. snd (snd r) ! i ! c))\<rparr>"

definition SumCF :: "CoefficientFunction list \<Rightarrow> CoefficientFunction" where
  "SumCF fs = foldr AddCF fs (ConstantCF 0)"

definition quadratic_density :: "(nat \<Rightarrow> nat \<Rightarrow> real) \<Rightarrow> ProxyFunction \<Rightarrow> CoefficientFunction" where
  "quadratic_density A proxy =
     SumCF (concat (map (\<lambda>x. map (\<lambda>y. ScaleCF (A x y)
                                        (MultCF (ComponentCF proxy x) (ComponentCF proxy y)))
                               [0..<Dimension proxy])
                     [0..<Dimension proxy]))"

text \<open>The Hessian form of the quadratic density on the directions of the proxy at \<open>a\<close>.\<close>

definition hessian_form ::
  "(nat \<Rightarrow> nat \<Rightarrow> real) \<Rightarrow> nat \<Rightarrow> nat \<Rightarrow> (nat \<times> nat \<Rightarrow> real) \<Rightarrow> (nat \<times> nat \<Rightarrow> real) \<Rightarrow> real" where
  "hessian_form A a n u v = (\<Sum>x<n. \<Sum>y<n. (A x y + A y x) * u (a, x) * v (a, y))"

text \<open>A trial proxy with two components (the identity on two dofs) and a symmetric matrix.\<close>

definition vec2_diffop :: DifferentialOperator where
  "vec2_diffop =
     \<lparr>Dim = 2, BlockDim = 1, DiffOrder = 0, UsedDofs = (\<lambda>el. (0, 2)),
      CalcMatrix = (\<lambda>el mip k b. if k = b \<and> b < 2 then 1 else 0),
      Apply = (\<lambda>el mip x. [x ! 0, x ! 1]),
      ApplyTrans = (\<lambda>el mir vals b. if b < 2 then (\<Sum>i<length mir. vals i b) else 0)\<rparr>"

definition trial_w :: ProxyFunction where
  "trial_w = \<lparr>addr = 5, IsTestFunction = False, evaluator = vec2_diffop\<rparr>"

definition matrix_2113 :: "nat \<Rightarrow> nat \<Rightarrow> real" where
  "matrix_2113 x y = (if x = y then (if x = 0 then 2 else 3) else 1)"

definition energy_square :: SymbolicEnergy where
  "energy_square =
     \<lparr>energy_cf = quadratic_density (\<lambda>x y. 1) trial_u, energy_vb = VOL,
      energy_trial_proxies = [trial_u]\<rparr>"

text \<open>For the proofs: one step of the visitor that collects distinct proxies.\<close>

definition add_proxy :: "ProxyFunction list \<Rightarrow> ProxyFunction \<Rightarrow> ProxyFunction list" where
  "add_proxy ps p = (if \<not> Contains ps p then ps @ [p] else ps)"

text \<open>
  An expression vanishes off its own pairs: seeded with a trial and a test proxy of the
  integrator \<open>whole\<close> that are not both proxies of the integrator \<open>own\<close> (built from the
  expression itself), it evaluates to zero at every point, as an expression that is
  bilinear in its own trial and test proxies does.
\<close>

definition vanishes_off_own_pairs ::
  "CoefficientFunction \<Rightarrow> SymbolicBilinearFormIntegrator \<Rightarrow> SymbolicBilinearFormIntegrator
     \<Rightarrow> bool" where
  "vanishes_off_own_pairs cf own whole =
     (\<forall>p1\<in>set (trial_proxies whole). \<forall>p2\<in>set (test_proxies whole).
        p1 \<notin> set (trial_proxies own) \<or> p2 \<notin> set (test_proxies own) \<longrightarrow>
        (\<forall>k l mir i.
           cf_EvaluateRule cf (seeded (ProxyUserData_init 0 0 []) p1 k p2 l) mir i = 0))"

text \<open>
  A second test proxy, the mass form with it, the sum of the two mass forms, the
  constant expression and the mass form plus a constant, for the closed examples.
\<close>

definition test_v2 :: ProxyFunction where
  "test_v2 = \<lparr>addr = 3, IsTestFunction = True, evaluator = id_diffop\<rparr>"

definition bfi_mass2 :: SymbolicBilinearFormIntegrator where
  "bfi_mass2 =
     \<lparr>bfi_cf = MultCF (ProxyCF trial_u) (ProxyCF test_v2), bfi_vb = VOL,
      element_boundary = False, trial_proxies = [trial_u], test_proxies = [test_v2]\<rparr>"

definition bfi_mass_sum :: SymbolicBilinearFormIntegrator where
  "bfi_mass_sum =
     \<lparr>bfi_cf = AddCF (MultCF (ProxyCF trial_u) (ProxyCF test_v))
                 (MultCF (ProxyCF trial_u) (ProxyCF test_v2)),
      bfi_vb = VOL, element_boundary = False,
      trial_proxies = [trial_u], test_proxies = [test_v, test_v2]\<rparr>"

definition bfi_const :: SymbolicBilinearFormIntegrator where
  "bfi_const =
     \<lparr>bfi_cf = ConstantCF 1, bfi_vb = VOL, element_boundary = False,
      trial_proxies = [], test_proxies = []\<rparr>"

definition bfi_mass_plus_const :: SymbolicBilinearFormIntegrator where
  "bfi_mass_plus_const =
     \<lparr>bfi_cf = AddCF (MultCF (ProxyCF trial_u) (ProxyCF test_v)) (ConstantCF 1),
      bfi_vb = VOL, element_boundary = False,
      trial_proxies = [trial_u], test_proxies = [test_v]\<rparr>"

definition elmat_entry :: "real \<Rightarrow> FlatMatrix" where
  "elmat_entry c = \<lparr>Height = 1, Width = 1, Elem = (\<lambda>a b. if a = 0 \<and> b = 0 then c else 0)\<rparr>"

text \<open>
  The cubic density \<open>u * (u * u)\<close> of the scalar trial proxy, whose Hessian depends on
  the field, and the form \<open>c * d * e\<close> on the directions of the scalar proxy at \<open>a\<close>.
\<close>

definition cube_density :: CoefficientFunction where
  "cube_density = MultCF (ProxyCF trial_u) (MultCF (ProxyCF trial_u) (ProxyCF trial_u))"

definition scalar_form :: "real \<Rightarrow> nat \<Rightarrow> (nat \<times> nat \<Rightarrow> real) \<Rightarrow> (nat \<times> nat \<Rightarrow> real) \<Rightarrow> real" where
  "scalar_form c a u v = c * u (a, 0) * v (a, 0)"

text \<open>
  The matrix \<open>proxyvalues\<close> of one proxy in \<open>T_CalcElementVector\<close> and in
  \<open>ApplyElementMatrix\<close> (the inner loops of the two functions), which is handed to
  \<open>ApplyTrans\<close>.
\<close>

definition linear_proxyvalues ::
  "CoefficientFunction \<Rightarrow> IntegrationPoint list \<Rightarrow> BaseMappedIntegrationPoint list \<Rightarrow> LocalHeap
     \<Rightarrow> ProxyFunction \<Rightarrow> FlatMatrix" where
  "linear_proxyvalues cf ir mir lh proxy =
     foldl (\<lambda>proxyvalues k.
              let ud = (ProxyUserData_init 0 0 [])\<lparr>testfunction := Some (addr proxy),
                                                  test_comp := k\<rparr>;
                  values = NewMatrix (length ir) 1 lh;
                  values = AssignCol values 0 (cf_EvaluateRule cf ud mir);
                  values = foldl (\<lambda>values i. ScaleRow values i (GetWeight (mir ! i)))
                             values [0..<length mir]
              in AssignCol proxyvalues k (\<lambda>i. Elem values i 0))
       (NewMatrix (length ir) (Dimension proxy) lh) [0..<Dimension proxy]"

definition gradient_proxyvalues ::
  "CoefficientFunction \<Rightarrow> ProxyUserData \<Rightarrow> BaseMappedIntegrationPoint list \<Rightarrow> LocalHeap
     \<Rightarrow> ProxyFunction \<Rightarrow> FlatMatrix" where
  "gradient_proxyvalues cf ud mir lh proxy =
     foldl (\<lambda>proxyvalues i. ScaleRow proxyvalues i (GetWeight (mir ! i)))
       (foldl (\<lambda>proxyvalues k.
                 let ud = ud\<lparr>trialfunction := Some (addr proxy), trial_comp := k\<rparr>;
                     deriv = snd (cf_EvaluateDeriv cf ud mir)
                 in AssignCol proxyvalues k deriv)
          (NewMatrix (length mir) (Dimension proxy) lh) [0..<Dimension proxy])
       [0..<length mir]"

text \<open>
  An operator on an element with two dofs that reports the used dofs \<open>[0, 1)\<close> but
  whose matrix and whose transposed application fill both dofs; its proxies and the
  integrators of \<open>u * v\<close>, \<open>v\<close> and \<open>0.5 * u * u\<close> on them.
\<close>

definition spill_diffop :: DifferentialOperator where
  "spill_diffop =
     \<lparr>Dim = 1, BlockDim = 1, DiffOrder = 0, UsedDofs = (\<lambda>el. (0, 1)),
      CalcMatrix = (\<lambda>el mip k b. if k = 0 \<and> b < 2 then 1 else 0),
      Apply = (\<lambda>el mip x. [x ! 0 + x ! 1]),
      ApplyTrans = (\<lambda>el mir vals b. if b < 2 then (\<Sum>i<length mir. vals i 0) else 0)\<rparr>"

definition trial_s :: ProxyFunction where
  "trial_s = \<lparr>addr = 7, IsTestFunction = False, evaluator = spill_diffop\<rparr>"

definition test_s :: ProxyFunction where
  "test_s = \<lparr>addr = 8, IsTestFunction = True, evaluator = spill_diffop\<rparr>"

definition bfi_spill :: SymbolicBilinearFormIntegrator where
  "bfi_spill =
     \<lparr>bfi_cf = MultCF (ProxyCF trial_s) (ProxyCF test_s), bfi_vb = VOL,
      element_boundary = True, trial_proxies = [trial_s], test_proxies = [test_s]\<rparr>"

definition lfi_spill :: SymbolicLinearFormIntegrator where
  "lfi_spill = \<lparr>lfi_cf = ProxyCF test_s, lfi_vb = VOL, lfi_proxies = [test_s]\<rparr>"

definition energy_spill :: SymbolicEnergy where
  "energy_spill =
     \<lparr>energy_cf = ScaleCF (1 / 2) (MultCF (ProxyCF trial_s) (ProxyCF trial_s)),
      energy_vb = VOL, energy_trial_proxies = [trial_s]\<rparr>"

text \<open>
  The rule of the facet \<open>k\<close> and its mapped points in the element-boundary assembly.
\<close>

definition facet_ir :: "Externals \<Rightarrow> FiniteElement \<Rightarrow> ElementTransformation \<Rightarrow> nat \<Rightarrow> IntegrationPoint list" where
  "facet_ir ext el trafo k =
     IntegrationRule ext (GetFacetType ext (GetElementType trafo) k) (2 * Order el)"

definition facet_mir ::
  "Externals \<Rightarrow> FiniteElement \<Rightarrow> ElementTransformation \<Rightarrow> nat \<Rightarrow> BaseMappedIntegrationPoint list" where
  "facet_mir ext el trafo k =
     MapRule trafo (Facet2ElementTrafo ext (GetElementType trafo) k (facet_ir ext el trafo k))"

text \<open>
  Following the words of the specification: the vector \<open>measure * Trans (inverse
  Jacobian) * reference normal\<close> at a point, and the point that carries this vector
  divided by its Euclidean length as its normal.
\<close>

definition normal_vector :: "nat \<Rightarrow> BaseMappedIntegrationPoint \<Rightarrow> real list \<Rightarrow> real list" where
  "normal_vector D mip normal_ref =
     map (\<lambda>a. \<Sum>b<D. GetMeasure mip * (GetJacobianInverse mip ! b ! a) * (normal_ref ! b)) [0..<D]"

definition facet_point ::
  "nat \<Rightarrow> BaseMappedIntegrationPoint \<Rightarrow> real list \<Rightarrow> BaseMappedIntegrationPoint" where
  "facet_point D mip normal_ref =
     mip\<lparr>GetNV := map (\<lambda>x. x / L2Norm (normal_vector D mip normal_ref))
                      (normal_vector D mip normal_ref)\<rparr>"

text \<open>
  The contribution of one point of a facet and one proxy pair to the entry \<open>(a, b)\<close>:
  the product \<open>Trans (bmat2) * proxyvalues * bmat1\<close> in which every entry of
  \<open>proxyvalues\<close> is the value of the expression at the point, for the seeded component
  pair, times \<open>scale\<close>.
\<close>

definition boundary_point_term ::
  "CoefficientFunction \<Rightarrow> FiniteElement \<Rightarrow> real \<Rightarrow> BaseMappedIntegrationPoint
     \<Rightarrow> ProxyFunction \<Rightarrow> ProxyFunction \<Rightarrow> nat \<Rightarrow> nat \<Rightarrow> real" where
  "boundary_point_term cf el scale mip p1 p2 a b =
     (\<Sum>l<Dimension p2. CalcMatrix (evaluator p2) el mip l a
        * (\<Sum>k<Dimension p1.
             scale * cf_Evaluate cf (seeded (ProxyUserData_init 0 0 []) p1 k p2 l) mip
               * CalcMatrix (evaluator p1) el mip k b))"






section \<open>The proxy protocol\<close>

text \<open>
  C3, as the code has it: \<open>ProxyFunction::Evaluate\<close> raises exactly when no userdata is
  attached to the transformation. With userdata attached, when the proxy is neither the
  active test nor the active trial proxy (another proxy may be seeded) and no pin applies
  to it (no element is pinned, or the proxy is a test function), it returns the zero
  vector and raises nothing.
\<close>

theorem Evaluate_raises_iff_no_userdata:
  "isl (Evaluate this userdata mip result) = (userdata = None)
   \<and> (testfunction ud \<noteq> Some (addr this) \<and> trialfunction ud \<noteq> Some (addr this)
        \<and> (fel ud = None \<or> IsTestFunction this) \<longrightarrow>
      Evaluate this (Some ud) mip result = Inr (replicate (length result) 0))"
  by (auto simp add: Evaluate_def Evaluate_ud_def Let_def split: option.splits bool.splits)

theorem Evaluate_raises_iff_no_userdata_witness:
  "isl (Evaluate trial_u None (mip_w 1) [7, 7])
   \<and> testfunction ud_test_v = Some (addr test_v) \<and> addr test_v \<noteq> addr trial_u
   \<and> Evaluate trial_u (Some ud_test_v) (mip_w 1) [7, 7] = Inr [0, 0]"
  using Evaluate_raises_iff_no_userdata [of trial_u None "mip_w 1" "[7, 7]" ud_test_v]
  by (simp add: ud_test_v_def ProxyUserData_init_def trial_u_def test_v_def)

text \<open>
  C3 as stated fails: with userdata attached, no seed and no pinned element, the
  evaluation of a proxy returns the value 0 and no error.
\<close>

theorem Evaluate_unseeded_unpinned_counterexample:
  "testfunction (ProxyUserData_init 0 0 []) = None
   \<and> trialfunction (ProxyUserData_init 0 0 []) = None
   \<and> fel (ProxyUserData_init 0 0 []) = None
   \<and> Evaluate trial_u (Some (ProxyUserData_init 0 0 [])) (mip_w 1) [7] = Inr [0]"
  by (simp add: Evaluate_def Evaluate_ud_def ProxyUserData_init_def trial_u_def)

lemma nth_SetZero: "i < length m \<Longrightarrow> c < length (m ! i) \<Longrightarrow> SetZero m ! i ! c = 0"
  by (simp add: SetZero_def)

lemma length_SetZero: "length (SetZero m) = length m"
  by (simp add: SetZero_def)

lemma length_nth_SetZero: "i < length m \<Longrightarrow> length (SetZero m ! i) = length (m ! i)"
  by (simp add: SetZero_def)

lemma length_SetCol: "length (SetCol m c v) = length m"
  by (simp add: SetCol_def)

lemma length_nth_SetCol: "i < length m \<Longrightarrow> length (SetCol m c v ! i) = length (m ! i)"
  by (simp add: SetCol_def)

lemma nth_SetCol:
  "i < length m \<Longrightarrow> c < length (m ! i) \<Longrightarrow>
     SetCol m c' v ! i ! c = (if c = c' then v else m ! i ! c)"
  by (simp add: SetCol_def nth_list_update)

text \<open>
  C4, as the code has it: \<open>ProxyFunction::EvaluateDDeriv\<close> writes the marks of the active
  test and trial proxy into the first-derivative array \<open>deriv\<close> (both columns when the
  proxy is active as both); every entry of \<open>dderiv\<close> is zero.
\<close>

theorem EvaluateDDeriv_marks_in_deriv:
  assumes "i < length deriv" and "c < length (deriv ! i)"
    and "j < length dderiv" and "e < length (dderiv ! j)"
  shows "fst (snd (EvaluateDDeriv_ud this ud mir result deriv dderiv)) ! i ! c =
           (if (testfunction ud = Some (addr this) \<and> c = test_comp ud)
               \<or> (trialfunction ud = Some (addr this) \<and> c = trial_comp ud)
            then 1 else 0)
         \<and> snd (snd (EvaluateDDeriv_ud this ud mir result deriv dderiv)) ! j ! e = 0"
  using assms
  by (simp add: EvaluateDDeriv_ud_def Let_def nth_SetCol nth_SetZero length_SetZero
      length_nth_SetZero length_SetCol length_nth_SetCol)

theorem EvaluateDDeriv_marks_in_deriv_witness:
  "fst (snd (EvaluateDDeriv_ud test_v ud_test_v [mip_w 1] [[0]] [[0]] [[0]])) ! 0 ! 0 = 1
   \<and> snd (snd (EvaluateDDeriv_ud test_v ud_test_v [mip_w 1] [[0]] [[0]] [[0]])) ! 0 ! 0 = 0"
  using EvaluateDDeriv_marks_in_deriv
          [of 0 "[[0]]" 0 0 "[[0]]" 0 test_v ud_test_v "[mip_w 1]" "[[0]]"]
  by (simp add: ud_test_v_def ProxyUserData_init_def)

text \<open>
  C4 as stated fails: for the active test proxy the array \<open>dderiv\<close> stays zero; the mark
  is in \<open>deriv\<close>.
\<close>

theorem EvaluateDDeriv_dderiv_counterexample:
  "testfunction ud_test_v = Some (addr test_v) \<and> test_comp ud_test_v = 0
   \<and> EvaluateDDeriv test_v (Some ud_test_v) [mip_w 1] [[0]] [[0]] [[0]]
        = Inr ([[0]], [[1]], [[0]])"
  by (simp add: EvaluateDDeriv_def EvaluateDDeriv_ud_def ud_test_v_def ProxyUserData_init_def
      test_v_def SetZero_def SetCol_def)

text \<open>
  C5, as the code has it: with userdata attached, a trial proxy (one that is not a test
  function) with a pinned element applies its operator to the pinned dofs whether or not
  it is seeded; in every other case the result is zero except for a 1 at the test
  component when the proxy is the active test proxy and a 1 at the trial component when
  it is the active trial proxy (so it is 0 when neither a seed nor a pin applies).
\<close>

theorem Evaluate_pin_before_seed:
  "(\<not> IsTestFunction this \<and> fel ud = Some el \<longrightarrow>
      Evaluate this (Some ud) mip result = Inr (Apply (evaluator this) el mip (elx ud)))
   \<and> ((IsTestFunction this \<or> fel ud = None) \<and> c < length result \<longrightarrow>
      (\<exists>r. Evaluate this (Some ud) mip result = Inr r \<and> length r = length result
         \<and> r ! c =
             (if (testfunction ud = Some (addr this) \<and> c = test_comp ud)
                 \<or> (trialfunction ud = Some (addr this) \<and> c = trial_comp ud)
              then 1 else 0)))"
  by (cases "test_comp ud = trial_comp ud")
     (auto simp add: Evaluate_def Evaluate_ud_def Let_def nth_list_update
      split: option.splits bool.splits)

theorem Evaluate_pin_before_seed_witness:
  "Evaluate trial_u (Some ud_trial_pinned) (mip_w 1) [0] = Inr [5]
   \<and> (\<exists>r. Evaluate test_v (Some ud_test_v) (mip_w 1) [7] = Inr r \<and> length r = 1 \<and> r ! 0 = 1)"
  using Evaluate_pin_before_seed [of trial_u ud_trial_pinned fel0 "mip_w 1" "[0]" 0]
    Evaluate_pin_before_seed [of test_v ud_test_v fel0 "mip_w 1" "[7]" 0]
  by (simp add: ud_trial_pinned_def ud_test_v_def ProxyUserData_init_def trial_u_def test_v_def
      id_diffop_def)

text \<open>
  C5 as stated fails: the active trial proxy with a pinned dof vector \<open>[5]\<close> evaluates to
  the field value 5, not to the one-hot vector \<open>[1]\<close>: the pinned branch comes first.
\<close>

theorem Evaluate_seed_precedence_counterexample:
  "trialfunction ud_trial_pinned = Some (addr trial_u) \<and> trial_comp ud_trial_pinned = 0
   \<and> fel ud_trial_pinned = Some fel0
   \<and> Evaluate trial_u (Some ud_trial_pinned) (mip_w 1) [0] = Inr [5]"
  by (simp add: Evaluate_def Evaluate_ud_def ud_trial_pinned_def ProxyUserData_init_def
      trial_u_def id_diffop_def)

section \<open>The blocked contraction\<close>

lemma div_mod_in_block:
  fixes d :: nat
  assumes "d * n \<le> r" and "r < d * (n + 1)"
  shows "r div d = n" and "r mod d = r - d * n"
proof -
  have d: "0 < d" using assms by (cases d) auto
  obtain q where q: "r = d * n + q" using assms(1) le_Suc_ex by blast
  have "q < d" using assms(2) q by simp
  then show "r div d = n" using q d by simp
  then show "r mod d = r - d * n"
    by (metis minus_mult_div_eq_mod)
qed

lemma fill_block_fst_Height:
  "Height (fst (fill_block el mir p1 p2 pv elmat i n bufs)) = Height (fst bufs)"
  by (induction n) (simp_all add: fill_block_def AssignRows_def Let_def split_beta)

lemma fill_block_snd_Height:
  "Height (snd (fill_block el mir p1 p2 pv elmat i n bufs)) = Height (snd bufs)"
  by (induction n) (simp_all add: fill_block_def AssignRows_def Let_def split_beta)

lemma fill_block_Suc:
  "fill_block el mir p1 p2 pv elmat i (Suc n) bufs =
     (let b = fill_block el mir p1 p2 pv elmat i n bufs;
          r2 = (Dimension p2 * n, Dimension p2 * (n + 1))
      in (AssignRows (fst b) r2 (Mult (PointSlice pv (i + n)) (BMatrix p1 el (mir ! (i + n)) (Width elmat))),
          AssignRows (snd b) r2 (BMatrix p2 el (mir ! (i + n)) (Height elmat))))"
  by (simp add: fill_block_def Let_def split_beta)

lemma fill_block_0: "fill_block el mir p1 p2 pv elmat i 0 bufs = bufs"
  by (simp add: fill_block_def)

lemma fill_block_fst_Elem:
  "Elem (fst (fill_block el mir p1 p2 pv elmat i n bufs)) r c =
     (if r < n * Dimension p2
      then (\<Sum>k<Dim2 pv. TElem pv (i + r div Dimension p2) (r mod Dimension p2) k
                          * CalcMatrix (evaluator p1) el (mir ! (i + r div Dimension p2)) k c)
      else Elem (fst bufs) r c)"
proof (induction n)
  case 0
  show ?case by (simp add: fill_block_0)
next
  case (Suc n)
  show ?case
  proof (cases "InRange (Dimension p2 * n, Dimension p2 * (n + 1)) r")
    case True
    then have a: "Dimension p2 * n \<le> r" and b: "r < Dimension p2 * (n + 1)"
      by (simp_all add: InRange_def)
    have lt: "r < Suc n * Dimension p2" using b by (simp add: mult.commute)
    show ?thesis
      using True lt div_mod_in_block[OF a b]
      by (simp add: fill_block_Suc Let_def AssignRows_def Mult_def PointSlice_def BMatrix_def)
  next
    case False
    then have "r < Suc n * Dimension p2 \<longleftrightarrow> r < n * Dimension p2"
      by (auto simp add: InRange_def mult.commute)
    then show ?thesis
      using False Suc by (simp add: fill_block_Suc Let_def AssignRows_def)
  qed
qed

lemma fill_block_snd_Elem:
  "Elem (snd (fill_block el mir p1 p2 pv elmat i n bufs)) r c =
     (if r < n * Dimension p2
      then CalcMatrix (evaluator p2) el (mir ! (i + r div Dimension p2)) (r mod Dimension p2) c
      else Elem (snd bufs) r c)"
proof (induction n)
  case 0
  show ?case by (simp add: fill_block_0)
next
  case (Suc n)
  show ?case
  proof (cases "InRange (Dimension p2 * n, Dimension p2 * (n + 1)) r")
    case True
    then have a: "Dimension p2 * n \<le> r" and b: "r < Dimension p2 * (n + 1)"
      by (simp_all add: InRange_def)
    have lt: "r < Suc n * Dimension p2" using b by (simp add: mult.commute)
    show ?thesis
      using True lt div_mod_in_block[OF a b]
      by (simp add: fill_block_Suc Let_def AssignRows_def BMatrix_def)
  next
    case False
    then have "r < Suc n * Dimension p2 \<longleftrightarrow> r < n * Dimension p2"
      by (auto simp add: InRange_def mult.commute)
    then show ?thesis
      using False Suc by (simp add: fill_block_Suc Let_def AssignRows_def)
  qed
qed

lemma sum_div_mod:
  fixes f :: "nat \<Rightarrow> nat \<Rightarrow> real"
  shows "(\<Sum>r<n * d. f (r div d) (r mod d)) = (\<Sum>j<n. \<Sum>l<d. f j l)"
proof (induction n)
  case 0
  show ?case by simp
next
  case (Suc n)
  let ?g = "\<lambda>r. f (r div d) (r mod d)"
  have split: "sum ?g {0..<n * d} + sum ?g {n * d..<n * d + d} = sum ?g {0..<n * d + d}"
    by (rule sum.atLeastLessThan_concat) simp_all
  have "sum ?g {n * d..<n * d + d} = sum ?g {0 + n * d..<d + n * d}"
    by (simp add: add.commute)
  also have "\<dots> = (\<Sum>l = 0..<d. ?g (l + n * d))"
    by (rule sum.shift_bounds_nat_ivl)
  also have "\<dots> = (\<Sum>l = 0..<d. f n l)"
    by (rule sum.cong) simp_all
  finally have blk: "sum ?g {n * d..<n * d + d} = (\<Sum>l<d. f n l)"
    by (simp add: lessThan_atLeast0)
  have "(\<Sum>r<Suc n * d. ?g r) = sum ?g {0..<n * d + d}"
    by (simp add: lessThan_atLeast0 add.commute)
  also have "\<dots> = (\<Sum>r<n * d. ?g r) + (\<Sum>l<d. f n l)"
    using split blk by (simp add: lessThan_atLeast0)
  finally show ?case using Suc by simp
qed

lemma stacked_product:
  assumes "Height (snd bufs) = n * Dimension p2"
  shows "(\<Sum>r<Height (snd (fill_block el mir p1 p2 pv elmat i n bufs)).
            Elem (snd (fill_block el mir p1 p2 pv elmat i n bufs)) r a
            * Elem (fst (fill_block el mir p1 p2 pv elmat i n bufs)) r b)
         = (\<Sum>j<n. point_term el mir p1 p2 pv (i + j) a b)"
proof -
  let ?d = "Dimension p2"
  let ?f = "\<lambda>j l. CalcMatrix (evaluator p2) el (mir ! (i + j)) l a
        * (\<Sum>k<Dim2 pv. TElem pv (i + j) l k * CalcMatrix (evaluator p1) el (mir ! (i + j)) k b)"
  have "(\<Sum>r<Height (snd (fill_block el mir p1 p2 pv elmat i n bufs)).
            Elem (snd (fill_block el mir p1 p2 pv elmat i n bufs)) r a
            * Elem (fst (fill_block el mir p1 p2 pv elmat i n bufs)) r b)
        = (\<Sum>r<n * ?d. ?f (r div ?d) (r mod ?d))"
    unfolding fill_block_snd_Height assms
    by (rule sum.cong) (simp_all add: fill_block_fst_Elem fill_block_snd_Elem)
  also have "\<dots> = (\<Sum>j<n. \<Sum>l<?d. ?f j l)"
    by (rule sum_div_mod)
  finally show ?thesis by (simp add: point_term_def)
qed


lemma acc_add_dims [simp]:
  "Height (acc_add R elmat g) = Height elmat" "Width (acc_add R elmat g) = Width elmat"
  by (simp_all add: acc_add_def)

lemma acc_add_acc_add:
  "acc_add R (acc_add R elmat g) h = acc_add R elmat (\<lambda>a b. g a b + h a b)"
  by (simp add: acc_add_def fun_eq_iff)

lemma acc_add_zero: "acc_add R elmat (\<lambda>a b. 0) = elmat"
  by (simp add: acc_add_def cong: if_cong)

lemma sum_block_shift:
  fixes t :: "nat \<Rightarrow> real"
  shows "(\<Sum>j<n. t (i + j)) = sum t {i..<i + n}"
proof -
  have "sum t {i..<i + n} = sum t {0 + i..<n + i}" by (simp add: add.commute)
  also have "\<dots> = (\<Sum>j = 0..<n. t (j + i))" by (rule sum.shift_bounds_nat_ivl)
  finally show ?thesis by (simp add: lessThan_atLeast0 add.commute)
qed

lemma accumulate_used_block:
  "accumulate_used r2 r1 elmat
     (fill_block el mir p1 p2 pv elmat' i n
        (NewMatrix (n * Dimension p2) w lh, NewMatrix (n * Dimension p2) h lh'))
   = acc_add (used_rect r2 r1) elmat (\<lambda>a b. sum (\<lambda>ii. point_term el mir p1 p2 pv ii a b) {i..<i + n})"
proof -
  let ?bufs = "(NewMatrix (n * Dimension p2) w lh, NewMatrix (n * Dimension p2) h lh')"
  have H: "Height (snd ?bufs) = n * Dimension p2" by (simp add: NewMatrix_def)
  have sp: "\<And>a b. (\<Sum>r<Height (snd (fill_block el mir p1 p2 pv elmat' i n ?bufs)).
            Elem (snd (fill_block el mir p1 p2 pv elmat' i n ?bufs)) r a
            * Elem (fst (fill_block el mir p1 p2 pv elmat' i n ?bufs)) r b)
         = sum (\<lambda>ii. point_term el mir p1 p2 pv ii a b) {i..<i + n}"
    using stacked_product [of ?bufs n p2 el mir p1 pv elmat' i, OF H]
      sum_block_shift [of "\<lambda>ii. point_term el mir p1 p2 pv ii _ _" i n]
    by simp
  show ?thesis
    unfolding accumulate_used_def acc_add_def used_rect_def
    by (simp add: split_beta AddToRowsCols_def Mult_def Trans_def Cols_def InRange_def
        fun_eq_iff sp cong: if_cong)
qed

lemma accumulate_all_block:
  "accumulate_all elmat
     (fill_block el mir p1 p2 pv elmat' i n
        (NewMatrix (n * Dimension p2) w lh, NewMatrix (n * Dimension p2) h lh'))
   = acc_add (\<lambda>a b. True) elmat (\<lambda>a b. sum (\<lambda>ii. point_term el mir p1 p2 pv ii a b) {i..<i + n})"
proof -
  let ?bufs = "(NewMatrix (n * Dimension p2) w lh, NewMatrix (n * Dimension p2) h lh')"
  have H: "Height (snd ?bufs) = n * Dimension p2" by (simp add: NewMatrix_def)
  have sp: "\<And>a b. (\<Sum>r<Height (snd (fill_block el mir p1 p2 pv elmat' i n ?bufs)).
            Elem (snd (fill_block el mir p1 p2 pv elmat' i n ?bufs)) r a
            * Elem (fst (fill_block el mir p1 p2 pv elmat' i n ?bufs)) r b)
         = sum (\<lambda>ii. point_term el mir p1 p2 pv ii a b) {i..<i + n}"
    using stacked_product [of ?bufs n p2 el mir p1 pv elmat' i, OF H]
      sum_block_shift [of "\<lambda>ii. point_term el mir p1 p2 pv ii _ _" i n]
    by simp
  show ?thesis
    unfolding accumulate_all_def acc_add_def
    by (simp add: split_beta AddTo_def Mult_def Trans_def fun_eq_iff sp)
qed

lemma block_loop_acc:
  "(\<And>i e. body i e = acc_add R e (\<lambda>a b. sum (\<lambda>ii. t ii a b) {i..<i + bs})) \<Longrightarrow>
   \<exists>i'. block_loop bs n body i e = (i', acc_add R e (\<lambda>a b. sum (\<lambda>ii. t ii a b) {i..<i'}))
        \<and> i \<le> i' \<and> (i \<le> n \<longrightarrow> i' \<le> n) \<and> \<not> (0 < bs \<and> i' + bs \<le> n)"
proof (induction bs n body i e rule: block_loop.induct)
  case (1 bs n body i e)
  note body = "1.prems"
  show ?case
  proof (cases "0 < bs \<and> i + bs \<le> n")
    case True
    from "1.IH" [OF True body]
    obtain i' where
      loop: "block_loop bs n body (i + bs) (body i e)
               = (i', acc_add R (body i e) (\<lambda>a b. sum (\<lambda>ii. t ii a b) {i + bs..<i'}))"
      and le: "i + bs \<le> i'" and up: "i + bs \<le> n \<longrightarrow> i' \<le> n"
      and stop: "\<not> (0 < bs \<and> i' + bs \<le> n)"
      by blast
    have cat: "\<And>a b. sum (\<lambda>ii. t ii a b) {i..<i + bs} + sum (\<lambda>ii. t ii a b) {i + bs..<i'}
                 = sum (\<lambda>ii. t ii a b) {i..<i'}"
      using le by (intro sum.atLeastLessThan_concat) simp_all
    have "block_loop bs n body i e = block_loop bs n body (i + bs) (body i e)"
      using True by (subst block_loop.simps) simp
    also have "\<dots> = (i', acc_add R e (\<lambda>a b. sum (\<lambda>ii. t ii a b) {i..<i'}))"
      unfolding loop by (simp add: body acc_add_acc_add cat)
    finally show ?thesis
      using le up stop True by auto
  next
    case False
    have "block_loop bs n body i e = (i, e)"
      using False by (subst block_loop.simps) auto
    then show ?thesis
      using False by (auto simp add: acc_add_zero)
  qed
qed

lemma foldl_acc_add:
  "foldl (\<lambda>e i. acc_add R e (t i)) e [0..<n] = acc_add R e (\<lambda>a b. \<Sum>i<n. t i a b)"
  by (induction n) (simp_all add: acc_add_zero acc_add_acc_add)

lemma contract_blocked_closed:
  assumes bs: "0 < bs"
    and acc: "\<And>e e' i n w h lh lh'.
       accumulate e (fill_block el mir p1 p2 pv e' i n
          (NewMatrix (n * Dimension p2) w lh, NewMatrix (n * Dimension p2) h lh'))
       = acc_add R e (\<lambda>a b. sum (\<lambda>ii. point_term el mir p1 p2 pv ii a b) {i..<i + n})"
  shows "contract_blocked bs accumulate lh el mir p1 p2 pv elmat
         = acc_add R elmat (\<lambda>a b. \<Sum>i<length mir. point_term el mir p1 p2 pv i a b)"
proof -
  let ?t = "point_term el mir p1 p2 pv"
  let ?body = "\<lambda>i elmat. accumulate elmat
                   (fill_block el mir p1 p2 pv elmat i bs
                      (NewMatrix (bs * Dimension p2) (Width elmat) lh,
                       NewMatrix (bs * Dimension p2) (Height elmat) lh))"
  have body: "\<And>i e. ?body i e = acc_add R e (\<lambda>a b. sum (\<lambda>ii. ?t ii a b) {i..<i + bs})"
    by (simp add: acc)
  from block_loop_acc [of ?body R ?t bs "length mir" 0 elmat, OF body]
  obtain i' where
    loop: "block_loop bs (length mir) ?body 0 elmat
             = (i', acc_add R elmat (\<lambda>a b. sum (\<lambda>ii. ?t ii a b) {0..<i'}))"
    and up: "i' \<le> length mir" and stop: "\<not> (0 < bs \<and> i' + bs \<le> length mir)"
    by auto
  show ?thesis
  proof (cases "i' < length mir")
    case True
    have cat: "\<And>a b. sum (\<lambda>ii. ?t ii a b) {0..<i'} + sum (\<lambda>ii. ?t ii a b) {i'..<length mir}
                 = sum (\<lambda>ii. ?t ii a b) {0..<length mir}"
      using up by (intro sum.atLeastLessThan_concat) simp_all
    have rest: "i' + (length mir - i') = length mir" using up by simp
    show ?thesis
      unfolding contract_blocked_def loop
      using True
      by (simp add: Let_def acc rest acc_add_acc_add cat lessThan_atLeast0)
  next
    case False
    then have "i' = length mir" using up by simp
    then show ?thesis
      unfolding contract_blocked_def loop
      by (simp add: lessThan_atLeast0)
  qed
qed

lemma contract_pointwise_used_closed:
  "contract_pointwise_used r2 r1 el mir p1 p2 pv elmat
   = acc_add (used_rect r2 r1) elmat (\<lambda>a b. \<Sum>i<length mir. point_term el mir p1 p2 pv i a b)"
proof -
  have step: "\<And>e i. (let bmat1 = BMatrix p1 el (mir ! i) (Width e);
                  bmat2 = BMatrix p2 el (mir ! i) (Height e);
                  dbmat1 = Mult (PointSlice pv i) bmat1
              in AddToRowsCols e r2 r1 (Mult (Trans (Cols bmat2 r2)) (Cols dbmat1 r1)))
            = acc_add (used_rect r2 r1) e (point_term el mir p1 p2 pv i)"
    by (simp add: Let_def acc_add_def used_rect_def AddToRowsCols_def Mult_def Trans_def
        Cols_def BMatrix_def PointSlice_def point_term_def InRange_def fun_eq_iff cong: if_cong)
  show ?thesis
    unfolding contract_pointwise_used_def step by (rule foldl_acc_add)
qed

lemma contract_pointwise_all_closed:
  "contract_pointwise_all el mir p1 p2 pv elmat
   = acc_add (\<lambda>a b. True) elmat (\<lambda>a b. \<Sum>i<length mir. point_term el mir p1 p2 pv i a b)"
proof -
  have step: "\<And>e i. (let bmat1 = BMatrix p1 el (mir ! i) (Width e);
                  bmat2 = BMatrix p2 el (mir ! i) (Height e);
                  dbmat1 = Mult (PointSlice pv i) bmat1
              in AddTo e (Mult (Trans bmat2) dbmat1))
            = acc_add (\<lambda>a b. True) e (point_term el mir p1 p2 pv i)"
    by (simp add: Let_def acc_add_def AddTo_def Mult_def Trans_def
        BMatrix_def PointSlice_def point_term_def fun_eq_iff)
  show ?thesis
    unfolding contract_pointwise_all_def step by (rule foldl_acc_add)
qed

text \<open>
  C2: for every proxy pair and every positive block size (the source has 16), the
  point-blocked contraction (the full blocks, then the trailing partial block, each one
  stacked and contracted by one multiplication) accumulates into the element matrix what
  the contraction of one point after the other accumulates, for the volume bilinear form
  (restricted to the used dofs) and for the linearized energy.
\<close>

theorem blocked_contraction_is_pointwise:
  assumes "0 < bs"
  shows "contract_blocked bs (accumulate_used r2 r1) lh el mir proxy1 proxy2 proxyvalues elmat
           = contract_pointwise_used r2 r1 el mir proxy1 proxy2 proxyvalues elmat
         \<and> contract_blocked bs accumulate_all lh el mir proxy1 proxy2 proxyvalues elmat
           = contract_pointwise_all el mir proxy1 proxy2 proxyvalues elmat"
  using assms
  by (simp add: contract_blocked_closed [where R = "used_rect r2 r1"]
      contract_blocked_closed [where R = "\<lambda>a b. True"]
      accumulate_used_block accumulate_all_block
      contract_pointwise_used_closed contract_pointwise_all_closed)

theorem blocked_contraction_is_pointwise_witness:
  "0 < BS
   \<and> Elem (contract_blocked BS (accumulate_used (0, 1) (0, 1)) (\<lambda>n. 0) fel0 [mip_w 2]
             trial_u test_v (tensor_111 3) (elmat_11 0)) 0 0 = 3
   \<and> Elem (contract_blocked BS accumulate_all (\<lambda>n. 0) fel0 [mip_w 2]
             trial_u test_v (tensor_111 3) (elmat_11 0)) 0 0 = 3"
  using blocked_contraction_is_pointwise [of BS "(0, 1)" "(0, 1)" "\<lambda>n. 0" fel0 "[mip_w 2]"
      trial_u test_v "tensor_111 3" "elmat_11 0"]
  by (simp add: BS_def contract_pointwise_used_def contract_pointwise_all_def Let_def
      AddToRowsCols_def AddTo_def Mult_def Trans_def Cols_def BMatrix_def PointSlice_def
      InRange_def tensor_111_def elmat_11_def trial_u_def test_v_def id_diffop_def Dimension_def)

section \<open>The closed form of the volume assembly\<close>

lemma foldl_upt_Suc: "foldl f a [0..<Suc n] = f (foldl f a [0..<n]) n"
  by simp

lemma AssignStar_fill_inner:
  "TElem (foldl (\<lambda>t l. AssignStar t l k (g l)) t0 [0..<d2]) i l' k' =
     (if k' = k \<and> l' < d2 then g l' i else TElem t0 i l' k')"
  by (induction d2) (auto simp add: AssignStar_def)

lemma AssignStar_fill:
  "TElem (foldl (\<lambda>t k. foldl (\<lambda>t l. AssignStar t l k (g k l)) t [0..<d2]) t0 [0..<d1]) i l k =
     (if k < d1 \<and> l < d2 then g k l i else TElem t0 i l k)"
  by (induction d1) (auto simp add: AssignStar_fill_inner)

lemma AssignStar_fill_inner_Dim2:
  "Dim2 (foldl (\<lambda>t l. AssignStar t l k (g l)) t0 [0..<d2]) = Dim2 t0"
  by (induction d2) (auto simp add: AssignStar_def)

lemma AssignStar_fill_Dim2:
  "Dim2 (foldl (\<lambda>t k. foldl (\<lambda>t l. AssignStar t l k (g k l)) t [0..<d2]) t0 [0..<d1]) = Dim2 t0"
  by (induction d1) (auto simp add: AssignStar_fill_inner_Dim2)

lemma ScalePoint_fold:
  "TElem (foldl (\<lambda>t i. ScalePoint t i (w i)) t0 [0..<n]) i l k =
     (if i < n then TElem t0 i l k * w i else TElem t0 i l k)"
  by (induction n) (auto simp add: ScalePoint_def)

lemma ScalePoint_fold_Dim2:
  "Dim2 (foldl (\<lambda>t i. ScalePoint t i (w i)) t0 [0..<n]) = Dim2 t0"
  by (induction n) (auto simp add: ScalePoint_def)

lemma volume_proxyvalues_TElem:
  assumes "i < length mir" "l < Dimension p2" "k < Dimension p1"
  shows "TElem (volume_proxyvalues cf ud mir lh p1 p2) i l k
         = cf_EvaluateRule cf (seeded ud p1 k p2 l) mir i * GetWeight (mir ! i)"
  using assms
  by (simp add: volume_proxyvalues_def Let_def ScalePoint_fold AssignStar_fill seeded_def)

lemma volume_proxyvalues_Dim2:
  "Dim2 (volume_proxyvalues cf ud mir lh p1 p2) = Dimension p1"
  by (simp add: volume_proxyvalues_def Let_def ScalePoint_fold_Dim2 AssignStar_fill_Dim2
      NewTensor_def)

lemma acc_add_mat_add: "acc_add R e g = mat_add e (\<lambda>a b. if R a b then g a b else 0)"
  by (simp add: acc_add_def mat_add_def fun_eq_iff)

lemma mat_add_mat_add: "mat_add (mat_add e g) h = mat_add e (\<lambda>a b. g a b + h a b)"
  by (simp add: mat_add_def fun_eq_iff)

lemma mat_add_zero: "mat_add e (\<lambda>a b. 0) = e"
  by (simp add: mat_add_def)

lemma foldl_mat_add:
  "foldl (\<lambda>e x. mat_add e (g x)) e xs = mat_add e (\<lambda>a b. \<Sum>x\<leftarrow>xs. g x a b)"
proof (induction xs arbitrary: e)
  case Nil
  show ?case by (simp add: mat_add_zero)
next
  case (Cons x xs)
  show ?case by (simp add: Cons mat_add_mat_add)
qed

lemma point_term_volume:
  assumes "i < length mir"
  shows "point_term el mir p1 p2 (volume_proxyvalues cf ud mir lh p1 p2) i a b
         = (\<Sum>l<Dimension p2. CalcMatrix (evaluator p2) el (mir ! i) l a
              * (\<Sum>k<Dimension p1. cf_EvaluateRule cf (seeded ud p1 k p2 l) mir i
                     * GetWeight (mir ! i) * CalcMatrix (evaluator p1) el (mir ! i) k b))"
  using assms
  by (simp add: point_term_def volume_proxyvalues_Dim2 volume_proxyvalues_TElem)

lemma volume_pair_step:
  "contract_blocked BS
     (accumulate_used (UsedDofs (evaluator p2) el) (UsedDofs (evaluator p1) el)) lh el mir
     p1 p2 (volume_proxyvalues cf ud mir lh p1 p2) e
   = mat_add e (volume_pair_term cf ud el mir p1 p2)"
proof -
  have bs: "0 < BS" by (simp add: BS_def)
  show ?thesis
    unfolding contract_blocked_closed [where R = "used_rect (UsedDofs (evaluator p2) el) (UsedDofs (evaluator p1) el)", OF bs accumulate_used_block]
      acc_add_mat_add volume_pair_term_def
    by (simp add: point_term_volume fun_eq_iff cong: if_cong)
qed

lemma CalcElementMatrixVol_closed:
  "CalcElementMatrixVol ext this el trafo elmat lh =
     mat_add (MatZero elmat)
       (\<lambda>a b. \<Sum>p1\<leftarrow>trial_proxies this. \<Sum>p2\<leftarrow>test_proxies this.
           volume_pair_term (bfi_cf this) (ProxyUserData_init 0 0 []) el
             (MapRule trafo (IntegrationRule ext (GetElementType trafo) (2 * Order el))) p1 p2 a b)"
  unfolding CalcElementMatrixVol_def Let_def volume_pair_step foldl_mat_add
  by (simp add: foldl_mat_add)

text \<open>
  C10: every entry point that produces an output sets the caller's buffer to zero before
  it accumulates: the result does not depend on what the buffer held before the call.
\<close>

theorem output_buffer_zeroed_first:
  "T_CalcElementVector ext lfi el trafo (elvec\<lparr>VElem := junk1\<rparr>) lh
     = T_CalcElementVector ext lfi el trafo elvec lh
   \<and> T_CalcElementMatrix ext bfi el trafo (elmat\<lparr>Elem := junk2\<rparr>) lh
     = T_CalcElementMatrix ext bfi el trafo elmat lh
   \<and> T_CalcElementMatrixEB D ext bfi el trafo (elmat\<lparr>Elem := junk2\<rparr>) lh
     = T_CalcElementMatrixEB D ext bfi el trafo elmat lh
   \<and> ApplyElementMatrix ext en el trafo x (ely\<lparr>VElem := junk1\<rparr>) lh
     = ApplyElementMatrix ext en el trafo x ely lh"
  by (simp add: T_CalcElementVector_def T_CalcElementMatrix_def CalcElementMatrixVol_def
      T_CalcElementMatrixEB_def ApplyElementMatrix_def MatZero_def VecZero_def)

section \<open>The linearized energy\<close>

lemma new_half_square: "new_SymbolicEnergy half_square VOL = Inr energy_half_square"
  by (simp add: new_SymbolicEnergy_def half_square_def energy_half_square_def ScaleCF_def
      MultCF_def ProxyCF_def Contains_def trial_u_def id_diffop_def Dimension_def)

lemma Energy_half_square:
  "Energy one_point_rules energy_half_square fel0 (trafo_measure M) [u] lh = 1 / 2 * M * u\<^sup>2"
  by (simp add: Energy_def one_point_rules_def energy_half_square_def trafo_measure_def
      half_square_def ScaleCF_def MultCF_def ProxyCF_def pinned_userdata_def
      ProxyUserData_init_def Evaluate_ud_def trial_u_def id_diffop_def mip_w_def
      power2_eq_square Dimension_def)

lemma Apply_half_square:
  "ApplyElementMatrix one_point_rules energy_half_square fel0 (trafo_measure M) [u] ely lh
   = ely\<lparr>VElem := (\<lambda>b. if b = 0 then M * u else 0)\<rparr>"
  by (simp add: ApplyElementMatrix_def one_point_rules_def energy_half_square_def
      trafo_measure_def half_square_def ScaleCF_def MultCF_def ProxyCF_def pinned_userdata_def
      ProxyUserData_init_def EvaluateDeriv_ud_def trial_u_def id_diffop_def mip_w_def
      Dimension_def VecZero_def VecAddTo_def AssignCol_def ScaleRow_def NewMatrix_def
      SetZero_def SetCol_def ApplyRule_def Let_def fun_eq_iff)

lemma contract_blocked_all:
  "contract_blocked BS accumulate_all lh el mir p1 p2 pv e
   = mat_add e (\<lambda>a b. \<Sum>i<length mir. point_term el mir p1 p2 pv i a b)"
proof -
  have bs: "0 < BS" by (simp add: BS_def)
  show ?thesis
    unfolding contract_blocked_closed [where R = "\<lambda>a b. True", OF bs accumulate_all_block]
    by (simp add: acc_add_mat_add)
qed

lemma AssignCol_fold:
  "Elem (foldl (\<lambda>m k. AssignCol m k (g k)) m0 [0..<d]) i k =
     (if k < d then g k i else Elem m0 i k)"
  by (induction d) (auto simp add: AssignCol_def)

lemma diagonal_pass_Elem:
  assumes "k1 < length proxies" and "k < Dimension (proxies ! k1)"
  shows "Elem (diagonal_pass cf ud mir lh proxies ! k1) i k
         = snd (snd (cf_EvaluateDDeriv cf (seeded ud (proxies ! k1) k (proxies ! k1) k) mir)) i"
  using assms
  by (simp add: diagonal_pass_def Let_def AssignCol_fold seeded_def)

lemma polarization_step:
  "(if c then ScaleStar (SubStar (SubStar (AssignStar t l k f) l k g) l k h) l k s
    else AssignStar t l k f)
   = AssignStar t l k (\<lambda>i. if c then (f i - g i - h i) * s else f i)"
  by (simp add: AssignStar_def SubStar_def ScaleStar_def fun_eq_iff)

lemma linearized_proxyvalues_TElem:
  assumes "l < Dimension (proxies ! l1)" "k < Dimension (proxies ! k1)"
  shows "TElem (linearized_proxyvalues cf ud mir lh proxies diags k1 l1) i l k
         = (if addr (proxies ! k1) \<noteq> addr (proxies ! l1) \<or> k \<noteq> l
            then (snd (snd (cf_EvaluateDDeriv cf
                     (seeded ud (proxies ! k1) k (proxies ! l1) l) mir)) i
                  - Elem (diags ! k1) i k - Elem (diags ! l1) i l) * 0.5
            else snd (snd (cf_EvaluateDDeriv cf
                     (seeded ud (proxies ! k1) k (proxies ! l1) l) mir)) i)"
  unfolding linearized_proxyvalues_def Let_def polarization_step
  using assms by (simp add: AssignStar_fill seeded_def)

lemma linearized_proxyvalues_Dim2:
  "Dim2 (linearized_proxyvalues cf ud mir lh proxies diags k1 l1) = Dimension (proxies ! k1)"
  unfolding linearized_proxyvalues_def Let_def polarization_step
  by (simp add: AssignStar_fill_Dim2 NewTensor_def)

lemma foldl_mat_add_upt:
  "foldl (\<lambda>e x. mat_add e (g x)) e [0..<n] = mat_add e (\<lambda>a b. \<Sum>x<n. g x a b)"
  by (induction n) (simp_all add: mat_add_zero mat_add_mat_add)

lemma CalcLinearizedElementMatrix_closed:
  "CalcLinearizedElementMatrix ext this el trafo elveclin elmat lh =
     (let mir = MapRule trafo (IntegrationRule ext (GetElementType trafo) (2 * Order el));
          proxies = energy_trial_proxies this;
          ud = remember_fields (pinned_userdata el elveclin) el mir elveclin proxies
      in mat_add (MatZero elmat)
           (\<lambda>a b. \<Sum>k1<length proxies. \<Sum>l1<length proxies. \<Sum>i<length mir.
               \<Sum>l<Dimension (proxies ! l1). CalcMatrix (evaluator (proxies ! l1)) el (mir ! i) l a
                 * (\<Sum>k<Dimension (proxies ! k1).
                      linearized_entry (energy_cf this) ud mir lh proxies k1 l1 i l k
                      * CalcMatrix (evaluator (proxies ! k1)) el (mir ! i) k b)))"
  unfolding CalcLinearizedElementMatrix_def Let_def contract_blocked_all foldl_mat_add_upt
  by (simp add: point_term_def ScalePoint_fold ScalePoint_fold_Dim2 linearized_proxyvalues_Dim2
      linearized_entry_def)

lemma half_square_dderiv:
  "snd (snd (cf_EvaluateDDeriv half_square (seeded ud trial_u 0 trial_u 0) [mip])) 0 = 1"
  by (simp add: half_square_def ScaleCF_def MultCF_def ProxyCF_def EvaluateDDeriv_ud_def
      seeded_def Let_def SetZero_def SetCol_def Dimension_def trial_u_def id_diffop_def)

lemma half_square_entry:
  "linearized_entry half_square ud [mip_w M] lh [trial_u] 0 0 0 0 0 = M"
proof -
  have d: "0 < Dimension ([trial_u] ! 0)"
    by (simp add: Dimension_def trial_u_def id_diffop_def)
  show ?thesis
    unfolding linearized_entry_def linearized_proxyvalues_TElem [OF d d]
    by (simp add: half_square_dderiv mip_w_def)
qed

lemma Linearized_half_square:
  "CalcLinearizedElementMatrix one_point_rules energy_half_square fel0 (trafo_measure M) [u]
     elmat lh
   = elmat\<lparr>Elem := (\<lambda>a b. if a = 0 \<and> b = 0 then M else 0)\<rparr>"
proof -
  have d: "Dimension trial_u = 1"
    by (simp add: Dimension_def trial_u_def id_diffop_def)
  have mir: "MapRule (trafo_measure M)
               (IntegrationRule one_point_rules (GetElementType (trafo_measure M)) (2 * Order fel0))
             = [mip_w M]"
    by (simp add: trafo_measure_def one_point_rules_def)
  have B: "\<And>a. CalcMatrix (evaluator trial_u) fel0 (mip_w M) 0 a = (if a = 0 then 1 else 0)"
    by (simp add: trial_u_def id_diffop_def)
  show ?thesis
    unfolding CalcLinearizedElementMatrix_closed Let_def mir
    by (simp add: energy_half_square_def d half_square_entry B mat_add_def MatZero_def fun_eq_iff)
qed

text \<open>
  C6 (scenario B): for the energy density \<open>0.5 * u * u\<close> of one scalar trial proxy with
  the identity operator on one dof and one quadrature point of weight \<open>M\<close>, the energy
  at the dof value \<open>u\<close> is \<open>0.5 * M * u\<^sup>2\<close>, the gradient is \<open>[M * u]\<close> and the Hessian is
  \<open>[M]\<close>.
\<close>

theorem scenario_half_square:
  "new_SymbolicEnergy half_square VOL = Inr energy_half_square
   \<and> Energy one_point_rules energy_half_square fel0 (trafo_measure M) [u] lh = 1 / 2 * M * u\<^sup>2
   \<and> ApplyElementMatrix one_point_rules energy_half_square fel0 (trafo_measure M) [u] ely lh
       = ely\<lparr>VElem := (\<lambda>b. if b = 0 then M * u else 0)\<rparr>
   \<and> CalcLinearizedElementMatrix one_point_rules energy_half_square fel0 (trafo_measure M) [u]
        elmat lh
       = elmat\<lparr>Elem := (\<lambda>a b. if a = 0 \<and> b = 0 then M else 0)\<rparr>"
  by (simp only: new_half_square Energy_half_square Apply_half_square Linearized_half_square
      simp_thms)

section \<open>The normals of the element-boundary assembly\<close>



lemma AssignElem_fill_inner:
  "Elem (foldl (\<lambda>m l. AssignElem m l k (g l)) m0 [0..<d2]) l' k' =
     (if k' = k \<and> l' < d2 then g l' else Elem m0 l' k')"
  by (induction d2) (auto simp add: AssignElem_def)

lemma AssignElem_fill:
  "Elem (foldl (\<lambda>m k. foldl (\<lambda>m l. AssignElem m l k (g k l)) m [0..<d2]) m0 [0..<d1]) l k =
     (if k < d1 \<and> l < d2 then g k l else Elem m0 l k)"
  by (induction d1) (auto simp add: AssignElem_fill_inner)

lemma boundary_proxyvalues_Elem:
  assumes "k < Dimension p1" "l < Dimension p2"
  shows "Elem (boundary_proxyvalues cf ud mip weight len lh p1 p2) l k
         = weight * len * cf_Evaluate cf (seeded ud p1 k p2 l) mip"
  using assms
  by (simp add: boundary_proxyvalues_def Let_def AssignElem_fill seeded_def)

lemma boundary_proxyvalues_Width:
  "Width (boundary_proxyvalues cf ud mip weight len lh p1 p2) = Dimension p1"
proof -
  have inner: "Width (foldl (\<lambda>m l. AssignElem m l k (g l)) m0 xs) = Width m0" for k g m0 and xs :: "nat list"
    by (induction xs arbitrary: m0) (simp_all add: AssignElem_def)
  have outer: "Width (foldl (\<lambda>m k. foldl (\<lambda>m l. AssignElem m l k (g k l)) m ys) m0 xs) = Width m0"
    for g m0 and xs ys :: "nat list"
    by (induction xs arbitrary: m0) (simp_all add: inner)
  show ?thesis
    by (simp add: boundary_proxyvalues_def Let_def outer NewMatrix_def)
qed

lemma boundary_pair_closed:
  "AddTo e (Mult (Trans (BMatrix p2 el mip h))
              (Mult (boundary_proxyvalues cf (ProxyUserData_init 0 0 []) mip weight len lh p1 p2)
                 (BMatrix p1 el mip w)))
   = mat_add e (boundary_point_term cf el (weight * len) mip p1 p2)"
  by (simp add: AddTo_def mat_add_def Mult_def Trans_def BMatrix_def boundary_proxyvalues_Width
      boundary_point_term_def boundary_proxyvalues_Elem fun_eq_iff)

lemma facet_normal_closed:
  "facet_normal D mip normal_ref
   = (L2Norm (normal_vector D mip normal_ref),
      map (\<lambda>x. x / L2Norm (normal_vector D mip normal_ref)) (normal_vector D mip normal_ref))"
  by (simp add: facet_normal_def Let_def normal_vector_def)

lemma T_CalcElementMatrixEB_closed:
  "T_CalcElementMatrixEB D ext this el trafo elmat lh =
     mat_add (MatZero elmat)
       (\<lambda>a b. \<Sum>k<GetNFacets ext (GetElementType trafo).
                \<Sum>i<length (facet_mir ext el trafo k).
                  \<Sum>p1\<leftarrow>trial_proxies this. \<Sum>p2\<leftarrow>test_proxies this.
                     boundary_point_term (bfi_cf this) el
                       (Weight (facet_ir ext el trafo k ! i)
                          * L2Norm (normal_vector D (facet_mir ext el trafo k ! i)
                                      (GetNormals ext (GetElementType trafo) ! k)))
                       (facet_point D (facet_mir ext el trafo k ! i)
                          (GetNormals ext (GetElementType trafo) ! k))
                       p1 p2 a b)"
  unfolding T_CalcElementMatrixEB_def Let_def facet_normal_closed split_conv SetNV_def
    boundary_pair_closed foldl_mat_add foldl_mat_add_upt
  by (simp add: facet_mir_def facet_ir_def facet_point_def interv_sum_list_conv_sum_set_nat
      atLeast0LessThan)








section \<open>The used dofs\<close>

lemma foldl_invariant:
  "P e \<Longrightarrow> (\<And>e x. x \<in> set xs \<Longrightarrow> P e \<Longrightarrow> P (f e x)) \<Longrightarrow> P (foldl f e xs)"
  by (induction xs arbitrary: e) simp_all

lemma confined_product_zero:
  assumes c1: "matrix_confined_to_used_dofs el p1" and c2: "matrix_confined_to_used_dofs el p2"
    and out: "\<not> (InRange (UsedDofs (evaluator p2) el) a \<and> InRange (UsedDofs (evaluator p1) el) b)"
  shows "(\<Sum>l<d2. CalcMatrix (evaluator p2) el mip l a
            * (\<Sum>k<d1. t l k * CalcMatrix (evaluator p1) el mip k b)) = 0"
proof (cases "InRange (UsedDofs (evaluator p2) el) a")
  case True
  then have "\<not> InRange (UsedDofs (evaluator p1) el) b" using out by simp
  then have "\<And>k. CalcMatrix (evaluator p1) el mip k b = 0"
    using c1 by (simp add: matrix_confined_to_used_dofs_def)
  then show ?thesis by simp
next
  case False
  then have "\<And>l. CalcMatrix (evaluator p2) el mip l a = 0"
    using c2 by (simp add: matrix_confined_to_used_dofs_def)
  then show ?thesis by simp
qed

lemma volume_outside:
  assumes "outside_rectangles el (trial_proxies this) (test_proxies this) a b"
  shows "Elem (CalcElementMatrixVol ext this el trafo elmat lh) a b = 0"
proof -
  have "\<And>p1 p2. p1 \<in> set (trial_proxies this) \<Longrightarrow> p2 \<in> set (test_proxies this) \<Longrightarrow>
          volume_pair_term (bfi_cf this) (ProxyUserData_init 0 0 []) el
             (MapRule trafo (IntegrationRule ext (GetElementType trafo) (2 * Order el)))
             p1 p2 a b = 0"
    using assms by (auto simp add: volume_pair_term_def used_rect_def outside_rectangles_def)
  then show ?thesis
    by (simp add: CalcElementMatrixVol_closed mat_add_def MatZero_def sum_list_0 cong: map_cong)
qed

lemma boundary_pair_step:
  assumes "matrix_confined_to_used_dofs el p1" and "matrix_confined_to_used_dofs el p2"
    and "\<not> (InRange (UsedDofs (evaluator p2) el) a \<and> InRange (UsedDofs (evaluator p1) el) b)"
    and "Elem e a b = 0"
  shows "Elem (AddTo e (Mult (Trans (BMatrix p2 el mip h)) (Mult pv (BMatrix p1 el mip w)))) a b = 0"
  using assms(4) confined_product_zero [OF assms(1,2,3)]
  by (simp add: AddTo_def Mult_def Trans_def BMatrix_def)

lemma boundary_outside:
  assumes conf: "\<forall>p\<in>set (trial_proxies this) \<union> set (test_proxies this).
                   matrix_confined_to_used_dofs el p"
    and out: "outside_rectangles el (trial_proxies this) (test_proxies this) a b"
  shows "Elem (T_CalcElementMatrixEB D ext this el trafo elmat lh) a b = 0"
  unfolding T_CalcElementMatrixEB_def Let_def split_beta
  apply (rule foldl_invariant [where P = "\<lambda>e. Elem e a b = 0"])
   apply (simp add: MatZero_def)
  apply (rule foldl_invariant [where P = "\<lambda>e. Elem e a b = 0"], assumption)
  apply (rule foldl_invariant [where P = "\<lambda>e. Elem e a b = 0"], assumption)
  apply (rule foldl_invariant [where P = "\<lambda>e. Elem e a b = 0"], assumption)
  apply (rule boundary_pair_step)
  using conf out apply (auto simp add: outside_rectangles_def)
  done

lemma linearized_pair_step:
  assumes "matrix_confined_to_used_dofs el p1" and "matrix_confined_to_used_dofs el p2"
    and "\<not> (InRange (UsedDofs (evaluator p2) el) a \<and> InRange (UsedDofs (evaluator p1) el) b)"
    and "Elem e a b = 0"
  shows "Elem (contract_blocked BS accumulate_all lh el mir p1 p2 pv e) a b = 0"
proof -
  have bs: "0 < BS" by (simp add: BS_def)
  have "\<And>i. point_term el mir p1 p2 pv i a b = 0"
    unfolding point_term_def by (rule confined_product_zero [OF assms(1,2,3)])
  then show ?thesis
    using assms(4)
    by (simp add: contract_blocked_closed [where R = "\<lambda>a b. True", OF bs accumulate_all_block]
        acc_add_def)
qed

lemma linearized_outside:
  assumes conf: "\<forall>p\<in>set (energy_trial_proxies this). matrix_confined_to_used_dofs el p"
    and out: "outside_rectangles el (energy_trial_proxies this) (energy_trial_proxies this) a b"
  shows "Elem (CalcLinearizedElementMatrix ext this el trafo elveclin elmat lh) a b = 0"
  unfolding CalcLinearizedElementMatrix_def Let_def
  apply (rule foldl_invariant [where P = "\<lambda>e. Elem e a b = 0"])
   apply (simp add: MatZero_def)
  apply (rule foldl_invariant [where P = "\<lambda>e. Elem e a b = 0"], assumption)
  apply (rule linearized_pair_step)
  using conf out apply (auto simp add: outside_rectangles_def)
  done

lemma foldl_vec_add:
  "VElem (foldl (\<lambda>v x. VecAddTo v \<lparr>Size = Size v, VElem = g x\<rparr>) v xs) b
   = VElem v b + (\<Sum>x\<leftarrow>xs. g x b)"
  by (induction xs arbitrary: v) (simp_all add: VecAddTo_def)

lemma T_CalcElementVector_closed:
  "VElem (T_CalcElementVector ext this el trafo elvec lh) b
   = (\<Sum>proxy\<leftarrow>lfi_proxies this.
        ApplyTrans (evaluator proxy) el
          (MapRule trafo (IntegrationRule ext (GetElementType trafo) (2 * Order el)))
          (Elem (linear_proxyvalues (lfi_cf this)
                   (IntegrationRule ext (GetElementType trafo) (2 * Order el))
                   (MapRule trafo (IntegrationRule ext (GetElementType trafo) (2 * Order el)))
                   lh proxy)) b)"
  unfolding T_CalcElementVector_def Let_def linear_proxyvalues_def [symmetric, unfolded Let_def]
  by (simp add: foldl_vec_add VecZero_def)

lemma ApplyElementMatrix_closed:
  "VElem (ApplyElementMatrix ext this el trafo x ely lh) b
   = (\<Sum>proxy\<leftarrow>energy_trial_proxies this.
        ApplyTrans (evaluator proxy) el
          (MapRule trafo (IntegrationRule ext (GetElementType trafo) (2 * Order el)))
          (Elem (gradient_proxyvalues (energy_cf this) (pinned_userdata el x)
                   (MapRule trafo (IntegrationRule ext (GetElementType trafo) (2 * Order el)))
                   lh proxy)) b)"
  unfolding ApplyElementMatrix_def Let_def gradient_proxyvalues_def [symmetric, unfolded Let_def]
  by (simp add: foldl_vec_add VecZero_def)

lemma vector_outside:
  assumes conf: "\<forall>p\<in>set (lfi_proxies this). transposed_confined_to_used_dofs el p"
    and out: "outside_ranges el (lfi_proxies this) b"
  shows "VElem (T_CalcElementVector ext this el trafo elvec lh) b = 0"
proof -
  have "ApplyTrans (evaluator p) el mir vals b = 0" if "p \<in> set (lfi_proxies this)"
    for p mir vals
    using conf out that by (simp add: outside_ranges_def transposed_confined_to_used_dofs_def)
  then show ?thesis
    unfolding T_CalcElementVector_closed by (simp add: sum_list_0 cong: map_cong)
qed

lemma gradient_outside:
  assumes conf: "\<forall>p\<in>set (energy_trial_proxies this). transposed_confined_to_used_dofs el p"
    and out: "outside_ranges el (energy_trial_proxies this) b"
  shows "VElem (ApplyElementMatrix ext this el trafo x ely lh) b = 0"
proof -
  have "ApplyTrans (evaluator p) el mir vals b = 0" if "p \<in> set (energy_trial_proxies this)"
    for p mir vals
    using conf out that by (simp add: outside_ranges_def transposed_confined_to_used_dofs_def)
  then show ?thesis
    unfolding ApplyElementMatrix_closed by (simp add: sum_list_0 cong: map_cong)
qed

lemma spill_facts:
  "Dimension trial_s = 1" "Dimension test_s = 1"
  "UsedDofs (evaluator trial_s) el = (0, 1)" "UsedDofs (evaluator test_s) el = (0, 1)"
  "CalcMatrix (evaluator trial_s) el m k b = (if k = 0 \<and> b < 2 then 1 else 0)"
  "CalcMatrix (evaluator test_s) el m k b = (if k = 0 \<and> b < 2 then 1 else 0)"
  "ApplyTrans (evaluator trial_s) el mir vals b
     = (if b < 2 then (\<Sum>i<length mir. vals i 0) else 0)"
  "ApplyTrans (evaluator test_s) el mir vals b
     = (if b < 2 then (\<Sum>i<length mir. vals i 0) else 0)"
  by (simp_all add: Dimension_def trial_s_def test_s_def spill_diffop_def)

text \<open>
  C7, as the code has it: the volume bilinear form adds every proxy-pair contribution
  into the rectangle of the used-dof rows of the test operator and the used-dof columns
  of the trial operator only, so every entry of its output outside these rectangles is
  zero. The element-boundary form and the energy Hessian add the whole product
  \<open>Trans (bmat2) * proxyvalues * bmat1\<close>; their entries outside the rectangles are zero
  when the matrices of the operators vanish outside their used dofs. The linear form and
  the energy gradient add, for every proxy, the whole vector that \<open>ApplyTrans\<close> of the
  operator returns: the output is the sum of these vectors, and its entries outside the
  used-dof ranges are zero when the results of \<open>ApplyTrans\<close> vanish there.
\<close>

theorem writes_confined_to_used_dofs:
  "(outside_rectangles el (trial_proxies bfi) (test_proxies bfi) a b \<longrightarrow>
      Elem (CalcElementMatrixVol ext bfi el trafo elmat lh) a b = 0)
   \<and> ((\<forall>p\<in>set (trial_proxies bfi) \<union> set (test_proxies bfi).
          matrix_confined_to_used_dofs el p)
        \<and> outside_rectangles el (trial_proxies bfi) (test_proxies bfi) a b \<longrightarrow>
      Elem (T_CalcElementMatrixEB D ext bfi el trafo elmat lh) a b = 0)
   \<and> ((\<forall>p\<in>set (energy_trial_proxies en). matrix_confined_to_used_dofs el p)
        \<and> outside_rectangles el (energy_trial_proxies en) (energy_trial_proxies en) a b \<longrightarrow>
      Elem (CalcLinearizedElementMatrix ext en el trafo x elmat lh) a b = 0)
   \<and> VElem (T_CalcElementVector ext lfi el trafo elvec lh) b
       = (\<Sum>proxy\<leftarrow>lfi_proxies lfi.
            ApplyTrans (evaluator proxy) el
              (MapRule trafo (IntegrationRule ext (GetElementType trafo) (2 * Order el)))
              (Elem (linear_proxyvalues (lfi_cf lfi)
                       (IntegrationRule ext (GetElementType trafo) (2 * Order el))
                       (MapRule trafo (IntegrationRule ext (GetElementType trafo) (2 * Order el)))
                       lh proxy)) b)
   \<and> VElem (ApplyElementMatrix ext en el trafo x ely lh) b
       = (\<Sum>proxy\<leftarrow>energy_trial_proxies en.
            ApplyTrans (evaluator proxy) el
              (MapRule trafo (IntegrationRule ext (GetElementType trafo) (2 * Order el)))
              (Elem (gradient_proxyvalues (energy_cf en) (pinned_userdata el x)
                       (MapRule trafo (IntegrationRule ext (GetElementType trafo) (2 * Order el)))
                       lh proxy)) b)
   \<and> ((\<forall>p\<in>set (lfi_proxies lfi). transposed_confined_to_used_dofs el p)
        \<and> outside_ranges el (lfi_proxies lfi) b \<longrightarrow>
      VElem (T_CalcElementVector ext lfi el trafo elvec lh) b = 0)
   \<and> ((\<forall>p\<in>set (energy_trial_proxies en). transposed_confined_to_used_dofs el p)
        \<and> outside_ranges el (energy_trial_proxies en) b \<longrightarrow>
      VElem (ApplyElementMatrix ext en el trafo x ely lh) b = 0)"
proof (intro conjI impI)
  assume "outside_rectangles el (trial_proxies bfi) (test_proxies bfi) a b"
  then show "Elem (CalcElementMatrixVol ext bfi el trafo elmat lh) a b = 0"
    by (rule volume_outside)
next
  assume "(\<forall>p\<in>set (trial_proxies bfi) \<union> set (test_proxies bfi).
             matrix_confined_to_used_dofs el p)
        \<and> outside_rectangles el (trial_proxies bfi) (test_proxies bfi) a b"
  then show "Elem (T_CalcElementMatrixEB D ext bfi el trafo elmat lh) a b = 0"
    using boundary_outside by blast
next
  assume "(\<forall>p\<in>set (energy_trial_proxies en). matrix_confined_to_used_dofs el p)
        \<and> outside_rectangles el (energy_trial_proxies en) (energy_trial_proxies en) a b"
  then show "Elem (CalcLinearizedElementMatrix ext en el trafo x elmat lh) a b = 0"
    using linearized_outside by blast
next
  assume "(\<forall>p\<in>set (lfi_proxies lfi). transposed_confined_to_used_dofs el p)
        \<and> outside_ranges el (lfi_proxies lfi) b"
  then show "VElem (T_CalcElementVector ext lfi el trafo elvec lh) b = 0"
    using vector_outside by blast
next
  assume "(\<forall>p\<in>set (energy_trial_proxies en). transposed_confined_to_used_dofs el p)
        \<and> outside_ranges el (energy_trial_proxies en) b"
  then show "VElem (ApplyElementMatrix ext en el trafo x ely lh) b = 0"
    using gradient_outside by blast
qed (rule T_CalcElementVector_closed ApplyElementMatrix_closed)+

theorem writes_confined_to_used_dofs_witness:
  "outside_rectangles fel0 [trial_u] [test_v] 1 1
   \<and> outside_rectangles fel0 [trial_u] [trial_u] 1 1
   \<and> outside_ranges fel0 [test_v] 1
   \<and> outside_ranges fel0 [trial_u] 1
   \<and> matrix_confined_to_used_dofs fel0 trial_u \<and> matrix_confined_to_used_dofs fel0 test_v
   \<and> transposed_confined_to_used_dofs fel0 trial_u
   \<and> transposed_confined_to_used_dofs fel0 test_v
   \<and> Elem (CalcElementMatrixVol one_point_rules bfi_mass fel0 (trafo_measure 2) (elmat_22 7)
             (\<lambda>n. 0)) 1 1 = 0
   \<and> Elem (T_CalcElementMatrixEB 1 one_point_rules bfi_mass fel0 (trafo_measure 2) (elmat_22 7)
             (\<lambda>n. 0)) 1 1 = 0
   \<and> Elem (CalcLinearizedElementMatrix one_point_rules energy_half_square fel0
             (trafo_measure 2) [3] (elmat_22 7) (\<lambda>n. 0)) 1 1 = 0
   \<and> VElem (T_CalcElementVector one_point_rules lfi_v fel0 (trafo_measure 2) (elvec_2 7)
             (\<lambda>n. 0)) 1 = 0
   \<and> VElem (ApplyElementMatrix one_point_rules energy_half_square fel0 (trafo_measure 2) [3]
             (elvec_2 7) (\<lambda>n. 0)) 1 = 0
   \<and> outside_rectangles fel0 [trial_s] [test_s] 1 1
   \<and> Elem (CalcElementMatrixVol one_point_rules bfi_spill fel0 (trafo_measure 2) (elmat_22 7)
             (\<lambda>n. 0)) 1 1 = 0"
proof -
  have r: "outside_rectangles fel0 [trial_u] [test_v] 1 1"
    "outside_rectangles fel0 [trial_u] [trial_u] 1 1"
    "outside_rectangles fel0 [trial_s] [test_s] 1 1"
    by (simp_all add: outside_rectangles_def InRange_def trial_u_def test_v_def id_diffop_def
        spill_facts)
  have o: "outside_ranges fel0 [test_v] 1" "outside_ranges fel0 [trial_u] 1"
    by (simp_all add: outside_ranges_def InRange_def trial_u_def test_v_def id_diffop_def)
  have m: "matrix_confined_to_used_dofs fel0 trial_u" "matrix_confined_to_used_dofs fel0 test_v"
    by (simp_all add: matrix_confined_to_used_dofs_def InRange_def trial_u_def test_v_def
        id_diffop_def)
  have t: "transposed_confined_to_used_dofs fel0 trial_u"
    "transposed_confined_to_used_dofs fel0 test_v"
    by (simp_all add: transposed_confined_to_used_dofs_def InRange_def trial_u_def test_v_def
        id_diffop_def)
  have p: "trial_proxies bfi_mass = [trial_u]" "test_proxies bfi_mass = [test_v]"
    "lfi_proxies lfi_v = [test_v]" "energy_trial_proxies energy_half_square = [trial_u]"
    "trial_proxies bfi_spill = [trial_s]" "test_proxies bfi_spill = [test_s]"
    by (simp_all add: bfi_mass_def lfi_v_def energy_half_square_def bfi_spill_def)
  note T = writes_confined_to_used_dofs [where el = fel0 and bfi = bfi_mass and a = 1 and b = 1
      and ext = one_point_rules and trafo = "trafo_measure 2" and elmat = "elmat_22 7"
      and lh = "\<lambda>n. 0" and D = 1 and lfi = lfi_v and elvec = "elvec_2 7"
      and en = energy_half_square and x = "[3]" and ely = "elvec_2 7", unfolded p]
  note S = writes_confined_to_used_dofs [where el = fel0 and bfi = bfi_spill and a = 1 and b = 1
      and ext = one_point_rules and trafo = "trafo_measure 2" and elmat = "elmat_22 7"
      and lh = "\<lambda>n. 0", unfolded p]
  have 1: "Elem (CalcElementMatrixVol one_point_rules bfi_mass fel0 (trafo_measure 2) (elmat_22 7)
             (\<lambda>n. 0)) 1 1 = 0"
    using T [THEN conjunct1] r by simp
  have 2: "Elem (T_CalcElementMatrixEB 1 one_point_rules bfi_mass fel0 (trafo_measure 2)
             (elmat_22 7) (\<lambda>n. 0)) 1 1 = 0"
    using T [THEN conjunct2, THEN conjunct1] r m by simp
  have 3: "Elem (CalcLinearizedElementMatrix one_point_rules energy_half_square fel0
             (trafo_measure 2) [3] (elmat_22 7) (\<lambda>n. 0)) 1 1 = 0"
    using T [THEN conjunct2, THEN conjunct2, THEN conjunct1] r m by simp
  have 4: "VElem (T_CalcElementVector one_point_rules lfi_v fel0 (trafo_measure 2) (elvec_2 7)
             (\<lambda>n. 0)) 1 = 0"
    using T [THEN conjunct2, THEN conjunct2, THEN conjunct2, THEN conjunct2, THEN conjunct2,
        THEN conjunct1] o t by simp
  have 5: "VElem (ApplyElementMatrix one_point_rules energy_half_square fel0 (trafo_measure 2)
             [3] (elvec_2 7) (\<lambda>n. 0)) 1 = 0"
    using T [THEN conjunct2, THEN conjunct2, THEN conjunct2, THEN conjunct2, THEN conjunct2,
        THEN conjunct2] o t by simp
  have 6: "Elem (CalcElementMatrixVol one_point_rules bfi_spill fel0 (trafo_measure 2)
             (elmat_22 7) (\<lambda>n. 0)) 1 1 = 0"
    using S [THEN conjunct1] r by simp
  show ?thesis
    using r o m t 1 2 3 4 5 6 by simp
qed

lemma mir_one_point:
  "IntegrationRule one_point_rules et n = [\<lparr>Point = [0], Weight = 1\<rparr>]"
  "MapRule (trafo_measure M) [p] = [mip_w M]"
  "GetWeight (mip_w M) = M"
  by (simp_all add: trafo_measure_def one_point_rules_def mip_w_def)

lemma spill_mass_value:
  "cf_Evaluate (MultCF (ProxyCF trial_s) (ProxyCF test_s))
     (seeded (ProxyUserData_init 0 0 []) trial_s 0 test_s 0) m = 1"
  by (simp add: MultCF_def ProxyCF_def Evaluate_ud_def seeded_def ProxyUserData_init_def
      Dimension_def trial_s_def test_s_def spill_diffop_def)

lemma spill_boundary_entry:
  "Elem (T_CalcElementMatrixEB 1 one_point_rules bfi_spill fel0 (trafo_measure 2) (elmat_22 0)
           (\<lambda>n. 0)) 1 1 = 1"
proof -
  have ir: "facet_ir one_point_rules fel0 (trafo_measure 2) k = [\<lparr>Point = [0], Weight = 1\<rparr>]" for k
    by (simp add: facet_ir_def one_point_rules_def)
  have mir: "facet_mir one_point_rules fel0 (trafo_measure 2) k = [mip_w 2]" for k
    unfolding facet_mir_def ir by (simp add: one_point_rules_def trafo_measure_def)
  have ext: "GetNFacets one_point_rules et = 1" "GetNormals one_point_rules et = [[1]]" for et
    by (simp_all add: one_point_rules_def)
  have nv: "normal_vector 1 (mip_w 2) [1] = [1]"
    by (simp add: normal_vector_def mip_w_def)
  have len: "L2Norm [1] = 1" by (simp add: L2Norm_def)
  show ?thesis
    unfolding T_CalcElementMatrixEB_closed
    by (simp add: mat_add_def MatZero_def ir mir ext nv [unfolded One_nat_def] len bfi_spill_def
        boundary_point_term_def spill_facts spill_mass_value)
qed

lemma spill_vector_entry:
  "VElem (T_CalcElementVector one_point_rules lfi_spill fel0 (trafo_measure 2) (elvec_2 0)
            (\<lambda>n. 0)) 1 = 2"
proof -
  have v: "cf_EvaluateRule (ProxyCF test_s)
             ((ProxyUserData_init 0 0 [])\<lparr>testfunction := Some (addr test_s), test_comp := 0\<rparr>)
             mir i = 1" for mir i
    by (simp add: ProxyCF_def Evaluate_ud_def ProxyUserData_init_def Dimension_def test_s_def
        spill_diffop_def)
  have pv: "Elem (linear_proxyvalues (ProxyCF test_s) [\<lparr>Point = [0], Weight = 1\<rparr>] [mip_w 2]
                    (\<lambda>n. 0) test_s) 0 0 = 2"
    by (simp add: linear_proxyvalues_def spill_facts Let_def v AssignCol_def ScaleRow_def
        NewMatrix_def mir_one_point)
  show ?thesis
    unfolding T_CalcElementVector_closed
    by (simp add: lfi_spill_def spill_facts pv mir_one_point)
qed

lemma spill_gradient_entry:
  "VElem (ApplyElementMatrix one_point_rules energy_spill fel0 (trafo_measure 2) [3, 4]
            (elvec_2 0) (\<lambda>n. 0)) 1 = 14"
proof -
  have d: "snd (cf_EvaluateDeriv (ScaleCF (1 / 2) (MultCF (ProxyCF trial_s) (ProxyCF trial_s)))
             ((pinned_userdata fel0 [3, 4])\<lparr>trialfunction := Some (addr trial_s),
                                             trial_comp := 0\<rparr>) [mip_w 2]) 0 = 7"
    by (simp add: ScaleCF_def MultCF_def ProxyCF_def Let_def EvaluateDeriv_ud_def
        pinned_userdata_def ProxyUserData_init_def Dimension_def ApplyRule_def SetZero_def
        SetCol_def trial_s_def spill_diffop_def)
  have pv: "Elem (gradient_proxyvalues
                    (ScaleCF (1 / 2) (MultCF (ProxyCF trial_s) (ProxyCF trial_s)))
                    (pinned_userdata fel0 [3, 4]) [mip_w 2] (\<lambda>n. 0) trial_s) 0 0 = 14"
    by (simp add: gradient_proxyvalues_def spill_facts Let_def d AssignCol_def ScaleRow_def
        NewMatrix_def mir_one_point)
  show ?thesis
    unfolding ApplyElementMatrix_closed
    by (simp add: energy_spill_def spill_facts pv mir_one_point)
qed

lemma spill_hessian_entry:
  "Elem (CalcLinearizedElementMatrix one_point_rules energy_spill fel0 (trafo_measure 2) [3, 4]
           (elmat_22 0) (\<lambda>n. 0)) 1 1 = 2"
proof -
  have dd: "snd (snd (cf_EvaluateDDeriv
                   (ScaleCF (1 / 2) (MultCF (ProxyCF trial_s) (ProxyCF trial_s)))
                   (seeded ud trial_s 0 trial_s 0) [mip])) 0 = 1" for ud mip
    by (simp add: ScaleCF_def MultCF_def ProxyCF_def EvaluateDDeriv_ud_def seeded_def Let_def
        SetZero_def SetCol_def Dimension_def trial_s_def spill_diffop_def)
  have d: "0 < Dimension ([trial_s] ! 0)" by (simp add: spill_facts)
  have entry: "linearized_entry (ScaleCF (1 / 2) (MultCF (ProxyCF trial_s) (ProxyCF trial_s)))
                 ud [mip_w 2] (\<lambda>n. 0) [trial_s] 0 0 0 0 0 = 2" for ud
    unfolding linearized_entry_def linearized_proxyvalues_TElem [OF d d]
    by (simp add: dd mir_one_point)
  show ?thesis
    unfolding CalcLinearizedElementMatrix_closed Let_def
    by (simp add: energy_spill_def spill_facts entry mat_add_def MatZero_def mir_one_point)
qed

text \<open>
  C7 as stated fails for an operator whose matrix and transposed application are not
  zero outside the used dofs it reports: on an element with two dofs and the used dofs
  \<open>[0, 1)\<close> the element-boundary form, the linear form, the energy gradient and the energy
  Hessian write the entry 1, respectively \<open>(1, 1)\<close>, outside every used-dof range,
  respectively rectangle.
\<close>

theorem writes_outside_used_dofs_counterexample:
  "outside_rectangles fel0 [trial_s] [test_s] 1 1
   \<and> Elem (T_CalcElementMatrixEB 1 one_point_rules bfi_spill fel0 (trafo_measure 2) (elmat_22 0)
             (\<lambda>n. 0)) 1 1 = 1
   \<and> outside_ranges fel0 [test_s] 1
   \<and> VElem (T_CalcElementVector one_point_rules lfi_spill fel0 (trafo_measure 2) (elvec_2 0)
              (\<lambda>n. 0)) 1 = 2
   \<and> outside_ranges fel0 [trial_s] 1
   \<and> VElem (ApplyElementMatrix one_point_rules energy_spill fel0 (trafo_measure 2) [3, 4]
              (elvec_2 0) (\<lambda>n. 0)) 1 = 14
   \<and> outside_rectangles fel0 [trial_s] [trial_s] 1 1
   \<and> Elem (CalcLinearizedElementMatrix one_point_rules energy_spill fel0 (trafo_measure 2)
             [3, 4] (elmat_22 0) (\<lambda>n. 0)) 1 1 = 2"
  using spill_boundary_entry spill_vector_entry spill_gradient_entry spill_hessian_entry
  by (simp add: outside_rectangles_def outside_ranges_def spill_facts InRange_def)

section \<open>Polarization\<close>

lemma deriv_marks_seed_direction:
  assumes "i < length deriv" and "c < length (deriv ! i)"
  shows "fst (snd (EvaluateDDeriv_ud this ud mir result deriv dderiv)) ! i ! c
         = seed_direction ud (addr this, c)"
  using assms
  by (auto simp add: EvaluateDDeriv_ud_def Let_def nth_SetCol nth_SetZero length_SetZero
      length_nth_SetZero length_SetCol length_nth_SetCol seed_direction_def)

lemma seed_direction_same:
  "seed_direction (seeded ud p k p k) = unit_direction (addr p, k)"
  by (auto simp add: seed_direction_def seeded_def unit_direction_def fun_eq_iff)

lemma seed_direction_same_addr:
  "addr p1 = addr p2 \<Longrightarrow> seed_direction (seeded ud p1 k p2 k) = unit_direction (addr p1, k)"
  by (auto simp add: seed_direction_def seeded_def unit_direction_def fun_eq_iff)

lemma seed_direction_two:
  assumes "addr p1 \<noteq> addr p2 \<or> k \<noteq> l"
  shows "seed_direction (seeded ud p1 k p2 l)
         = (\<lambda>x. unit_direction (addr p1, k) x + unit_direction (addr p2, l) x)"
  using assms
  by (auto simp add: seed_direction_def seeded_def unit_direction_def fun_eq_iff)

lemma polarization_identity:
  assumes "symmetric_bilinear B"
  shows "B (\<lambda>x. u x + v x) (\<lambda>x. u x + v x) - B u u - B v v = B u v * 2"
proof -
  have add1: "\<And>u v w. B (\<lambda>x. u x + v x) w = B u w + B v w"
    and sym: "\<And>u v. B u v = B v u"
    using assms by (simp_all add: symmetric_bilinear_def)
  have add2: "\<And>u v w. B w (\<lambda>x. u x + v x) = B w u + B w v"
    using add1 sym by metis
  show ?thesis
    by (simp add: add1 add2 sym [of v u])
qed

lemma polarization_recovers:
  assumes bil: "symmetric_bilinear B"
    and prim: "\<forall>p c q d. snd (snd (cf_EvaluateDDeriv cf (seeded ud p c q d) mir)) i
                 = B (seed_direction (seeded ud p c q d)) (seed_direction (seeded ud p c q d))"
    and idx: "k1 < length proxies" "l1 < length proxies"
      "k < Dimension (proxies ! k1)" "l < Dimension (proxies ! l1)"
  shows "TElem (linearized_proxyvalues cf ud mir lh proxies
                  (diagonal_pass cf ud mir lh proxies) k1 l1) i l k
         = B (unit_direction (addr (proxies ! k1), k)) (unit_direction (addr (proxies ! l1), l))"
proof (cases "addr (proxies ! k1) \<noteq> addr (proxies ! l1) \<or> k \<noteq> l")
  case True
  show ?thesis
    unfolding linearized_proxyvalues_TElem [OF idx(4) idx(3)]
      diagonal_pass_Elem [OF idx(1) idx(3)] diagonal_pass_Elem [OF idx(2) idx(4)]
    using True
    by (simp add: prim seed_direction_same seed_direction_two polarization_identity [OF bil])
next
  case False
  then show ?thesis
    unfolding linearized_proxyvalues_TElem [OF idx(4) idx(3)]
    by (simp add: prim seed_direction_same_addr)
qed

lemma ComponentCF_dderiv:
  assumes "i < length mir" "c < Dimension p"
  shows "fst (snd (cf_EvaluateDDeriv (ComponentCF p c) ud mir)) i = seed_direction ud (addr p, c)"
    and "snd (snd (cf_EvaluateDDeriv (ComponentCF p c) ud mir)) i = 0"
proof -
  show "fst (snd (cf_EvaluateDDeriv (ComponentCF p c) ud mir)) i = seed_direction ud (addr p, c)"
    using assms by (simp add: ComponentCF_def Let_def deriv_marks_seed_direction)
  show "snd (snd (cf_EvaluateDDeriv (ComponentCF p c) ud mir)) i = 0"
    using assms by (simp add: ComponentCF_def Let_def EvaluateDDeriv_ud_def nth_SetZero)
qed

lemma quadratic_term_dderiv:
  assumes "i < length mir" "x < Dimension p" "y < Dimension p"
  shows "snd (snd (cf_EvaluateDDeriv
                     (ScaleCF a (MultCF (ComponentCF p x) (ComponentCF p y))) ud mir)) i
         = a * (2 * seed_direction ud (addr p, x) * seed_direction ud (addr p, y))"
  using ComponentCF_dderiv [OF assms(1,2), of ud] ComponentCF_dderiv [OF assms(1,3), of ud]
  by (simp add: ScaleCF_def MultCF_def Let_def)

lemma SumCF_dderiv:
  "snd (snd (cf_EvaluateDDeriv (SumCF fs) ud mir)) i
   = (\<Sum>f\<leftarrow>fs. snd (snd (cf_EvaluateDDeriv f ud mir)) i)"
  by (induction fs) (simp_all add: SumCF_def AddCF_def ConstantCF_def Let_def)

lemma sum_list_concat_map2:
  fixes g :: "'b \<Rightarrow> real"
  shows "(\<Sum>z\<leftarrow>concat (map (\<lambda>x. map (h x) ys) xs). g z) = (\<Sum>x\<leftarrow>xs. \<Sum>y\<leftarrow>ys. g (h x y))"
  by (induction xs) (simp_all add: comp_def)

lemma quadratic_density_dderiv:
  assumes "i < length mir"
  shows "snd (snd (cf_EvaluateDDeriv (quadratic_density A p) ud mir)) i
         = (\<Sum>x<Dimension p. \<Sum>y<Dimension p.
              A x y * (2 * seed_direction ud (addr p, x) * seed_direction ud (addr p, y)))"
proof -
  have "snd (snd (cf_EvaluateDDeriv (quadratic_density A p) ud mir)) i
        = (\<Sum>x\<leftarrow>[0..<Dimension p]. \<Sum>y\<leftarrow>[0..<Dimension p].
             snd (snd (cf_EvaluateDDeriv
               (ScaleCF (A x y) (MultCF (ComponentCF p x) (ComponentCF p y))) ud mir)) i)"
    unfolding quadratic_density_def SumCF_dderiv by (rule sum_list_concat_map2)
  also have "\<dots> = (\<Sum>x\<leftarrow>[0..<Dimension p]. \<Sum>y\<leftarrow>[0..<Dimension p].
              A x y * (2 * seed_direction ud (addr p, x) * seed_direction ud (addr p, y)))"
    using assms
    by (intro arg_cong [where f = sum_list] map_cong refl) (simp add: quadratic_term_dderiv)
  finally show ?thesis
    by (simp add: interv_sum_list_conv_sum_set_nat lessThan_atLeast0)
qed

lemma hessian_form_diag:
  "hessian_form A a n s s = (\<Sum>x<n. \<Sum>y<n. A x y * (2 * s (a, x) * s (a, y)))"
proof -
  have "(\<Sum>x<n. \<Sum>y<n. A y x * s (a, x) * s (a, y)) = (\<Sum>y<n. \<Sum>x<n. A y x * s (a, x) * s (a, y))"
    by (rule sum.swap)
  also have "\<dots> = (\<Sum>x<n. \<Sum>y<n. A x y * s (a, x) * s (a, y))"
    by (simp add: mult.commute mult.left_commute)
  finally have sw: "(\<Sum>x<n. \<Sum>y<n. A y x * s (a, x) * s (a, y))
                    = (\<Sum>x<n. \<Sum>y<n. A x y * s (a, x) * s (a, y))" .
  have "hessian_form A a n s s
        = (\<Sum>x<n. \<Sum>y<n. A x y * s (a, x) * s (a, y)) + (\<Sum>x<n. \<Sum>y<n. A y x * s (a, x) * s (a, y))"
    by (simp add: hessian_form_def distrib_right sum.distrib)
  also have "\<dots> = (\<Sum>x<n. \<Sum>y<n. A x y * (2 * s (a, x) * s (a, y)))"
    unfolding sw by (simp add: sum.distrib [symmetric] algebra_simps)
  finally show ?thesis .
qed

lemma hessian_form_symmetric_bilinear: "symmetric_bilinear (hessian_form A a n)"
proof -
  have sym: "hessian_form A a n u v = hessian_form A a n v u" for u v
  proof -
    have "hessian_form A a n u v = (\<Sum>y<n. \<Sum>x<n. (A x y + A y x) * u (a, x) * v (a, y))"
      unfolding hessian_form_def by (rule sum.swap)
    also have "\<dots> = hessian_form A a n v u"
      by (simp add: hessian_form_def add.commute mult.commute mult.left_commute)
    finally show ?thesis .
  qed
  have add: "hessian_form A a n (\<lambda>x. u x + v x) w = hessian_form A a n u w + hessian_form A a n v w"
    for u v w
    by (simp add: hessian_form_def distrib_left distrib_right sum.distrib)
  have hom: "hessian_form A a n (\<lambda>x. c * u x) w = c * hessian_form A a n u w" for c u w
    by (simp add: hessian_form_def sum_distrib_left mult.assoc mult.left_commute)
  show ?thesis
    unfolding symmetric_bilinear_def using sym add hom by blast
qed

lemma hessian_form_unit:
  assumes "k < n" "l < n"
  shows "hessian_form A a n (unit_direction (a, k)) (unit_direction (a, l)) = A k l + A l k"
proof -
  have "hessian_form A a n (unit_direction (a, k)) (unit_direction (a, l))
        = (\<Sum>x<n. \<Sum>y<n. if x = k then (if y = l then A x y + A y x else 0) else 0)"
    unfolding hessian_form_def
    by (intro sum.cong refl) (simp add: unit_direction_def)
  also have "\<dots> = (\<Sum>x<n. if x = k then A x l + A l x else 0)"
  proof (intro sum.cong refl)
    fix x
    show "(\<Sum>y<n. if x = k then if y = l then A x y + A y x else 0 else 0)
          = (if x = k then A x l + A l x else 0)"
      using assms(2) by (cases "x = k") (simp_all add: sum.delta)
  qed
  also have "\<dots> = A k l + A l k"
    using assms(1) by (simp add: sum.delta)
  finally show ?thesis .
qed

lemma quadratic_density_entry:
  assumes "i < length mir" "k < Dimension p" "l < Dimension p"
  shows "TElem (linearized_proxyvalues (quadratic_density A p) ud mir lh [p]
                  (diagonal_pass (quadratic_density A p) ud mir lh [p]) 0 0) i l k
         = A k l + A l k"
proof -
  have prim: "\<forall>q c r d.
                snd (snd (cf_EvaluateDDeriv (quadratic_density A p) (seeded ud q c r d) mir)) i
                = hessian_form A (addr p) (Dimension p) (seed_direction (seeded ud q c r d))
                    (seed_direction (seeded ud q c r d))"
    by (simp add: quadratic_density_dderiv [OF assms(1)] hessian_form_diag)
  have "TElem (linearized_proxyvalues (quadratic_density A p) ud mir lh [p]
                  (diagonal_pass (quadratic_density A p) ud mir lh [p]) 0 0) i l k
        = hessian_form A (addr p) (Dimension p)
            (unit_direction (addr ([p] ! 0), k)) (unit_direction (addr ([p] ! 0), l))"
    by (rule polarization_recovers [OF hessian_form_symmetric_bilinear prim]) (simp_all add: assms)
  then show ?thesis
    using assms by (simp add: hessian_form_unit)
qed

text \<open>
  C1, as the code has it: in the cross pass of \<open>CalcLinearizedElementMatrix\<close> the tensor
  entry of the components \<open>(k, l)\<close> of the proxies \<open>(k1, l1)\<close> is the raw \<open>dderiv\<close> when the
  two seeds are the same, and half of (the combined \<open>dderiv\<close> minus the two diagonals of
  the diagonal pass) otherwise; the contraction uses it times the weight of the point. If
  at the userdata of the call (its pinned dofs and memo) and at the point \<open>i\<close> the
  \<open>dderiv\<close> is, for every seeding, a symmetric bilinear form \<open>B\<close> of the seed direction
  (\<open>B\<close> may depend on the pinned dofs and on the point), the entry is the mixed value
  \<open>B e\<^sub>1 e\<^sub>2\<close> of the two unit directions. For the quadratic density
  \<open>f(u) = u\<^sup>T A u\<close> it is the Hessian entry \<open>A k l + A l k\<close> (twice \<open>A\<close> when \<open>A\<close> is
  symmetric).
\<close>

theorem polarization_tensor_entry:
  "(k1 < length proxies \<and> l1 < length proxies
      \<and> k < Dimension (proxies ! k1) \<and> l < Dimension (proxies ! l1) \<longrightarrow>
      TElem (linearized_proxyvalues cf ud mir lh proxies
               (diagonal_pass cf ud mir lh proxies) k1 l1) i l k
        = (if addr (proxies ! k1) = addr (proxies ! l1) \<and> k = l
           then snd (snd (cf_EvaluateDDeriv cf
                  (seeded ud (proxies ! k1) k (proxies ! l1) l) mir)) i
           else 0.5 * (snd (snd (cf_EvaluateDDeriv cf
                         (seeded ud (proxies ! k1) k (proxies ! l1) l) mir)) i
                       - snd (snd (cf_EvaluateDDeriv cf
                           (seeded ud (proxies ! k1) k (proxies ! k1) k) mir)) i
                       - snd (snd (cf_EvaluateDDeriv cf
                           (seeded ud (proxies ! l1) l (proxies ! l1) l) mir)) i))
      \<and> (i < length mir \<longrightarrow>
           TElem (foldl (\<lambda>proxyvalues i. ScalePoint proxyvalues i (GetWeight (mir ! i)))
                    (linearized_proxyvalues cf ud mir lh proxies
                       (diagonal_pass cf ud mir lh proxies) k1 l1) [0..<length mir]) i l k
           = TElem (linearized_proxyvalues cf ud mir lh proxies
                      (diagonal_pass cf ud mir lh proxies) k1 l1) i l k * GetWeight (mir ! i))
      \<and> (symmetric_bilinear B
           \<and> (\<forall>p c q d. snd (snd (cf_EvaluateDDeriv cf (seeded ud p c q d) mir)) i
                      = B (seed_direction (seeded ud p c q d))
                          (seed_direction (seeded ud p c q d))) \<longrightarrow>
           TElem (linearized_proxyvalues cf ud mir lh proxies
                    (diagonal_pass cf ud mir lh proxies) k1 l1) i l k
           = B (unit_direction (addr (proxies ! k1), k))
               (unit_direction (addr (proxies ! l1), l))))
   \<and> (i < length mir \<and> k < Dimension p \<and> l < Dimension p \<longrightarrow>
        TElem (linearized_proxyvalues (quadratic_density A p) ud mir lh [p]
                 (diagonal_pass (quadratic_density A p) ud mir lh [p]) 0 0) i l k
        = A k l + A l k)"
proof (intro conjI impI)
  assume idx: "k1 < length proxies \<and> l1 < length proxies
      \<and> k < Dimension (proxies ! k1) \<and> l < Dimension (proxies ! l1)"
  then have i1: "k1 < length proxies" and i2: "l1 < length proxies"
    and i3: "k < Dimension (proxies ! k1)" and i4: "l < Dimension (proxies ! l1)"
    by simp_all
  show "TElem (linearized_proxyvalues cf ud mir lh proxies
               (diagonal_pass cf ud mir lh proxies) k1 l1) i l k
        = (if addr (proxies ! k1) = addr (proxies ! l1) \<and> k = l
           then snd (snd (cf_EvaluateDDeriv cf
                  (seeded ud (proxies ! k1) k (proxies ! l1) l) mir)) i
           else 0.5 * (snd (snd (cf_EvaluateDDeriv cf
                         (seeded ud (proxies ! k1) k (proxies ! l1) l) mir)) i
                       - snd (snd (cf_EvaluateDDeriv cf
                           (seeded ud (proxies ! k1) k (proxies ! k1) k) mir)) i
                       - snd (snd (cf_EvaluateDDeriv cf
                           (seeded ud (proxies ! l1) l (proxies ! l1) l) mir)) i))"
    unfolding linearized_proxyvalues_TElem [OF i4 i3]
      diagonal_pass_Elem [OF i1 i3] diagonal_pass_Elem [OF i2 i4]
    by simp
  {
    assume "i < length mir"
    then show "TElem (foldl (\<lambda>proxyvalues i. ScalePoint proxyvalues i (GetWeight (mir ! i)))
                    (linearized_proxyvalues cf ud mir lh proxies
                       (diagonal_pass cf ud mir lh proxies) k1 l1) [0..<length mir]) i l k
           = TElem (linearized_proxyvalues cf ud mir lh proxies
                      (diagonal_pass cf ud mir lh proxies) k1 l1) i l k * GetWeight (mir ! i)"
      by (simp add: ScalePoint_fold)
  }
  {
    assume "symmetric_bilinear B
           \<and> (\<forall>p c q d. snd (snd (cf_EvaluateDDeriv cf (seeded ud p c q d) mir)) i
                      = B (seed_direction (seeded ud p c q d))
                          (seed_direction (seeded ud p c q d)))"
    then show "TElem (linearized_proxyvalues cf ud mir lh proxies
                    (diagonal_pass cf ud mir lh proxies) k1 l1) i l k
           = B (unit_direction (addr (proxies ! k1), k))
               (unit_direction (addr (proxies ! l1), l))"
      using polarization_recovers [OF _ _ i1 i2 i3 i4] by blast
  }
next
  assume "i < length mir \<and> k < Dimension p \<and> l < Dimension p"
  then show "TElem (linearized_proxyvalues (quadratic_density A p) ud mir lh [p]
                 (diagonal_pass (quadratic_density A p) ud mir lh [p]) 0 0) i l k
        = A k l + A l k"
    by (simp add: quadratic_density_entry)
qed

lemma Dimension_trial_w: "Dimension trial_w = 2"
  by (simp add: Dimension_def trial_w_def vec2_diffop_def)

lemma scalar_form_symmetric_bilinear: "symmetric_bilinear (scalar_form c a)"
  by (simp add: symmetric_bilinear_def scalar_form_def algebra_simps)

lemma ProxyCF_trial_u_dderiv:
  "fst (cf_EvaluateDDeriv (ProxyCF trial_u) (seeded (pinned_userdata fel0 [x]) p c q d) [m]) 0 = x"
  "fst (snd (cf_EvaluateDDeriv (ProxyCF trial_u) (seeded (pinned_userdata fel0 [x]) p c q d) [m])) 0
     = seed_direction (seeded (pinned_userdata fel0 [x]) p c q d) (addr trial_u, 0)"
  "snd (snd (cf_EvaluateDDeriv (ProxyCF trial_u) (seeded (pinned_userdata fel0 [x]) p c q d) [m])) 0
     = 0"
proof -
  have d: "Dimension trial_u = 1" by (simp add: Dimension_def trial_u_def id_diffop_def)
  show "fst (cf_EvaluateDDeriv (ProxyCF trial_u) (seeded (pinned_userdata fel0 [x]) p c q d) [m]) 0
        = x"
    by (simp add: ProxyCF_def Let_def d EvaluateDDeriv_ud_def seeded_def pinned_userdata_def
        ProxyUserData_init_def ApplyRule_def trial_u_def id_diffop_def)
  show "fst (snd (cf_EvaluateDDeriv (ProxyCF trial_u)
          (seeded (pinned_userdata fel0 [x]) p c q d) [m])) 0
     = seed_direction (seeded (pinned_userdata fel0 [x]) p c q d) (addr trial_u, 0)"
    by (simp add: ProxyCF_def Let_def d deriv_marks_seed_direction)
  show "snd (snd (cf_EvaluateDDeriv (ProxyCF trial_u)
          (seeded (pinned_userdata fel0 [x]) p c q d) [m])) 0 = 0"
    by (simp add: ProxyCF_def Let_def d EvaluateDDeriv_ud_def nth_SetZero)
qed

lemma cube_density_dderiv:
  "snd (snd (cf_EvaluateDDeriv cube_density (seeded (pinned_userdata fel0 [x]) p c q d) [m])) 0
   = scalar_form (6 * x) (addr trial_u)
       (seed_direction (seeded (pinned_userdata fel0 [x]) p c q d))
       (seed_direction (seeded (pinned_userdata fel0 [x]) p c q d))"
  using ProxyCF_trial_u_dderiv [of x p c q d m]
  by (simp add: cube_density_def MultCF_def Let_def scalar_form_def algebra_simps)

theorem polarization_tensor_entry_witness:
  "symmetric_bilinear (hessian_form matrix_2113 (addr trial_w) 2)
   \<and> TElem (linearized_proxyvalues (quadratic_density matrix_2113 trial_w)
              (pinned_userdata fel0 [7, 9]) [mip_w 1] (\<lambda>n. 0) [trial_w]
              (diagonal_pass (quadratic_density matrix_2113 trial_w)
                 (pinned_userdata fel0 [7, 9]) [mip_w 1] (\<lambda>n. 0) [trial_w]) 0 0) 0 1 0
     = 2
   \<and> TElem (foldl (\<lambda>proxyvalues i. ScalePoint proxyvalues i (GetWeight ([mip_w 4] ! i)))
              (linearized_proxyvalues (quadratic_density matrix_2113 trial_w)
                 (pinned_userdata fel0 [7, 9]) [mip_w 4] (\<lambda>n. 0) [trial_w]
                 (diagonal_pass (quadratic_density matrix_2113 trial_w)
                    (pinned_userdata fel0 [7, 9]) [mip_w 4] (\<lambda>n. 0) [trial_w]) 0 0)
              [0..<length [mip_w 4]]) 0 1 0
     = 8
   \<and> symmetric_bilinear (scalar_form 42 (addr trial_u))
   \<and> TElem (linearized_proxyvalues cube_density (pinned_userdata fel0 [7]) [mip_w 1]
              (\<lambda>n. 0) [trial_u]
              (diagonal_pass cube_density (pinned_userdata fel0 [7]) [mip_w 1] (\<lambda>n. 0)
                 [trial_u]) 0 0) 0 0 0
     = 42"
proof -
  let ?cf = "quadratic_density matrix_2113 trial_w"
  let ?ud = "pinned_userdata fel0 [7, 9]"
  let ?B = "hessian_form matrix_2113 (addr trial_w) 2"
  have bil: "symmetric_bilinear ?B" by (rule hessian_form_symmetric_bilinear)
  have prim: "\<forall>p c q d. snd (snd (cf_EvaluateDDeriv ?cf (seeded ?ud p c q d) [m])) 0
                = ?B (seed_direction (seeded ?ud p c q d)) (seed_direction (seeded ?ud p c q d))"
    for m
    by (simp add: quadratic_density_dderiv hessian_form_diag Dimension_trial_w)
  have unit: "?B (unit_direction (addr trial_w, 0)) (unit_direction (addr trial_w, 1)) = 2"
    by (simp add: hessian_form_unit matrix_2113_def)
  note T1 = polarization_tensor_entry [of 0 "[trial_w]" 0 0 1 ?cf ?ud "[mip_w 1]" "\<lambda>n. 0" 0 ?B
      trial_w matrix_2113]
  note T4 = polarization_tensor_entry [of 0 "[trial_w]" 0 0 1 ?cf ?ud "[mip_w 4]" "\<lambda>n. 0" 0 ?B
      trial_w matrix_2113]
  have a: "TElem (linearized_proxyvalues ?cf ?ud [mip_w 1] (\<lambda>n. 0) [trial_w]
              (diagonal_pass ?cf ?ud [mip_w 1] (\<lambda>n. 0) [trial_w]) 0 0) 0 1 0 = 2"
    using T1 bil prim [of "mip_w 1"] unit by (simp add: Dimension_trial_w)
  have b: "TElem (linearized_proxyvalues ?cf ?ud [mip_w 4] (\<lambda>n. 0) [trial_w]
              (diagonal_pass ?cf ?ud [mip_w 4] (\<lambda>n. 0) [trial_w]) 0 0) 0 1 0 = 2"
    using T4 bil prim [of "mip_w 4"] unit by (simp add: Dimension_trial_w)
  have c: "TElem (foldl (\<lambda>proxyvalues i. ScalePoint proxyvalues i (GetWeight ([mip_w 4] ! i)))
              (linearized_proxyvalues ?cf ?ud [mip_w 4] (\<lambda>n. 0) [trial_w]
                 (diagonal_pass ?cf ?ud [mip_w 4] (\<lambda>n. 0) [trial_w]) 0 0)
              [0..<length [mip_w 4]]) 0 1 0 = 8"
    using T4 [THEN conjunct1] b by (simp add: Dimension_trial_w mip_w_def)
  let ?C = "scalar_form 42 (addr trial_u)"
  have bilC: "symmetric_bilinear ?C" by (rule scalar_form_symmetric_bilinear)
  have primC: "\<forall>p c q d.
      snd (snd (cf_EvaluateDDeriv cube_density (seeded (pinned_userdata fel0 [7]) p c q d)
                  [mip_w 1])) 0
      = ?C (seed_direction (seeded (pinned_userdata fel0 [7]) p c q d))
           (seed_direction (seeded (pinned_userdata fel0 [7]) p c q d))"
    by (simp add: cube_density_dderiv)
  have unitC: "?C (unit_direction (addr trial_u, 0)) (unit_direction (addr trial_u, 0)) = 42"
    by (simp add: scalar_form_def unit_direction_def)
  have du: "Dimension trial_u = 1" by (simp add: Dimension_def trial_u_def id_diffop_def)
  note T7 = polarization_tensor_entry [of 0 "[trial_u]" 0 0 0 cube_density
      "pinned_userdata fel0 [7]" "[mip_w 1]" "\<lambda>n. 0" 0 ?C trial_u matrix_2113]
  have e: "TElem (linearized_proxyvalues cube_density (pinned_userdata fel0 [7]) [mip_w 1]
              (\<lambda>n. 0) [trial_u]
              (diagonal_pass cube_density (pinned_userdata fel0 [7]) [mip_w 1] (\<lambda>n. 0)
                 [trial_u]) 0 0) 0 0 0 = 42"
    using T7 [THEN conjunct1] bilC primC unitC by (simp add: du)
  show ?thesis using bil a c bilC e by simp
qed

text \<open>
  C1 as stated fails in its example: for the quadratic density \<open>f(u) = u\<^sup>T A u\<close> with
  \<open>A = [1]\<close>, that is \<open>u * u\<close>, on one dof with one point of weight 1,
  \<open>CalcLinearizedElementMatrix\<close> gives the Hessian \<open>[2]\<close>, not \<open>A = [1]\<close>.
\<close>

theorem quadratic_density_counterexample:
  "new_SymbolicEnergy (quadratic_density (\<lambda>x y. 1) trial_u) VOL = Inr energy_square
   \<and> Elem (CalcLinearizedElementMatrix one_point_rules energy_square fel0 (trafo_measure 1) [3]
             (elmat_11 0) (\<lambda>n. 0)) 0 0 = 2"
proof -
  have d: "Dimension trial_u = 1"
    by (simp add: Dimension_def trial_u_def id_diffop_def)
  have q: "quadratic_density (\<lambda>x y. 1) trial_u
           = AddCF (ScaleCF 1 (MultCF (ComponentCF trial_u 0) (ComponentCF trial_u 0)))
               (ConstantCF 0)"
    by (simp add: quadratic_density_def d SumCF_def)
  have dim: "cf_Dimension (quadratic_density (\<lambda>x y. 1) trial_u) = 1"
    by (simp add: q AddCF_def ScaleCF_def MultCF_def ComponentCF_def)
  have tt: "TraverseTree (quadratic_density (\<lambda>x y. 1) trial_u) = [trial_u, trial_u]"
    by (simp add: q AddCF_def ScaleCF_def MultCF_def ComponentCF_def ConstantCF_def)
  have it: "\<not> IsTestFunction trial_u" by (simp add: trial_u_def)
  have new: "new_SymbolicEnergy (quadratic_density (\<lambda>x y. 1) trial_u) VOL = Inr energy_square"
    by (simp add: new_SymbolicEnergy_def energy_square_def dim tt it Contains_def)
  have mir: "MapRule (trafo_measure 1)
               (IntegrationRule one_point_rules (GetElementType (trafo_measure 1)) (2 * Order fel0))
             = [mip_w 1]"
    by (simp add: trafo_measure_def one_point_rules_def)
  have e: "linearized_entry (quadratic_density (\<lambda>x y. 1) trial_u) ud [mip_w 1] lh [trial_u]
             0 0 0 0 0 = 2" for ud lh
    unfolding linearized_entry_def
    by (simp add: quadratic_density_entry d mip_w_def)
  have B: "\<And>a. CalcMatrix (evaluator trial_u) fel0 (mip_w 1) 0 a = (if a = 0 then 1 else 0)"
    by (simp add: trial_u_def id_diffop_def)
  have "Elem (CalcLinearizedElementMatrix one_point_rules energy_square fel0 (trafo_measure 1) [3]
             (elmat_11 0) (\<lambda>n. 0)) 0 0 = 2"
    unfolding CalcLinearizedElementMatrix_closed Let_def mir
    by (simp add: energy_square_def d e B mat_add_def MatZero_def)
  with new show ?thesis by simp
qed

section \<open>Sums of expressions\<close>

lemma collect_proxies:
  "foldl (\<lambda>(trial, test) proxy.
            if IsTestFunction proxy
            then (if \<not> Contains test proxy then (trial, test @ [proxy]) else (trial, test))
            else (if \<not> Contains trial proxy then (trial @ [proxy], test) else (trial, test)))
     (tr, te) ns
   = (foldl add_proxy tr (filter (\<lambda>p. \<not> IsTestFunction p) ns),
      foldl add_proxy te (filter IsTestFunction ns))"
  by (induction ns arbitrary: tr te) (simp_all add: add_proxy_def)

lemma add_proxy_props:
  assumes "inj_on addr (set acc \<union> set xs)" and "distinct acc"
  shows "distinct (foldl add_proxy acc xs) \<and> set (foldl add_proxy acc xs) = set acc \<union> set xs"
  using assms
proof (induction xs arbitrary: acc)
  case Nil
  then show ?case by simp
next
  case (Cons x xs)
  show ?case
  proof (cases "Contains acc x")
    case True
    then obtain q where q: "q \<in> set acc" "addr q = addr x"
      by (auto simp add: Contains_def)
    have "q = x"
      by (rule inj_onD [OF Cons.prems(1)]) (use q in auto)
    then have xin: "x \<in> set acc" using q by simp
    have inj: "inj_on addr (set acc \<union> set xs)"
      using Cons.prems(1) by (rule inj_on_subset) auto
    show ?thesis
      using Cons.IH [OF inj Cons.prems(2)] True xin
      by (auto simp add: add_proxy_def)
  next
    case False
    then have xnot: "x \<notin> set acc" by (auto simp add: Contains_def)
    have inj: "inj_on addr (set (acc @ [x]) \<union> set xs)"
      using Cons.prems(1) by (rule inj_on_subset) auto
    have d: "distinct (acc @ [x])" using Cons.prems(2) xnot by simp
    show ?thesis
      using Cons.IH [OF inj d] False
      by (auto simp add: add_proxy_def)
  qed
qed

lemma sum_list_restrict:
  fixes F :: "'a \<Rightarrow> real"
  assumes "distinct L" "distinct L1" "set L1 \<subseteq> set L"
    and "\<And>p. p \<in> set L \<Longrightarrow> p \<notin> set L1 \<Longrightarrow> F p = 0"
  shows "(\<Sum>p\<leftarrow>L. F p) = (\<Sum>p\<leftarrow>L1. F p)"
proof -
  have "(\<Sum>p\<leftarrow>L. F p) = sum F (set L)"
    using assms(1) by (rule sum_list_distinct_conv_sum_set)
  also have "\<dots> = sum F (set L1)"
    by (rule sum.mono_neutral_right) (use assms in auto)
  also have "\<dots> = (\<Sum>p\<leftarrow>L1. F p)"
    using assms(2) by (rule sum_list_distinct_conv_sum_set [symmetric])
  finally show ?thesis .
qed

lemma double_sum_list_restrict:
  fixes V :: "'a \<Rightarrow> 'b \<Rightarrow> real"
  assumes T: "distinct T" "distinct T1" "set T1 \<subseteq> set T"
    and S: "distinct S" "distinct S1" "set S1 \<subseteq> set S"
    and zero: "\<And>p1 p2. p1 \<in> set T \<Longrightarrow> p2 \<in> set S \<Longrightarrow> p1 \<notin> set T1 \<or> p2 \<notin> set S1
                  \<Longrightarrow> V p1 p2 = 0"
  shows "(\<Sum>p1\<leftarrow>T. \<Sum>p2\<leftarrow>S. V p1 p2) = (\<Sum>p1\<leftarrow>T1. \<Sum>p2\<leftarrow>S1. V p1 p2)"
proof -
  have inner: "(\<Sum>p2\<leftarrow>S. V p1 p2) = (\<Sum>p2\<leftarrow>S1. V p1 p2)" if "p1 \<in> set T" for p1
    by (rule sum_list_restrict [OF S]) (use that zero in auto)
  have "(\<Sum>p1\<leftarrow>T. \<Sum>p2\<leftarrow>S. V p1 p2) = (\<Sum>p1\<leftarrow>T. \<Sum>p2\<leftarrow>S1. V p1 p2)"
    by (intro arg_cong [where f = sum_list] map_cong refl inner)
  also have "\<dots> = (\<Sum>p1\<leftarrow>T1. \<Sum>p2\<leftarrow>S1. V p1 p2)"
  proof (rule sum_list_restrict [OF T])
    fix p1 assume p1: "p1 \<in> set T" "p1 \<notin> set T1"
    have "\<And>p2. p2 \<in> set S1 \<Longrightarrow> V p1 p2 = 0"
      using zero p1 S(3) by auto
    then show "(\<Sum>p2\<leftarrow>S1. V p1 p2) = 0"
      by (simp cong: map_cong)
  qed
  finally show ?thesis .
qed

lemma volume_pair_term_AddCF:
  "volume_pair_term (AddCF f g) ud el mir p1 p2 a b
   = volume_pair_term f ud el mir p1 p2 a b + volume_pair_term g ud el mir p1 p2 a b"
  by (simp add: volume_pair_term_def AddCF_def distrib_left distrib_right sum.distrib)

lemma volume_pair_term_zero:
  assumes "\<And>k l i. cf_EvaluateRule cf (seeded ud p1 k p2 l) mir i = 0"
  shows "volume_pair_term cf ud el mir p1 p2 a b = 0"
  by (simp add: volume_pair_term_def assms)

lemma new_bfi_fields:
  assumes "new_SymbolicBilinearFormIntegrator cf vb eb = Inr bfi"
  shows "bfi_cf bfi = cf" and "element_boundary bfi = eb"
    and "trial_proxies bfi
         = foldl add_proxy [] (filter (\<lambda>p. \<not> IsTestFunction p) (TraverseTree cf))"
    and "test_proxies bfi = foldl add_proxy [] (filter IsTestFunction (TraverseTree cf))"
  using assms
  by (auto simp add: new_SymbolicBilinearFormIntegrator_def collect_proxies split: if_splits)

lemma collected_props:
  assumes "inj_on addr (set ns)"
  shows "distinct (foldl add_proxy [] (filter P ns))"
    and "set (foldl add_proxy [] (filter P ns)) = {p \<in> set ns. P p}"
proof -
  have inj: "inj_on addr (set [] \<union> set (filter P ns))"
    using assms by (rule inj_on_subset) auto
  from add_proxy_props [OF inj] show "distinct (foldl add_proxy [] (filter P ns))"
    and "set (foldl add_proxy [] (filter P ns)) = {p \<in> set ns. P p}"
    by auto
qed

lemma additive_closed:
  assumes c1: "new_SymbolicBilinearFormIntegrator cf1 vb False = Inr bfi1"
    and c2: "new_SymbolicBilinearFormIntegrator cf2 vb False = Inr bfi2"
    and cs: "new_SymbolicBilinearFormIntegrator (AddCF cf1 cf2) vb False = Inr bfis"
    and inj: "inj_on addr (set (TraverseTree cf1) \<union> set (TraverseTree cf2))"
    and own1: "vanishes_off_own_pairs cf1 bfi1 bfis"
    and own2: "vanishes_off_own_pairs cf2 bfi2 bfis"
  shows "CalcElementMatrixVol ext bfis el trafo elmat lh
         = AddTo (CalcElementMatrixVol ext bfi1 el trafo elmat lh)
             (CalcElementMatrixVol ext bfi2 el trafo elmat lh)"
proof -
  let ?ud = "ProxyUserData_init 0 0 []"
  let ?mir = "MapRule trafo (IntegrationRule ext (GetElementType trafo) (2 * Order el))"
  let ?nt = "\<lambda>p. \<not> IsTestFunction p"
  note f1 = new_bfi_fields [OF c1] and f2 = new_bfi_fields [OF c2] and fs = new_bfi_fields [OF cs]
  have tts: "TraverseTree (AddCF cf1 cf2) = TraverseTree cf1 @ TraverseTree cf2"
    by (simp add: AddCF_def)
  have inj1: "inj_on addr (set (TraverseTree cf1))"
    and inj2: "inj_on addr (set (TraverseTree cf2))"
    and injs: "inj_on addr (set (TraverseTree (AddCF cf1 cf2)))"
    using inj by (auto simp add: tts intro: inj_on_subset)
  have dT1: "distinct (trial_proxies bfi1)" and dS1: "distinct (test_proxies bfi1)"
    and dT2: "distinct (trial_proxies bfi2)" and dS2: "distinct (test_proxies bfi2)"
    and dTs: "distinct (trial_proxies bfis)" and dSs: "distinct (test_proxies bfis)"
    unfolding f1 f2 fs
    by (rule collected_props(1) [OF inj1] collected_props(1) [OF inj2]
        collected_props(1) [OF injs])+
  have sub: "set (trial_proxies bfi1) \<subseteq> set (trial_proxies bfis)"
    "set (test_proxies bfi1) \<subseteq> set (test_proxies bfis)"
    "set (trial_proxies bfi2) \<subseteq> set (trial_proxies bfis)"
    "set (test_proxies bfi2) \<subseteq> set (test_proxies bfis)"
    unfolding f1 f2 fs collected_props(2) [OF inj1] collected_props(2) [OF inj2]
      collected_props(2) [OF injs]
    by (auto simp add: tts)
  have z1: "volume_pair_term cf1 ?ud el ?mir p1 p2 a b = 0"
    if "p1 \<in> set (trial_proxies bfis)" "p2 \<in> set (test_proxies bfis)"
      "p1 \<notin> set (trial_proxies bfi1) \<or> p2 \<notin> set (test_proxies bfi1)" for p1 p2 a b
    by (rule volume_pair_term_zero) (use own1 that in \<open>auto simp add: vanishes_off_own_pairs_def\<close>)
  have z2: "volume_pair_term cf2 ?ud el ?mir p1 p2 a b = 0"
    if "p1 \<in> set (trial_proxies bfis)" "p2 \<in> set (test_proxies bfis)"
      "p1 \<notin> set (trial_proxies bfi2) \<or> p2 \<notin> set (test_proxies bfi2)" for p1 p2 a b
    by (rule volume_pair_term_zero) (use own2 that in \<open>auto simp add: vanishes_off_own_pairs_def\<close>)
  have r1: "(\<Sum>p1\<leftarrow>trial_proxies bfis. \<Sum>p2\<leftarrow>test_proxies bfis.
               volume_pair_term cf1 ?ud el ?mir p1 p2 a b)
            = (\<Sum>p1\<leftarrow>trial_proxies bfi1. \<Sum>p2\<leftarrow>test_proxies bfi1.
               volume_pair_term cf1 ?ud el ?mir p1 p2 a b)" for a b
    by (rule double_sum_list_restrict [OF dTs dT1 sub(1) dSs dS1 sub(2)]) (rule z1)
  have r2: "(\<Sum>p1\<leftarrow>trial_proxies bfis. \<Sum>p2\<leftarrow>test_proxies bfis.
               volume_pair_term cf2 ?ud el ?mir p1 p2 a b)
            = (\<Sum>p1\<leftarrow>trial_proxies bfi2. \<Sum>p2\<leftarrow>test_proxies bfi2.
               volume_pair_term cf2 ?ud el ?mir p1 p2 a b)" for a b
    by (rule double_sum_list_restrict [OF dTs dT2 sub(3) dSs dS2 sub(4)]) (rule z2)
  have split: "(\<Sum>p1\<leftarrow>trial_proxies bfis. \<Sum>p2\<leftarrow>test_proxies bfis.
                  volume_pair_term (AddCF cf1 cf2) ?ud el ?mir p1 p2 a b)
               = (\<Sum>p1\<leftarrow>trial_proxies bfis. \<Sum>p2\<leftarrow>test_proxies bfis.
                    volume_pair_term cf1 ?ud el ?mir p1 p2 a b)
                 + (\<Sum>p1\<leftarrow>trial_proxies bfis. \<Sum>p2\<leftarrow>test_proxies bfis.
                    volume_pair_term cf2 ?ud el ?mir p1 p2 a b)" for a b
    by (simp add: volume_pair_term_AddCF sum_list_addf)
  show ?thesis
    unfolding CalcElementMatrixVol_closed f1(1) f2(1) fs(1)
    by (simp add: mat_add_def AddTo_def MatZero_def split r1 r2 fun_eq_iff)
qed

text \<open>
  C9, as the code has it: the volume assembly of the sum of two expressions is the sum
  of the two assemblies when each expression vanishes off its own proxy pairs (as an
  expression bilinear in its own trial and test proxies does); the integrators are those
  that the constructor builds, and distinct proxies have distinct addresses.
\<close>

theorem bilinear_assembly_additive:
  assumes "new_SymbolicBilinearFormIntegrator cf1 vb False = Inr bfi1"
    and "new_SymbolicBilinearFormIntegrator cf2 vb False = Inr bfi2"
    and "new_SymbolicBilinearFormIntegrator (AddCF cf1 cf2) vb False = Inr bfis"
    and "inj_on addr (set (TraverseTree cf1) \<union> set (TraverseTree cf2))"
    and "vanishes_off_own_pairs cf1 bfi1 bfis"
    and "vanishes_off_own_pairs cf2 bfi2 bfis"
  shows "\<exists>m1 m2. T_CalcElementMatrix ext bfi1 el trafo elmat lh = Inr m1
           \<and> T_CalcElementMatrix ext bfi2 el trafo elmat lh = Inr m2
           \<and> T_CalcElementMatrix ext bfis el trafo elmat lh = Inr (AddTo m1 m2)"
  using additive_closed [OF assms] new_bfi_fields(2) [OF assms(1)]
    new_bfi_fields(2) [OF assms(2)] new_bfi_fields(2) [OF assms(3)]
  by (simp add: T_CalcElementMatrix_def)

lemma proxy_facts:
  "Dimension trial_u = 1" "Dimension test_v = 1" "Dimension test_v2 = 1"
  "\<not> IsTestFunction trial_u" "IsTestFunction test_v" "IsTestFunction test_v2"
  "addr trial_u = 1" "addr test_v = 2" "addr test_v2 = 3"
  by (simp_all add: Dimension_def trial_u_def test_v_def test_v2_def id_diffop_def)

lemma proxies_differ:
  "trial_u \<noteq> test_v" "trial_u \<noteq> test_v2" "test_v \<noteq> test_v2" "test_v2 \<noteq> test_v"
  by (simp_all add: trial_u_def test_v_def test_v2_def)

lemma new_bfi_mass:
  "new_SymbolicBilinearFormIntegrator (MultCF (ProxyCF trial_u) (ProxyCF test_v)) VOL False
   = Inr bfi_mass"
  by (simp add: new_SymbolicBilinearFormIntegrator_def bfi_mass_def MultCF_def ProxyCF_def
      proxy_facts Contains_def)

lemma new_bfi_mass2:
  "new_SymbolicBilinearFormIntegrator (MultCF (ProxyCF trial_u) (ProxyCF test_v2)) VOL False
   = Inr bfi_mass2"
  by (simp add: new_SymbolicBilinearFormIntegrator_def bfi_mass2_def MultCF_def ProxyCF_def
      proxy_facts Contains_def)

lemma new_bfi_mass_sum:
  "new_SymbolicBilinearFormIntegrator
     (AddCF (MultCF (ProxyCF trial_u) (ProxyCF test_v))
        (MultCF (ProxyCF trial_u) (ProxyCF test_v2))) VOL False
   = Inr bfi_mass_sum"
  by (simp add: new_SymbolicBilinearFormIntegrator_def bfi_mass_sum_def AddCF_def MultCF_def
      ProxyCF_def proxy_facts Contains_def)

lemma new_bfi_const:
  "new_SymbolicBilinearFormIntegrator (ConstantCF 1) VOL False = Inr bfi_const"
  by (simp add: new_SymbolicBilinearFormIntegrator_def bfi_const_def ConstantCF_def)

lemma new_bfi_mass_plus_const:
  "new_SymbolicBilinearFormIntegrator
     (AddCF (MultCF (ProxyCF trial_u) (ProxyCF test_v)) (ConstantCF 1)) VOL False
   = Inr bfi_mass_plus_const"
  by (simp add: new_SymbolicBilinearFormIntegrator_def bfi_mass_plus_const_def AddCF_def
      MultCF_def ProxyCF_def ConstantCF_def proxy_facts Contains_def)

lemma mass_value:
  "cf_EvaluateRule (MultCF (ProxyCF trial_u) (ProxyCF p))
     (seeded (ProxyUserData_init 0 0 []) trial_u k q l) mir i
   = (if k = 0 then 1 else 0) * (if addr q = addr p \<and> l = 0 then 1 else 0)"
  if "IsTestFunction p" "Dimension p = 1" "addr p \<noteq> 1" "addr q \<noteq> 1" for p q
  using that
  by (cases k; cases l)
     (auto simp add: MultCF_def ProxyCF_def Evaluate_ud_def seeded_def ProxyUserData_init_def
       proxy_facts Let_def)

lemma vanishes_mass: "vanishes_off_own_pairs (MultCF (ProxyCF trial_u) (ProxyCF test_v))
                        bfi_mass bfi_mass_sum"
  by (simp add: vanishes_off_own_pairs_def bfi_mass_def bfi_mass_sum_def proxies_differ
      mass_value proxy_facts)

lemma vanishes_mass2: "vanishes_off_own_pairs (MultCF (ProxyCF trial_u) (ProxyCF test_v2))
                        bfi_mass2 bfi_mass_sum"
  by (simp add: vanishes_off_own_pairs_def bfi_mass2_def bfi_mass_sum_def proxies_differ
      mass_value proxy_facts)

lemma inj_three: "inj_on addr (set [trial_u, test_v] \<union> set [trial_u, test_v2])"
  by (simp add: inj_on_def proxy_facts)

theorem bilinear_assembly_additive_witness:
  "new_SymbolicBilinearFormIntegrator (MultCF (ProxyCF trial_u) (ProxyCF test_v)) VOL False
     = Inr bfi_mass
   \<and> new_SymbolicBilinearFormIntegrator (MultCF (ProxyCF trial_u) (ProxyCF test_v2)) VOL False
     = Inr bfi_mass2
   \<and> new_SymbolicBilinearFormIntegrator
       (AddCF (MultCF (ProxyCF trial_u) (ProxyCF test_v))
          (MultCF (ProxyCF trial_u) (ProxyCF test_v2))) VOL False
     = Inr bfi_mass_sum
   \<and> vanishes_off_own_pairs (MultCF (ProxyCF trial_u) (ProxyCF test_v)) bfi_mass bfi_mass_sum
   \<and> vanishes_off_own_pairs (MultCF (ProxyCF trial_u) (ProxyCF test_v2)) bfi_mass2 bfi_mass_sum
   \<and> (\<exists>m1 m2.
         T_CalcElementMatrix one_point_rules bfi_mass fel0 (trafo_measure 2) (elmat_11 7)
           (\<lambda>n. 0) = Inr m1
         \<and> T_CalcElementMatrix one_point_rules bfi_mass2 fel0 (trafo_measure 2) (elmat_11 7)
             (\<lambda>n. 0) = Inr m2
         \<and> T_CalcElementMatrix one_point_rules bfi_mass_sum fel0 (trafo_measure 2) (elmat_11 7)
             (\<lambda>n. 0) = Inr (AddTo m1 m2))"
proof -
  have tt: "TraverseTree (MultCF (ProxyCF trial_u) (ProxyCF test_v)) = [trial_u, test_v]"
    "TraverseTree (MultCF (ProxyCF trial_u) (ProxyCF test_v2)) = [trial_u, test_v2]"
    by (simp_all add: MultCF_def ProxyCF_def)
  have inj: "inj_on addr (set (TraverseTree (MultCF (ProxyCF trial_u) (ProxyCF test_v)))
               \<union> set (TraverseTree (MultCF (ProxyCF trial_u) (ProxyCF test_v2))))"
    unfolding tt by (rule inj_three)
  show ?thesis
    using bilinear_assembly_additive [OF new_bfi_mass new_bfi_mass2 new_bfi_mass_sum inj
        vanishes_mass vanishes_mass2, of one_point_rules fel0 "trafo_measure 2" "elmat_11 7"
        "\<lambda>n. 0"]
      new_bfi_mass new_bfi_mass2 new_bfi_mass_sum vanishes_mass vanishes_mass2
    by simp
qed

lemma volume_one_pair:
  assumes "trial_proxies bfi = [trial_u]" "test_proxies bfi = [test_v]"
  shows "CalcElementMatrixVol one_point_rules bfi fel0 (trafo_measure M) (elmat_11 c) lh
         = elmat_entry (cf_EvaluateRule (bfi_cf bfi)
               (seeded (ProxyUserData_init 0 0 []) trial_u 0 test_v 0) [mip_w M] 0 * M)"
proof -
  have mir: "MapRule (trafo_measure M)
               (IntegrationRule one_point_rules (GetElementType (trafo_measure M)) (2 * Order fel0))
             = [mip_w M]"
    by (simp add: trafo_measure_def one_point_rules_def)
  have B: "\<And>m a. CalcMatrix id_diffop fel0 m 0 a = (if a = 0 then 1 else 0)"
    "UsedDofs id_diffop fel0 = (0, 1)"
    "evaluator trial_u = id_diffop" "evaluator test_v = id_diffop"
    "GetWeight (mip_w M) = M"
    by (simp_all add: trial_u_def test_v_def id_diffop_def mip_w_def)
  show ?thesis
    unfolding CalcElementMatrixVol_closed mir assms
    by (simp add: volume_pair_term_def used_rect_def InRange_def proxy_facts B mat_add_def
        MatZero_def elmat_11_def elmat_entry_def fun_eq_iff)
qed

text \<open>
  C9 as stated fails: the assembly of \<open>u * v + 1\<close> is \<open>[2]\<close> (one point of weight 1,
  identity operators), while the assemblies of \<open>u * v\<close> and of the constant 1 (which has
  no proxies) are \<open>[1]\<close> and \<open>[0]\<close>.
\<close>

theorem sum_with_constant_counterexample:
  "new_SymbolicBilinearFormIntegrator (MultCF (ProxyCF trial_u) (ProxyCF test_v)) VOL False
     = Inr bfi_mass
   \<and> new_SymbolicBilinearFormIntegrator (ConstantCF 1) VOL False = Inr bfi_const
   \<and> new_SymbolicBilinearFormIntegrator
       (AddCF (MultCF (ProxyCF trial_u) (ProxyCF test_v)) (ConstantCF 1)) VOL False
     = Inr bfi_mass_plus_const
   \<and> T_CalcElementMatrix one_point_rules bfi_mass fel0 (trafo_measure 1) (elmat_11 0) (\<lambda>n. 0)
     = Inr (elmat_entry 1)
   \<and> T_CalcElementMatrix one_point_rules bfi_const fel0 (trafo_measure 1) (elmat_11 0) (\<lambda>n. 0)
     = Inr (elmat_entry 0)
   \<and> T_CalcElementMatrix one_point_rules bfi_mass_plus_const fel0 (trafo_measure 1) (elmat_11 0)
       (\<lambda>n. 0)
     = Inr (elmat_entry 2)
   \<and> AddTo (elmat_entry 1) (elmat_entry 0) \<noteq> elmat_entry 2"
proof -
  have v: "cf_EvaluateRule (MultCF (ProxyCF trial_u) (ProxyCF test_v))
             (seeded (ProxyUserData_init 0 0 []) trial_u 0 test_v 0) mir i = 1" for mir i
    by (simp add: mass_value proxy_facts)
  have a: "T_CalcElementMatrix one_point_rules bfi_mass fel0 (trafo_measure 1) (elmat_11 0)
             (\<lambda>n. 0) = Inr (elmat_entry 1)"
  proof -
    have f: "\<not> element_boundary bfi_mass" "trial_proxies bfi_mass = [trial_u]"
      "test_proxies bfi_mass = [test_v]"
      "bfi_cf bfi_mass = MultCF (ProxyCF trial_u) (ProxyCF test_v)"
      by (simp_all add: bfi_mass_def)
    show ?thesis
      by (simp add: T_CalcElementMatrix_def f volume_one_pair [OF f(2,3)] v)
  qed
  have b: "T_CalcElementMatrix one_point_rules bfi_const fel0 (trafo_measure 1) (elmat_11 0)
             (\<lambda>n. 0) = Inr (elmat_entry 0)"
    by (simp add: T_CalcElementMatrix_def CalcElementMatrixVol_closed bfi_const_def mat_add_def
        MatZero_def elmat_11_def elmat_entry_def)
  have c: "T_CalcElementMatrix one_point_rules bfi_mass_plus_const fel0 (trafo_measure 1)
             (elmat_11 0) (\<lambda>n. 0) = Inr (elmat_entry 2)"
  proof -
    have f: "\<not> element_boundary bfi_mass_plus_const"
      "trial_proxies bfi_mass_plus_const = [trial_u]"
      "test_proxies bfi_mass_plus_const = [test_v]"
      "bfi_cf bfi_mass_plus_const
       = AddCF (MultCF (ProxyCF trial_u) (ProxyCF test_v)) (ConstantCF 1)"
      by (simp_all add: bfi_mass_plus_const_def)
    have s: "cf_EvaluateRule (AddCF (MultCF (ProxyCF trial_u) (ProxyCF test_v)) (ConstantCF 1))
               (seeded (ProxyUserData_init 0 0 []) trial_u 0 test_v 0) mir i = 2" for mir i
      using v [of mir i] by (simp add: AddCF_def ConstantCF_def)
    show ?thesis
      by (simp add: T_CalcElementMatrix_def f volume_one_pair [OF f(2,3)] s)
  qed
  have d: "AddTo (elmat_entry 1) (elmat_entry 0) \<noteq> elmat_entry 2"
  proof
    assume "AddTo (elmat_entry 1) (elmat_entry 0) = elmat_entry 2"
    then have "Elem (AddTo (elmat_entry 1) (elmat_entry 0)) 0 0 = Elem (elmat_entry 2) 0 0"
      by simp
    then show False by (simp add: AddTo_def elmat_entry_def)
  qed
  show ?thesis
    using new_bfi_mass new_bfi_const new_bfi_mass_plus_const a b c d by simp
qed

end
